theory Spec2Isabelle
  imports Complex_Main "HOL-Library.Sublist"
begin

section \<open>Python values: errors, arrays, slices\<close>

text \<open>
  The two source files \<^verbatim>\<open>openpiv/windef.py\<close> (CPU) and \<^verbatim>\<open>openpiv/windef_gpu.py\<close>
  (GPU) are embedded function by function. Every exception the code can raise is a value
  \<open>Inl e\<close> of the result; array elements are reals (float rounding is not modelled).
\<close>

datatype error =
    ValueError string
  | IndexError string
  | NameError string
  | AttributeError string
  | OverflowError string
  | MaskError string
  | CollaboratorError string

type_synonym 'a res = "error + 'a"

definition bindE :: "'a res \<Rightarrow> ('a \<Rightarrow> 'b res) \<Rightarrow> 'b res" where
  "bindE m f = (case m of Inl e \<Rightarrow> Inl e | Inr x \<Rightarrow> f x)"

text \<open>
  A two-dimensional numpy array is the list of its rows. An array without rows is \<open>[]\<close>
  and has shape \<open>(0, 0)\<close>; \<open>rect\<close> says that all rows have the same length.
\<close>

type_synonym 'a array2 = "'a list list"

definition nrows :: "'a array2 \<Rightarrow> nat" where
  "nrows a = length a"

definition ncols :: "'a array2 \<Rightarrow> nat" where
  "ncols a = (case a of [] \<Rightarrow> 0 | r # _ \<Rightarrow> length r)"

definition shape :: "'a array2 \<Rightarrow> nat \<times> nat" where
  "shape a = (nrows a, ncols a)"

definition rect :: "'a array2 \<Rightarrow> bool" where
  "rect a = list_all (\<lambda>r. length r = ncols a) a"

text \<open>Python's \<open>xs[lo:hi]\<close> for arbitrary integers \<open>lo\<close>, \<open>hi\<close> (step 1).\<close>

definition slice_index :: "nat \<Rightarrow> int \<Rightarrow> nat" where
  "slice_index n i = (if i < 0 then nat (max (i + int n) 0) else min (nat i) n)"

definition py_slice :: "int \<Rightarrow> int \<Rightarrow> 'a list \<Rightarrow> 'a list" where
  "py_slice lo hi xs =
     (let n = length xs; a = slice_index n lo; b = slice_index n hi
      in take (b - a) (drop a xs))"

text \<open>\<open>a[r0:r1, c0:c1]\<close>.\<close>

definition py_slice2 :: "int \<Rightarrow> int \<Rightarrow> int \<Rightarrow> int \<Rightarrow> 'a array2 \<Rightarrow> 'a array2" where
  "py_slice2 r0 r1 c0 c1 a = map (py_slice c0 c1) (py_slice r0 r1 a)"

text \<open>
  numpy broadcasting of two 2-d operands: along each axis the lengths agree or one of
  them is 1.
\<close>

definition bc_len :: "nat \<Rightarrow> nat \<Rightarrow> nat option" where
  "bc_len m n = (if m = n then Some m else if m = 1 then Some n
                 else if n = 1 then Some m else None)"

definition bc_list :: "nat \<Rightarrow> 'a list \<Rightarrow> 'a list" where
  "bc_list n xs = (if length xs = n then xs else replicate n (hd xs))"

definition broadcast2 :: "'a array2 \<Rightarrow> 'b array2 \<Rightarrow> (('a \<times> 'b) array2) res" where
  "broadcast2 a b =
     (case (bc_len (nrows a) (nrows b), bc_len (ncols a) (ncols b)) of
        (Some r, Some c) \<Rightarrow>
          Inr (map2 (\<lambda>ra rb. zip (bc_list c ra) (bc_list c rb)) (bc_list r a) (bc_list r b))
      | _ \<Rightarrow> Inl (ValueError ''operands could not be broadcast together''))"

text \<open>\<open>np.where(mask, 0, frame)\<close> and \<open>np.logical_and(a, b)\<close>.\<close>

definition np_where_zero :: "bool array2 \<Rightarrow> real array2 \<Rightarrow> (real array2) res" where
  "np_where_zero m f =
     bindE (broadcast2 m f) (\<lambda>z. Inr (map (map (\<lambda>(b, x). if b then 0 else x)) z))"

definition np_logical_and :: "bool array2 \<Rightarrow> bool array2 \<Rightarrow> (bool array2) res" where
  "np_logical_and a b =
     bindE (broadcast2 a b) (\<lambda>z. Inr (map (map (\<lambda>(p, q). p \<and> q)) z))"

text \<open>
  \<open>np.pad(f, pad_width=((a, aa), (b, bb)), mode='constant')\<close>: zero rows and columns
  around \<open>f\<close>; a negative width is refused by numpy.
\<close>

definition np_pad :: "real array2 \<Rightarrow> int \<times> int \<Rightarrow> int \<times> int \<Rightarrow> (real array2) res" where
  "np_pad f rw cw =
     (case (rw, cw) of ((a, aa), (b, bb)) \<Rightarrow>
        if a < 0 \<or> aa < 0 \<or> b < 0 \<or> bb < 0
        then Inl (ValueError ''index can't contain negative values'')
        else
          let blank = replicate (nat b + ncols f + nat bb) 0
          in Inr (replicate (nat a) blank
                  @ map (\<lambda>r. replicate (nat b) 0 @ r @ replicate (nat bb) 0) f
                  @ replicate (nat aa) blank))"

section \<open>Settings and collaborators\<close>

datatype roi = Full | Region int int int int

text \<open>
  The fields of \<open>PIVSettings\<close> the two files branch on or mutate. The remaining fields
  (filter method, kernel sizes, subpixel method, ...) are only handed on to the
  collaborators, which receive the settings record as a whole.
\<close>

record settings =
  windowsizes :: "int list"
  overlap :: "int list"
  num_iterations :: int
  interpolation_order :: int
  smoothn :: bool
  smoothn_p :: real
  validation_first_pass :: bool
  replace_vectors :: bool
  sig2noise_validate :: bool
  sig2noise_method :: "string option"
  static_mask :: "bool array2 option"
  roi :: roi
  invert :: bool
  dynamic_masking_method :: string

section \<open>prepare_images\<close>

text \<open>
  Lines 47-68 of \<^verbatim>\<open>windef.py\<close>, identical to lines 48-69 of \<^verbatim>\<open>windef_gpu.py\<close>:
  frame B is cropped and padded to the shape of frame A, then the shapes are compared.
\<close>

definition crop_width :: "real array2 \<Rightarrow> real array2 \<Rightarrow> real array2" where
  "crop_width frame_a frame_b =
     (if ncols frame_b > ncols frame_a
      then let offset = (ncols frame_b - ncols frame_a) div 2
           in map (\<lambda>r. take (ncols frame_a) (drop offset r)) frame_b
      else frame_b)"

definition crop_height :: "real array2 \<Rightarrow> real array2 \<Rightarrow> real array2" where
  "crop_height frame_a frame_b =
     (if nrows frame_b > nrows frame_a
      then let offset = (nrows frame_b - nrows frame_a) div 2
           in take (nrows frame_a) (drop offset frame_b)
      else frame_b)"

definition pad_frame :: "real array2 \<Rightarrow> real array2 \<Rightarrow> (real array2) res" where
  "pad_frame frame_a frame_b =
     (if nrows frame_b < nrows frame_a \<or> ncols frame_b < ncols frame_a
      then
        let a = (- (int (nrows frame_b) - int (nrows frame_a))) div 2;
            aa = - a + int (nrows frame_a) - int (nrows frame_b);
            b = (- (int (ncols frame_b) - int (ncols frame_a))) div 2;
            bb = - b + int (ncols frame_a) - int (ncols frame_b)
        in np_pad frame_b (a, aa) (b, bb)
      else Inr frame_b)"

definition conform_frames :: "real array2 \<Rightarrow> real array2 \<Rightarrow> (real array2 \<times> real array2) res" where
  "conform_frames frame_a frame_b =
     bindE (pad_frame frame_a (crop_height frame_a (crop_width frame_a frame_b)))
       (\<lambda>fb. if nrows fb \<noteq> nrows frame_a \<or> ncols fb \<noteq> ncols frame_a
             then Inl (ValueError ''Images are different sizes.'')
             else Inr (frame_a, fb))"

definition crop_to_roi :: "roi \<Rightarrow> real array2 \<Rightarrow> real array2" where
  "crop_to_roi r f = (case r of Full \<Rightarrow> f | Region r0 r1 c0 c1 \<Rightarrow> py_slice2 r0 r1 c0 c1 f)"

text \<open>
  \<^verbatim>\<open>windef_gpu.prepare_images\<close>: the two frames as read by \<open>tools.imread\<close> are the
  arguments; conform, crop to the region of interest, return.
\<close>

definition prepare_images_gpu ::
  "real array2 \<Rightarrow> real array2 \<Rightarrow> settings \<Rightarrow> (real array2 \<times> real array2) res" where
  "prepare_images_gpu raw_a raw_b S =
     bindE (conform_frames raw_a raw_b)
       (\<lambda>(fa, fb). Inr (crop_to_roi (roi S) fa, crop_to_roi (roi S) fb))"



section \<open>Fields, masked arrays and the collaborators\<close>

text \<open>
  A displacement component is either a plain \<open>ndarray\<close> or a \<open>numpy.ma.MaskedArray\<close>
  (data and mask, \<open>True\<close> = masked); Python decides at run time which one it holds.
\<close>

datatype field = NDArray "real array2" | MaskedArray "real array2" "bool array2"

definition getdata :: "field \<Rightarrow> real array2" where
  "getdata f = (case f of NDArray d \<Rightarrow> d | MaskedArray d m \<Rightarrow> d)"

definition fill_zero :: "real array2 \<Rightarrow> bool array2 \<Rightarrow> real array2" where
  "fill_zero d m = map2 (map2 (\<lambda>x b. if b then 0 else x)) d m"

text \<open>\<open>np.ma.filled(a, 0.)\<close> accepts both kinds; the method \<open>a.filled(0.)\<close> exists on
  masked arrays only.\<close>

definition ma_filled :: "field \<Rightarrow> real array2" where
  "ma_filled f = (case f of NDArray d \<Rightarrow> d | MaskedArray d m \<Rightarrow> fill_zero d m)"

definition filled_method :: "field \<Rightarrow> (real array2) res" where
  "filled_method f =
     (case f of
        NDArray d \<Rightarrow> Inl (AttributeError ''numpy.ndarray object has no attribute filled'')
      | MaskedArray d m \<Rightarrow> Inr (fill_zero d m))"

definition size2 :: "'a array2 \<Rightarrow> nat" where
  "size2 a = length (concat a)"

text \<open>\<open>a.reshape(shape)\<close> of the elements in row-major order.\<close>

definition reshape :: "'a list \<Rightarrow> nat \<times> nat \<Rightarrow> ('a array2) res" where
  "reshape xs sh =
     (case sh of (r, c) \<Rightarrow>
        if length xs = r * c
        then Inr (map (\<lambda>i. take c (drop (i * c) xs)) [0..<r])
        else Inl (ValueError ''cannot reshape array''))"

text \<open>
  \<open>np.ma.masked_array(d, mask=m)\<close> for a plain array \<open>d\<close>: a mask of another shape is
  resized when it has one element, reshaped when it has as many elements as the data,
  and refused otherwise.
\<close>

definition masked_array :: "real array2 \<Rightarrow> bool array2 \<Rightarrow> field res" where
  "masked_array d m =
     (if shape m = shape d then Inr (MaskedArray d m)
      else if size2 m = 1 then Inr (MaskedArray d (map (map (\<lambda>_. hd (concat m))) d))
      else if size2 m = size2 d
           then bindE (reshape (concat m) (shape d)) (\<lambda>m'. Inr (MaskedArray d m'))
           else Inl (MaskError ''Mask and data not compatible''))"

text \<open>\<open>np.ma.masked_array(d, np.ma.nomask)\<close>.\<close>

definition nomask_array :: "real array2 \<Rightarrow> field" where
  "nomask_array d = MaskedArray d (map (map (\<lambda>_. False)) d)"

text \<open>\<open>np.zeros_like(u, dtype=bool)\<close> and \<open>np.zeros(u.shape)\<close> read as flags.\<close>

definition zeros_like :: "field \<Rightarrow> bool array2" where
  "zeros_like f = map (map (\<lambda>_. False)) (getdata f)"

text \<open>\<open>-u[::-1]\<close>: the rows in reverse order, every entry negated; a mask is reversed
  with its data.\<close>

definition neg_flip :: "field \<Rightarrow> field" where
  "neg_flip f =
     (case f of
        NDArray d \<Rightarrow> NDArray (map (map uminus) (rev d))
      | MaskedArray d m \<Rightarrow> MaskedArray (map (map uminus) (rev d)) (rev m))"

text \<open>\<open>np.all(flags)\<close>.\<close>

definition np_all :: "bool array2 \<Rightarrow> bool" where
  "np_all fl = list_all (list_all (\<lambda>b. b)) fl"

text \<open>\<open>u += p\<close> on plain arrays: \<open>p\<close> is broadcast to the shape of \<open>u\<close>.\<close>

definition iadd :: "real array2 \<Rightarrow> real array2 \<Rightarrow> (real array2) res" where
  "iadd u p =
     (if (nrows p = nrows u \<or> nrows p = 1) \<and> (ncols p = ncols u \<or> ncols p = 1)
      then Inr (map2 (\<lambda>ru rp. map2 (+) ru (bc_list (ncols u) rp)) u (bc_list (nrows u) p))
      else Inl (ValueError ''operands could not be broadcast together''))"

text \<open>Indexing: \<open>xs[i]\<close>, \<open>a[:, 0]\<close>, \<open>a[0, :]\<close>, \<open>a[0, 0]\<close>, \<open>xs[-1]\<close>.\<close>

definition index_list :: "'a list \<Rightarrow> nat \<Rightarrow> 'a res" where
  "index_list xs i =
     (if i < length xs then Inr (xs ! i) else Inl (IndexError ''list index out of range''))"

definition col0 :: "'a array2 \<Rightarrow> ('a list) res" where
  "col0 a = (if list_all (\<lambda>r. r \<noteq> []) a then Inr (map hd a)
             else Inl (IndexError ''index 0 is out of bounds for axis 1''))"

definition row0 :: "'a array2 \<Rightarrow> ('a list) res" where
  "row0 a = (case a of [] \<Rightarrow> Inl (IndexError ''index 0 is out of bounds for axis 0'')
             | r # _ \<Rightarrow> Inr r)"

definition index00 :: "'a array2 \<Rightarrow> 'a res" where
  "index00 a = bindE (row0 a) (\<lambda>r. index_list r 0)"

definition last_elem :: "'a list \<Rightarrow> 'a res" where
  "last_elem xs = (if xs = [] then Inl (IndexError ''index -1 is out of bounds'')
                   else Inr (last xs))"

text \<open>\<open>np.meshgrid(xs, ys)\<close> returns \<open>(x, y)\<close>, both with \<open>len(ys)\<close> rows.\<close>

definition meshgrid :: "real list \<Rightarrow> real list \<Rightarrow> real array2 \<times> real array2" where
  "meshgrid xs ys = (replicate (length ys) xs, map (\<lambda>y. replicate (length xs) y) ys)"

text \<open>
  The collaborators are code outside the two files: the correlation engine and the grid
  builder (\<open>openpiv.pyprocess\<close>), validation, outlier replacement and smoothing
  (\<open>openpiv.validation\<close>, \<open>filters\<close>, \<open>smoothn\<close>), image inversion and dynamic masking,
  and the scipy primitives. They are parameters of the model, and each may fail.
  \<^item> \<open>invert_pixel\<close> is \<open>skimage.util.invert\<close> on one intensity (the operation is
    elementwise).
  \<^item> \<open>get_rect_coordinates\<close> gives the two coordinate vectors of the window centres; the
    mesh itself is \<open>meshgrid\<close> of them.
  \<^item> \<open>RectBivariateSpline\<close> fits a spline to values on a rectilinear grid; the fitted
    object, called on two coordinate vectors, is evaluated at each point of their product.
  \<^item> \<open>interpolate order prefilter img r c\<close> is the spline interpolation scipy's
    \<open>map_coordinates\<close> performs at the point \<open>(r, c)\<close> of the image \<open>img\<close>, which is
    given on all integer positions (the boundary mode decides how it is extended).
  \<^item> \<open>sample_mask mask r c\<close> is \<open>map_coordinates(mask, [y, x]).astype(bool)\<close> at one
    point (default order and mode).
\<close>

record collab =
  invert_pixel :: "real \<Rightarrow> real"
  dynamic_masking :: "real array2 \<Rightarrow> settings \<Rightarrow> (real array2 \<times> bool array2) res"
  extended_search_area_piv ::
    "real array2 \<Rightarrow> real array2 \<Rightarrow> int \<Rightarrow> int \<Rightarrow> int option \<Rightarrow> settings
       \<Rightarrow> (real list \<times> real list \<times> real list) res"
  get_field_shape :: "nat \<times> nat \<Rightarrow> int \<Rightarrow> int \<Rightarrow> (nat \<times> nat) res"
  get_rect_coordinates :: "nat \<times> nat \<Rightarrow> int \<Rightarrow> int \<Rightarrow> (real list \<times> real list) res"
  typical_validation :: "field \<Rightarrow> field \<Rightarrow> real array2 \<Rightarrow> settings \<Rightarrow> (bool array2) res"
  replace_outliers :: "field \<Rightarrow> field \<Rightarrow> bool array2 \<Rightarrow> settings \<Rightarrow> (field \<times> field) res"
  smoothn_smoothn :: "field \<Rightarrow> real \<Rightarrow> field res"
  RectBivariateSpline ::
    "real list \<Rightarrow> real list \<Rightarrow> real array2 \<Rightarrow> int \<Rightarrow> int \<Rightarrow> (real \<Rightarrow> real \<Rightarrow> real) res"
  interpolate :: "int \<Rightarrow> bool \<Rightarrow> (int \<Rightarrow> int \<Rightarrow> real) \<Rightarrow> real \<Rightarrow> real \<Rightarrow> real"
  sample_mask :: "bool array2 \<Rightarrow> real \<Rightarrow> real \<Rightarrow> bool"

text \<open>
  \<^verbatim>\<open>windef.prepare_images\<close> (CPU): after conforming and cropping, the frames are
  optionally inverted, blanked under the static mask and dynamically masked; the image
  mask is returned with them. Plotting (\<open>show_all_plots\<close>) has no effect on the data and
  is left out here and below.
\<close>

definition apply_static_mask ::
  "settings \<Rightarrow> real array2 \<times> real array2
     \<Rightarrow> (real array2 \<times> real array2 \<times> bool array2 option) res" where
  "apply_static_mask S fs =
     (case fs of (fa, fb) \<Rightarrow>
        (case static_mask S of
           None \<Rightarrow> Inr (fa, fb, None)
         | Some image_mask \<Rightarrow>
             bindE (np_where_zero image_mask fa) (\<lambda>fa'.
             bindE (np_where_zero image_mask fb) (\<lambda>fb'.
             Inr (fa', fb', Some image_mask)))))"

definition apply_dynamic_mask ::
  "collab \<Rightarrow> settings \<Rightarrow> real array2 \<times> real array2 \<times> bool array2 option
     \<Rightarrow> (real array2 \<times> real array2 \<times> bool array2 option) res" where
  "apply_dynamic_mask K S fs =
     (case fs of (fa, fb, image_mask) \<Rightarrow>
        if dynamic_masking_method S = ''edge'' \<or> dynamic_masking_method S = ''intensity''
        then
          bindE (dynamic_masking K fa S) (\<lambda>(fa', mask_a).
          bindE (dynamic_masking K fb S) (\<lambda>(fb', mask_b).
          bindE (np_logical_and mask_a mask_b) (\<lambda>m.
          Inr (fa', fb', Some m))))
        else Inr (fa, fb, image_mask))"

definition prepare_images ::
  "collab \<Rightarrow> real array2 \<Rightarrow> real array2 \<Rightarrow> settings
     \<Rightarrow> (real array2 \<times> real array2 \<times> bool array2 option) res" where
  "prepare_images K raw_a raw_b S =
     bindE (conform_frames raw_a raw_b) (\<lambda>(fa, fb).
       let fa1 = crop_to_roi (roi S) fa; fb1 = crop_to_roi (roi S) fb;
           fa2 = (if invert S then map (map (invert_pixel K)) fa1 else fa1);
           fb2 = (if invert S then map (map (invert_pixel K)) fb1 else fb1)
       in bindE (apply_static_mask S (fa2, fb2)) (apply_dynamic_mask K S))"

section \<open>Resampling primitives\<close>

text \<open>
  The fitted spline called on two coordinate vectors, \<open>ip(ys, xs)\<close>: the values on
  the product grid, one row per element of \<open>ys\<close>.
\<close>

definition spline_grid :: "(real \<Rightarrow> real \<Rightarrow> real) \<Rightarrow> real list \<Rightarrow> real list \<Rightarrow> real array2" where
  "spline_grid ip ys xs = map (\<lambda>y. map (\<lambda>x. ip y x) xs) ys"

text \<open>
  Boundary modes of \<open>map_coordinates\<close>. \<open>'nearest'\<close> extends the input by repeating its
  edge values, so a source coordinate outside the frame reads the nearest edge.
  \<open>'constant'\<close> returns \<open>cval\<close> for every point outside the input, without
  interpolation.
\<close>

datatype mode = Nearest | Constant real

definition clamp_index :: "nat \<Rightarrow> int \<Rightarrow> nat" where
  "clamp_index n i = (if i < 0 then 0 else if int n \<le> i then n - 1 else nat i)"

definition edge_extend :: "real array2 \<Rightarrow> int \<Rightarrow> int \<Rightarrow> real" where
  "edge_extend a i j =
     (if nrows a = 0 \<or> ncols a = 0 then 0
      else a ! clamp_index (nrows a) i ! clamp_index (ncols a) j)"

definition const_extend :: "real \<Rightarrow> real array2 \<Rightarrow> int \<Rightarrow> int \<Rightarrow> real" where
  "const_extend c a i j =
     (if 0 \<le> i \<and> i < int (nrows a) \<and> 0 \<le> j \<and> j < int (ncols a)
      then a ! nat i ! nat j else c)"

definition sample_at ::
  "collab \<Rightarrow> int \<Rightarrow> mode \<Rightarrow> bool \<Rightarrow> real array2 \<Rightarrow> real \<Rightarrow> real \<Rightarrow> real" where
  "sample_at K order md prefilter a r c =
     (case md of
        Nearest \<Rightarrow> interpolate K order prefilter (edge_extend a) r c
      | Constant cval \<Rightarrow>
          if r < 0 \<or> real (nrows a) - 1 < r \<or> c < 0 \<or> real (ncols a) - 1 < c then cval
          else interpolate K order prefilter (const_extend cval a) r c)"

text \<open>
  \<open>map_coordinates(input, (cy, cx), order, mode, prefilter)\<close>: the output has the shape
  of the coordinate arrays, each entry sampled on its own.
\<close>

definition map_coordinates ::
  "collab \<Rightarrow> real array2 \<Rightarrow> real array2 \<Rightarrow> real array2 \<Rightarrow> int \<Rightarrow> mode \<Rightarrow> bool \<Rightarrow> real array2" where
  "map_coordinates K a cy cx order md prefilter =
     map2 (map2 (sample_at K order md prefilter a)) cy cx"

text \<open>\<open>scn.map_coordinates(image_mask, [y, x]).astype(bool)\<close>.\<close>

definition mask_on_grid :: "collab \<Rightarrow> bool array2 \<Rightarrow> real array2 \<Rightarrow> real array2 \<Rightarrow> bool array2" where
  "mask_on_grid K image_mask y x = map2 (map2 (sample_mask K image_mask)) y x"

definition add2 :: "real array2 \<Rightarrow> real array2 \<Rightarrow> real array2" where
  "add2 a b = map2 (map2 (+)) a b"

definition sub2 :: "real array2 \<Rightarrow> real array2 \<Rightarrow> real array2" where
  "sub2 a b = map2 (map2 (-)) a b"

definition neg2 :: "real array2 \<Rightarrow> real array2" where
  "neg2 a = map (map uminus) a"

section \<open>The image deformer\<close>

text \<open>
  \<^verbatim>\<open>windef.create_deformation_field\<close>: the coarse field is fitted on the grid's
  coordinate vectors and evaluated at every pixel of the frame.
\<close>

definition create_deformation_field ::
  "collab \<Rightarrow> real array2 \<Rightarrow> real array2 \<Rightarrow> real array2 \<Rightarrow> real array2 \<Rightarrow> real array2 \<Rightarrow> int
     \<Rightarrow> (real array2 \<times> real array2 \<times> real array2 \<times> real array2) res" where
  "create_deformation_field K frame x y u v order =
     bindE (col0 y) (\<lambda>y1.
     bindE (row0 x) (\<lambda>x1.
       let side_x = map real [0..<ncols frame];
           side_y = map real [0..<nrows frame]
       in
     bindE (RectBivariateSpline K y1 x1 u order order) (\<lambda>ip.
     bindE (RectBivariateSpline K y1 x1 v order order) (\<lambda>ip2.
       let ut = spline_grid ip side_y side_x;
           vt = spline_grid ip2 side_y side_x;
           (xm, ym) = meshgrid side_x side_y
       in Inr (xm, ym, ut, vt)))))"

text \<open>\<^verbatim>\<open>windef.deform_windows\<close> (CPU): the whole frame is resampled at once.\<close>

definition deform_windows ::
  "collab \<Rightarrow> real array2 \<Rightarrow> real array2 \<Rightarrow> real array2 \<Rightarrow> real array2 \<Rightarrow> real array2
     \<Rightarrow> int \<Rightarrow> int \<Rightarrow> (real array2) res" where
  "deform_windows K frame x y u v order order2 =
     bindE (create_deformation_field K frame x y u v order2)
       (\<lambda>(xm, ym, ut, vt).
          Inr (map_coordinates K frame (sub2 ym vt) (add2 xm ut)
                 order Nearest True))"

text \<open>
  \<^verbatim>\<open>windef_gpu.deform_windows\<close>: the frame is processed in tiles of \<open>tile_size\<close>
  rows and columns. The output array has dtype \<open>uint8\<close>, so writing a tile converts
  each sample: values in \<open>(-1, 256)\<close> are truncated towards zero; for other values the
  conversion is platform dependent and is modelled as wrapping modulo 256.
\<close>

definition trunc_int :: "real \<Rightarrow> int" where
  "trunc_int x = (if 0 \<le> x then \<lfloor>x\<rfloor> else \<lceil>x\<rceil>)"

definition uint8_cast :: "real \<Rightarrow> real" where
  "uint8_cast x = real_of_int (trunc_int x mod 256)"

text \<open>\<open>range(0, n, tile_size)\<close>.\<close>

definition tile_starts :: "nat \<Rightarrow> nat \<Rightarrow> nat list" where
  "tile_starts n tile_size = map (\<lambda>k. k * tile_size) [0..<(n + tile_size - 1) div tile_size]"

text \<open>
  \<open>(grid_y - y0) / (window_size - overlap)\<close> divides a float array by a Python
  integer. When the integer is 0 nothing is raised: every quotient is \<open>inf\<close>, \<open>-inf\<close>
  or \<open>nan\<close>. \<open>None\<close> stands for such a value.
\<close>

definition true_divide :: "real \<Rightarrow> int \<Rightarrow> real option" where
  "true_divide a d = (if d = 0 then None else Some (a / real_of_int d))"

text \<open>
  \<open>map_coordinates(input, coords, order, mode='constant', cval)\<close> on coordinates that
  may be infinite or not a number: such a point is not inside the input, and the output
  is \<open>cval\<close> there.
\<close>

definition sample_const ::
  "collab \<Rightarrow> int \<Rightarrow> real \<Rightarrow> real array2 \<Rightarrow> real option \<Rightarrow> real option \<Rightarrow> real" where
  "sample_const K order cval a cy cx =
     (case (cy, cx) of
        (Some r, Some c) \<Rightarrow> sample_at K order (Constant cval) True a r c
      | _ \<Rightarrow> cval)"

definition map_coordinates_const ::
  "collab \<Rightarrow> real array2 \<Rightarrow> real option array2 \<Rightarrow> real option array2 \<Rightarrow> int \<Rightarrow> real
     \<Rightarrow> real array2" where
  "map_coordinates_const K a cy cx order cval = map2 (map2 (sample_const K order cval a)) cy cx"

definition deform_tile ::
  "collab \<Rightarrow> real array2 \<Rightarrow> real array2 \<Rightarrow> real array2 \<Rightarrow> real \<Rightarrow> real \<Rightarrow> int \<Rightarrow> int
     \<Rightarrow> int \<Rightarrow> int \<Rightarrow> nat \<Rightarrow> nat \<Rightarrow> nat \<Rightarrow> nat \<Rightarrow> real array2" where
  "deform_tile K frame u v x0 y0 window_size ovl order order2
     y_start y_end x_start x_end =
     (let ys = map real [y_start..<y_end];
          xs = map real [x_start..<x_end];
          (grid_x, grid_y) = meshgrid xs ys;
          coord_u_y = map (map (\<lambda>g. true_divide (g - y0) (window_size - ovl))) grid_y;
          coord_u_x = map (map (\<lambda>g. true_divide (g - x0) (window_size - ovl))) grid_x;
          ut_tile = map_coordinates_const K u coord_u_y coord_u_x order2 0;
          vt_tile = map_coordinates_const K v coord_u_y coord_u_x order2 0;
          src_y = sub2 grid_y vt_tile;
          src_x = add2 grid_x ut_tile
      in map_coordinates K frame src_y src_x order Nearest False)"

text \<open>\<open>frame_def[y_start:y_end, x_start:x_end] = tile\<close> into a \<open>uint8\<close> array.\<close>

definition write_tile :: "real array2 \<Rightarrow> nat \<Rightarrow> nat \<Rightarrow> real array2 \<Rightarrow> real array2" where
  "write_tile frame_def y_start x_start tile =
     take y_start frame_def
     @ map2 (\<lambda>row trow. take x_start row @ map uint8_cast trow @ drop (x_start + length trow) row)
         (take (length tile) (drop y_start frame_def)) tile
     @ drop (y_start + length tile) frame_def"

text \<open>
  The tile size is a parameter of the loop; the source fixes it to 8192. The output
  starts as \<open>cp.empty((H, W))\<close>, whose contents are unspecified: \<open>init\<close> stands for them.
\<close>

definition deform_windows_tiled ::
  "nat \<Rightarrow> real array2 \<Rightarrow> collab \<Rightarrow> real array2 \<Rightarrow> real array2 \<Rightarrow> real array2 \<Rightarrow> real array2
     \<Rightarrow> real array2 \<Rightarrow> int \<Rightarrow> int \<Rightarrow> int \<Rightarrow> int \<Rightarrow> (real array2) res" where
  "deform_windows_tiled tile_size init K frame x y u v window_size ovl
     order order2 =
     (let H = nrows frame; W = ncols frame in
      bindE (index00 x) (\<lambda>x0.
      bindE (index00 y) (\<lambda>y0.
        Inr (fold (\<lambda>y_start frame_def.
               fold (\<lambda>x_start frame_def.
                  write_tile frame_def y_start x_start
                    (deform_tile K frame u v x0 y0 window_size ovl
                       order order2
                       y_start (min (y_start + tile_size) H)
                       x_start (min (x_start + tile_size) W)))
                 (tile_starts W tile_size) frame_def)
             (tile_starts H tile_size) init))))"

definition empty_frame :: "real array2 \<Rightarrow> real array2" where
  "empty_frame frame = replicate (nrows frame) (replicate (ncols frame) 0)"

definition deform_windows_gpu ::
  "collab \<Rightarrow> real array2 \<Rightarrow> real array2 \<Rightarrow> real array2 \<Rightarrow> real array2 \<Rightarrow> real array2
     \<Rightarrow> int \<Rightarrow> int \<Rightarrow> int \<Rightarrow> int \<Rightarrow> (real array2) res" where
  "deform_windows_gpu K frame x y u v window_size ovl order order2 =
     deform_windows_tiled 8192 (empty_frame frame) K frame x y u v window_size ovl
       order order2"

section \<open>Runs: collaborator calls are logged\<close>

text \<open>
  A run of the engine is observed through its calls to the correlation, smoothing,
  validation, repair and persistence collaborators. Each call is an event carrying the
  index of the pass that makes it (0 for the first pass); the log is kept when the run
  raises.
\<close>

datatype event = Correlate nat | Smooth nat | Validate nat | Repair nat | Save

type_synonym 'a run = "event list \<times> 'a res"

definition bindR :: "'a run \<Rightarrow> ('a \<Rightarrow> 'b run) \<Rightarrow> 'b run" where
  "bindR m f =
     (case m of
        (l, Inl e) \<Rightarrow> (l, Inl e)
      | (l, Inr x) \<Rightarrow> (case f x of (l', r) \<Rightarrow> (l @ l', r)))"

definition liftR :: "'a res \<Rightarrow> 'a run" where
  "liftR r = ([], r)"

definition call :: "event \<Rightarrow> 'a res \<Rightarrow> 'a run" where
  "call ev r = ([ev], r)"

text \<open>What a pass hands to the next one, and what the run hands to \<open>tools.save\<close>.\<close>

record pass_state =
  px :: "real array2"
  py :: "real array2"
  pu :: field
  pv :: field
  pmask :: "bool array2"
  pflags :: "bool array2"
  psettings :: settings

record saved =
  saved_x :: "real array2"
  saved_y :: "real array2"
  saved_u :: field
  saved_v :: field
  saved_flags :: "bool array2"
  saved_mask :: "bool array2"

section \<open>The passes\<close>

text \<open>
  The call of \<open>extended_search_area_piv\<close> and the reshaping of its three flat results
  to \<open>get_field_shape\<close>, as in \<open>first_pass\<close> and in both \<open>multipass_img_deform\<close>.
\<close>

definition correlate ::
  "collab \<Rightarrow> nat \<Rightarrow> real array2 \<Rightarrow> real array2 \<Rightarrow> int \<Rightarrow> int \<Rightarrow> int option \<Rightarrow> settings
     \<Rightarrow> (real array2 \<times> real array2 \<times> real array2) run" where
  "correlate K i frame_a frame_b window_size ovl search S =
     bindR (call (Correlate i)
              (extended_search_area_piv K frame_a frame_b window_size ovl search S))
       (\<lambda>(u, v, s2n). liftR (
          bindE (get_field_shape K (shape frame_a) window_size ovl) (\<lambda>shapes.
          bindE (reshape u shapes) (\<lambda>u'.
          bindE (reshape v shapes) (\<lambda>v'.
          bindE (reshape s2n shapes) (\<lambda>s2n'.
          Inr (u', v', s2n')))))))"

definition rect_grid ::
  "collab \<Rightarrow> real array2 \<Rightarrow> int \<Rightarrow> int \<Rightarrow> (real array2 \<times> real array2) res" where
  "rect_grid K frame_a window_size ovl =
     bindE (get_rect_coordinates K (shape frame_a) window_size ovl)
       (\<lambda>(xs, ys). Inr (meshgrid xs ys))"

text \<open>\<open>first_pass\<close> (the same text in both files).\<close>

definition first_pass ::
  "collab \<Rightarrow> real array2 \<Rightarrow> real array2 \<Rightarrow> settings
     \<Rightarrow> (real array2 \<times> real array2 \<times> real array2 \<times> real array2 \<times> real array2) run" where
  "first_pass K frame_a frame_b S =
     bindR (liftR (index_list (windowsizes S) 0)) (\<lambda>w0.
     bindR (liftR (index_list (overlap S) 0)) (\<lambda>o0.
     bindR (correlate K 0 frame_a frame_b w0 o0 (Some w0) S) (\<lambda>(u, v, s2n).
     bindR (liftR (rect_grid K frame_a w0 o0)) (\<lambda>(x, y).
     liftR (Inr (x, y, u, v, s2n))))))"

text \<open>The stages of \<^verbatim>\<open>windef.multipass_img_deform\<close> (CPU), in the order of the source.\<close>

definition new_grid ::
  "collab \<Rightarrow> real array2 \<Rightarrow> settings \<Rightarrow> nat
     \<Rightarrow> (int \<times> int \<times> real array2 \<times> real array2) res" where
  "new_grid K frame_a S current_iteration =
     bindE (index_list (windowsizes S) current_iteration) (\<lambda>window_size.
     bindE (index_list (overlap S) current_iteration) (\<lambda>ovl.
     bindE (rect_grid K frame_a window_size ovl) (\<lambda>(x, y).
     Inr (window_size, ovl, x, y))))"

text \<open>\<open>RectBivariateSpline(y_old, x_old, w, kx, ky)(y_int, x_int)\<close>.\<close>

definition resample ::
  "collab \<Rightarrow> settings \<Rightarrow> real list \<Rightarrow> real list \<Rightarrow> real array2 \<Rightarrow> real list \<Rightarrow> real list
     \<Rightarrow> (real array2) res" where
  "resample K S y_old x_old w y_int x_int =
     bindE (RectBivariateSpline K y_old x_old w (interpolation_order S) (interpolation_order S))
       (\<lambda>ip. Inr (spline_grid ip y_int x_int))"

definition predictor ::
  "collab \<Rightarrow> settings \<Rightarrow> real array2 \<Rightarrow> real array2 \<Rightarrow> field \<Rightarrow> field
     \<Rightarrow> real array2 \<Rightarrow> real array2 \<Rightarrow> (real array2 \<times> real array2) res" where
  "predictor K S x_old y_old u_old v_old x y =
     bindE (col0 y_old) (\<lambda>y_old1.
     bindE (row0 x_old) (\<lambda>x_old1.
     bindE (col0 y) (\<lambda>y_int.
     bindE (row0 x) (\<lambda>x_int.
     bindE (resample K S y_old1 x_old1 (ma_filled u_old) y_int x_int) (\<lambda>u_pre.
     bindE (resample K S y_old1 x_old1 (ma_filled v_old) y_int x_int) (\<lambda>v_pre.
     Inr (u_pre, v_pre)))))))"

text \<open>\<open>if settings.sig2noise_validate is False: settings.sig2noise_method = None\<close>:
  the settings object is changed in place, so the change lasts.\<close>

definition disable_sig2noise :: "settings \<Rightarrow> settings" where
  "disable_sig2noise S = (if \<not> sig2noise_validate S then S\<lparr>sig2noise_method := None\<rparr> else S)"

text \<open>\<open>u += u_pre; v += v_pre\<close>.\<close>

definition accumulate ::
  "real array2 \<Rightarrow> real array2 \<Rightarrow> real array2 \<Rightarrow> real array2
     \<Rightarrow> (real array2 \<times> real array2) res" where
  "accumulate u v u_pre v_pre =
     bindE (iadd u u_pre) (\<lambda>u'. bindE (iadd v v_pre) (\<lambda>v'. Inr (u', v')))"

definition apply_grid_mask ::
  "collab \<Rightarrow> settings \<Rightarrow> real array2 \<Rightarrow> real array2 \<Rightarrow> real array2 \<Rightarrow> real array2
     \<Rightarrow> (field \<times> field \<times> bool array2) res" where
  "apply_grid_mask K S x y u v =
     (let grid_mask = (case static_mask S of
                         Some m \<Rightarrow> mask_on_grid K m y x
                       | None \<Rightarrow> zeros_like (NDArray u))
      in bindE (masked_array u grid_mask) (\<lambda>um.
         bindE (masked_array v grid_mask) (\<lambda>vm.
         Inr (um, vm, grid_mask))))"

text \<open>\<open>if np.all(flags): raise ValueError("Something happened in the validation")\<close>.\<close>

definition validate ::
  "collab \<Rightarrow> nat \<Rightarrow> field \<Rightarrow> field \<Rightarrow> real array2 \<Rightarrow> settings \<Rightarrow> (bool array2) run" where
  "validate K i u v s2n S =
     bindR (call (Validate i) (typical_validation K u v s2n S)) (\<lambda>flags.
       if np_all flags then liftR (Inl (ValueError ''Something happened in the validation''))
       else liftR (Inr flags))"

text \<open>
  \<^verbatim>\<open>windef.multipass_img_deform\<close> up to line 700: the new grid, the predictor, the
  deformed frame B, the residual correlation, the accumulation and the grid mask. The
  result is \<open>(x, y, u, v, s2n, grid_mask)\<close>.
\<close>

definition residual_pass ::
  "collab \<Rightarrow> real array2 \<Rightarrow> real array2 \<Rightarrow> nat \<Rightarrow> real array2 \<Rightarrow> real array2 \<Rightarrow> field \<Rightarrow> field
     \<Rightarrow> settings
     \<Rightarrow> (real array2 \<times> real array2 \<times> field \<times> field \<times> real array2 \<times> bool array2) run" where
  "residual_pass K frame_a frame_b current_iteration x_old y_old u_old v_old S =
     bindR (liftR (new_grid K frame_a S current_iteration)) (\<lambda>(window_size, ovl, x, y).
     bindR (liftR (predictor K S x_old y_old u_old v_old x y)) (\<lambda>(u_pre, v_pre).
     bindR (liftR (deform_windows K frame_b x y u_pre (neg2 v_pre)
                     (interpolation_order S) (interpolation_order S))) (\<lambda>frame_b_def.
     bindR (correlate K current_iteration frame_a frame_b_def window_size ovl None
              (disable_sig2noise S)) (\<lambda>(u, v, s2n).
     bindR (liftR (accumulate u v u_pre v_pre)) (\<lambda>(u, v).
     bindR (liftR (apply_grid_mask K (disable_sig2noise S) x y u v)) (\<lambda>(u, v, grid_mask).
     liftR (Inr (x, y, u, v, s2n, grid_mask))))))))"

text \<open>Lines 709-723: \<open>replace_outliers\<close> unless this is the last iteration.\<close>

definition repair_unless_last ::
  "collab \<Rightarrow> nat \<Rightarrow> field \<Rightarrow> field \<Rightarrow> bool array2 \<Rightarrow> settings \<Rightarrow> (field \<times> field) run" where
  "repair_unless_last K current_iteration u v flags S =
     (if int current_iteration + 1 \<noteq> num_iterations S
      then call (Repair current_iteration) (replace_outliers K u v flags S)
      else liftR (Inr (u, v)))"

definition multipass_img_deform ::
  "collab \<Rightarrow> real array2 \<Rightarrow> real array2 \<Rightarrow> nat \<Rightarrow> real array2 \<Rightarrow> real array2 \<Rightarrow> field \<Rightarrow> field
     \<Rightarrow> settings \<Rightarrow> pass_state run" where
  "multipass_img_deform K frame_a frame_b current_iteration x_old y_old u_old v_old S =
     bindR (residual_pass K frame_a frame_b current_iteration x_old y_old u_old v_old S)
       (\<lambda>(x, y, u, v, s2n, grid_mask).
     bindR (validate K current_iteration u v s2n (disable_sig2noise S)) (\<lambda>flags.
     bindR (repair_unless_last K current_iteration u v flags (disable_sig2noise S)) (\<lambda>(u, v).
     liftR (Inr \<lparr>px = x, py = y, pu = u, pv = v, pmask = grid_mask, pflags = flags,
                 psettings = disable_sig2noise S\<rparr>))))"

text \<open>
  \<^verbatim>\<open>windef_gpu.multipass_img_deform\<close>. The coordinate vectors of the new grid are
  extended on both sides in steps of \<open>window_size - overlap\<close> until they cover the frame;
  the predictor is evaluated on the extended grid and cut back with
  \<open>u_pre[y_add[0]:-y_add[1], x_add[0]:-x_add[1]]\<close>.
\<close>

definition ceil_div :: "real \<Rightarrow> int \<Rightarrow> int res" where
  "ceil_div a d =
     (if d = 0
      then Inl (if a = 0 then ValueError ''cannot convert float NaN to integer''
                else OverflowError ''cannot convert float infinity to integer'')
      else Inr \<lceil>a / real_of_int d\<rceil>)"

definition axis_add :: "real list \<Rightarrow> nat \<Rightarrow> int \<Rightarrow> (int \<times> int) res" where
  "axis_add c_int n step =
     bindE (index_list c_int 0) (\<lambda>c0.
     bindE (ceil_div c0 step) (\<lambda>a0.
     bindE (last_elem c_int) (\<lambda>cl.
     bindE (ceil_div (real n - cl - 1) step) (\<lambda>a1.
     Inr (a0, a1)))))"

definition extend_axis :: "real list \<Rightarrow> int \<times> int \<Rightarrow> int \<Rightarrow> real list" where
  "extend_axis c_int add step =
     map (\<lambda>k. hd c_int - real_of_int k * real_of_int step) (rev [1..fst add])
     @ c_int
     @ map (\<lambda>k. last c_int + real_of_int k * real_of_int step) [1..snd add]"

definition cut_back :: "int \<times> int \<Rightarrow> int \<times> int \<Rightarrow> 'a array2 \<Rightarrow> 'a array2" where
  "cut_back y_add x_add a = py_slice2 (fst y_add) (- snd y_add) (fst x_add) (- snd x_add) a"

text \<open>Lines 536-578: the extended grid \<open>(x, y)\<close> and the predictor on it, with
  \<open>y_add\<close> and \<open>x_add\<close>. The previous field goes to the spline as it is (its data).\<close>

definition predictor_gpu ::
  "collab \<Rightarrow> settings \<Rightarrow> real array2 \<Rightarrow> int \<Rightarrow> int \<Rightarrow> real array2 \<Rightarrow> real array2 \<Rightarrow> field \<Rightarrow> field
     \<Rightarrow> real array2 \<Rightarrow> real array2
     \<Rightarrow> ((int \<times> int) \<times> (int \<times> int) \<times> real array2 \<times> real array2 \<times> real array2 \<times> real array2) res" where
  "predictor_gpu K S frame_a window_size ovl x_old y_old u_old v_old x y =
     bindE (col0 y_old) (\<lambda>y_old1.
     bindE (row0 x_old) (\<lambda>x_old1.
     bindE (col0 y) (\<lambda>y_int.
     bindE (row0 x) (\<lambda>x_int.
     bindE (axis_add y_int (nrows frame_a) (window_size - ovl)) (\<lambda>y_add.
     bindE (axis_add x_int (ncols frame_a) (window_size - ovl)) (\<lambda>x_add.
       let y_ext = extend_axis y_int y_add (window_size - ovl);
           x_ext = extend_axis x_int x_add (window_size - ovl);
           (xe, ye) = meshgrid x_ext y_ext
       in
     bindE (resample K S y_old1 x_old1 (getdata u_old) y_ext x_ext) (\<lambda>u_pre.
     bindE (resample K S y_old1 x_old1 (getdata v_old) y_ext x_ext) (\<lambda>v_pre.
     Inr (y_add, x_add, xe, ye, u_pre, v_pre)))))))))"

definition residual_pass_gpu ::
  "collab \<Rightarrow> real array2 \<Rightarrow> real array2 \<Rightarrow> nat \<Rightarrow> real array2 \<Rightarrow> real array2 \<Rightarrow> field \<Rightarrow> field
     \<Rightarrow> settings
     \<Rightarrow> (real array2 \<times> real array2 \<times> field \<times> field \<times> real array2 \<times> bool array2) run" where
  "residual_pass_gpu K frame_a frame_b current_iteration x_old y_old u_old v_old S =
     bindR (liftR (new_grid K frame_a S current_iteration)) (\<lambda>(window_size, ovl, x, y).
     bindR (liftR (predictor_gpu K S frame_a window_size ovl x_old y_old u_old v_old x y))
       (\<lambda>(y_add, x_add, xe, ye, u_pre, v_pre).
     bindR (liftR (deform_windows_gpu K frame_b xe ye u_pre (neg2 v_pre) window_size ovl
                     (interpolation_order S) (interpolation_order S))) (\<lambda>frame_b_def.
     bindR (correlate K current_iteration frame_a frame_b_def window_size ovl None
              (disable_sig2noise S)) (\<lambda>(u, v, s2n).
     bindR (liftR (accumulate u v (cut_back y_add x_add u_pre) (cut_back y_add x_add v_pre)))
       (\<lambda>(u, v).
     liftR (Inr (cut_back y_add x_add xe, cut_back y_add x_add ye, NDArray u, NDArray v, s2n,
                 zeros_like (NDArray u))))))))"

text \<open>Lines 655-669: after \<open>replace_outliers\<close> the flags are replaced by
  \<open>np.zeros(u.shape)\<close>.\<close>

definition repair_unless_last_gpu ::
  "collab \<Rightarrow> nat \<Rightarrow> field \<Rightarrow> field \<Rightarrow> bool array2 \<Rightarrow> settings
     \<Rightarrow> (field \<times> field \<times> bool array2) run" where
  "repair_unless_last_gpu K current_iteration u v flags S =
     (if int current_iteration + 1 \<noteq> num_iterations S
      then bindR (call (Repair current_iteration) (replace_outliers K u v flags S))
             (\<lambda>(u', v'). liftR (Inr (u', v', zeros_like u')))
      else liftR (Inr (u, v, flags)))"

definition multipass_img_deform_gpu ::
  "collab \<Rightarrow> real array2 \<Rightarrow> real array2 \<Rightarrow> nat \<Rightarrow> real array2 \<Rightarrow> real array2 \<Rightarrow> field \<Rightarrow> field
     \<Rightarrow> settings \<Rightarrow> pass_state run" where
  "multipass_img_deform_gpu K frame_a frame_b current_iteration x_old y_old u_old v_old S =
     bindR (residual_pass_gpu K frame_a frame_b current_iteration x_old y_old u_old v_old S)
       (\<lambda>(x, y, u, v, s2n, grid_mask).
     bindR (validate K current_iteration u v s2n (disable_sig2noise S)) (\<lambda>flags.
     bindR (repair_unless_last_gpu K current_iteration u v flags (disable_sig2noise S))
       (\<lambda>(u, v, flags).
     liftR (Inr \<lparr>px = x, py = y, pu = u, pv = v, pmask = grid_mask, pflags = flags,
                 psettings = disable_sig2noise S\<rparr>))))"

section \<open>The orchestrator\<close>

definition smooth_uv :: "collab \<Rightarrow> settings \<Rightarrow> nat \<Rightarrow> field \<times> field \<Rightarrow> (field \<times> field) run" where
  "smooth_uv K S i uv =
     bindR (call (Smooth i) (smoothn_smoothn K (fst uv) (smoothn_p S))) (\<lambda>u.
     bindR (call (Smooth i) (smoothn_smoothn K (snd uv) (smoothn_p S))) (\<lambda>v.
     liftR (Inr (u, v))))"

text \<open>The first pass with its smoothing, validation and repair (lines 190-250 of
  \<^verbatim>\<open>windef.py\<close>, 145-188 of \<^verbatim>\<open>windef_gpu.py\<close>).\<close>

definition first_stage ::
  "collab \<Rightarrow> real array2 \<Rightarrow> real array2 \<Rightarrow> bool array2 option \<Rightarrow> settings \<Rightarrow> pass_state run" where
  "first_stage K frame_a frame_b image_mask S =
     bindR (first_pass K frame_a frame_b S) (\<lambda>(x, y, u, v, s2n).
     bindR (if smoothn S then smooth_uv K S 0 (NDArray u, NDArray v)
            else liftR (Inr (NDArray u, NDArray v))) (\<lambda>(u, v).
     let grid_mask = (case image_mask of
                        None \<Rightarrow> zeros_like u
                      | Some m \<Rightarrow> mask_on_grid K m y x)
     in
     bindR (if validation_first_pass S then call (Validate 0) (typical_validation K u v s2n S)
            else liftR (Inr (zeros_like u))) (\<lambda>flags.
     bindR (if (num_iterations S = 1 \<and> replace_vectors S) \<or> num_iterations S > 1
            then call (Repair 0) (replace_outliers K u v flags S)
            else liftR (Inr (u, v))) (\<lambda>(u, v).
     liftR (Inr \<lparr>px = x, py = y, pu = u, pv = v, pmask = grid_mask, pflags = flags,
                 psettings = S\<rparr>)))))"

text \<open>The body of \<open>for i in range(1, settings.num_iterations)\<close> and the loop itself.\<close>

definition smooth_between :: "collab \<Rightarrow> nat \<Rightarrow> pass_state \<Rightarrow> pass_state run" where
  "smooth_between K i st =
     (if smoothn (psettings st) \<and> int i + 1 \<noteq> num_iterations (psettings st)
      then bindR (smooth_uv K (psettings st) i (pu st, pv st))
             (\<lambda>(u, v). liftR (Inr (st\<lparr>pu := u, pv := v\<rparr>)))
      else liftR (Inr st))"

definition loop_body ::
  "collab \<Rightarrow> real array2 \<Rightarrow> real array2 \<Rightarrow> nat \<Rightarrow> pass_state \<Rightarrow> pass_state run" where
  "loop_body K frame_a frame_b i st =
     bindR (multipass_img_deform K frame_a frame_b i (px st) (py st) (pu st) (pv st)
              (psettings st))
       (smooth_between K i)"

definition loop_body_gpu ::
  "collab \<Rightarrow> real array2 \<Rightarrow> real array2 \<Rightarrow> nat \<Rightarrow> pass_state \<Rightarrow> pass_state run" where
  "loop_body_gpu K frame_a frame_b i st =
     bindR (multipass_img_deform_gpu K frame_a frame_b i (px st) (py st) (pu st) (pv st)
              (psettings st))
       (smooth_between K i)"

fun pass_loop :: "(nat \<Rightarrow> pass_state \<Rightarrow> pass_state run) \<Rightarrow> nat list \<Rightarrow> pass_state \<Rightarrow> pass_state run" where
  "pass_loop body [] st = liftR (Inr st)"
| "pass_loop body (i # rest) st = bindR (body i st) (pass_loop body rest)"

definition iterations :: "settings \<Rightarrow> nat list" where
  "iterations S = [1..<nat (num_iterations S)]"

text \<open>
  The end of \<^verbatim>\<open>windef.multipass\<close>. Line 285 prints \<open>i+1\<close>, and \<open>i\<close> is bound by the
  loop only: when the loop has not run, the print raises.
\<close>

definition finalize :: "collab \<Rightarrow> bool array2 option \<Rightarrow> pass_state \<Rightarrow> saved run" where
  "finalize K image_mask st =
     (if iterations (psettings st) = []
      then liftR (Inl (NameError ''local variable i referenced before assignment''))
      else
        bindR (liftR (filled_method (pu st))) (\<lambda>u.
        bindR (liftR (filled_method (pv st))) (\<lambda>v.
        bindR (liftR (case image_mask of
                        Some m \<Rightarrow>
                          (let grid_mask = mask_on_grid K m (py st) (px st) in
                           bindE (masked_array u grid_mask) (\<lambda>um.
                           bindE (masked_array v grid_mask) (\<lambda>vm.
                           Inr (um, vm, grid_mask))))
                      | None \<Rightarrow> Inr (nomask_array u, nomask_array v, pmask st)))
          (\<lambda>(u, v, grid_mask).
        call Save (Inr \<lparr>saved_x = px st, saved_y = py st,
                        saved_u = neg_flip u, saved_v = neg_flip v,
                        saved_flags = pflags st, saved_mask = grid_mask\<rparr>)))))"

definition multipass :: "collab \<Rightarrow> real array2 \<Rightarrow> real array2 \<Rightarrow> settings \<Rightarrow> saved run" where
  "multipass K raw_a raw_b S =
     bindR (liftR (prepare_images K raw_a raw_b S)) (\<lambda>(frame_a, frame_b, image_mask).
     bindR (first_stage K frame_a frame_b image_mask S) (\<lambda>st.
     bindR (pass_loop (loop_body K frame_a frame_b) (iterations S) st)
       (finalize K image_mask)))"

text \<open>
  The end of \<^verbatim>\<open>windef_gpu.multipass\<close>: no zero fill, an all-false grid mask. The GPU
  file has no image mask anywhere.
\<close>

definition finalize_gpu :: "pass_state \<Rightarrow> saved run" where
  "finalize_gpu st =
     call Save (Inr \<lparr>saved_x = px st, saved_y = py st,
                     saved_u = neg_flip (pu st), saved_v = neg_flip (pv st),
                     saved_flags = pflags st, saved_mask = zeros_like (pu st)\<rparr>)"

definition multipass_gpu :: "collab \<Rightarrow> real array2 \<Rightarrow> real array2 \<Rightarrow> settings \<Rightarrow> saved run" where
  "multipass_gpu K raw_a raw_b S =
     bindR (liftR (prepare_images_gpu raw_a raw_b S)) (\<lambda>(frame_a, frame_b).
     bindR (first_stage K frame_a frame_b None S) (\<lambda>st.
     bindR (pass_loop (loop_body_gpu K frame_a frame_b) (iterations S) st)
       finalize_gpu))"

section \<open>Example collaborators\<close>

text \<open>
  Concrete collaborators on which the engine can be run: the grid builder as the
  specification describes it, a correlation engine that reports the same displacement
  for every window, a spline that is constant, and nearest-neighbour sampling.
  Validation, repair and smoothing are left as arguments.
\<close>

text \<open>
  Modelled from the spec: the Grid Builder (\<open>get_field_shape\<close> and
  \<open>get_rect_coordinates\<close> of \<open>openpiv.pyprocess\<close>, not among the sources): the grid has
  \<open>floor((frame_dim - window_size) / (window_size - overlap)) + 1\<close> points along each
  axis, starting at \<open>w/2\<close> with step \<open>w - o\<close>; \<open>o \<ge> w\<close> or a window larger than the
  frame is refused.
\<close>

definition grid_shape :: "nat \<times> nat \<Rightarrow> int \<Rightarrow> int \<Rightarrow> (nat \<times> nat) res" where
  "grid_shape sh w ov =
     (if w \<le> ov \<or> int (fst sh) < w \<or> int (snd sh) < w
      then Inl (ValueError ''InvalidParameter'')
      else Inr (nat ((int (fst sh) - w) div (w - ov) + 1),
                nat ((int (snd sh) - w) div (w - ov) + 1)))"

definition grid_coordinates :: "nat \<times> nat \<Rightarrow> int \<Rightarrow> int \<Rightarrow> (real list \<times> real list) res" where
  "grid_coordinates sh w ov =
     bindE (grid_shape sh w ov) (\<lambda>(r, c).
       Inr (map (\<lambda>j. real_of_int w / 2 + real j * real_of_int (w - ov)) [0..<c],
            map (\<lambda>i. real_of_int w / 2 + real i * real_of_int (w - ov)) [0..<r]))"

definition uniform_correlation ::
  "real \<Rightarrow> real \<Rightarrow> real array2 \<Rightarrow> real array2 \<Rightarrow> int \<Rightarrow> int \<Rightarrow> int option \<Rightarrow> settings
     \<Rightarrow> (real list \<times> real list \<times> real list) res" where
  "uniform_correlation du dv frame_a frame_b w ov search S =
     bindE (grid_shape (shape frame_a) w ov) (\<lambda>(r, c).
       Inr (replicate (r * c) du, replicate (r * c) dv, replicate (r * c) 1))"

definition constant_spline ::
  "real list \<Rightarrow> real list \<Rightarrow> real array2 \<Rightarrow> int \<Rightarrow> int \<Rightarrow> (real \<Rightarrow> real \<Rightarrow> real) res" where
  "constant_spline ys xs w kx ky = Inr (\<lambda>y x. case concat w of [] \<Rightarrow> 0 | z # _ \<Rightarrow> z)"

definition nearest_sample :: "int \<Rightarrow> bool \<Rightarrow> (int \<Rightarrow> int \<Rightarrow> real) \<Rightarrow> real \<Rightarrow> real \<Rightarrow> real" where
  "nearest_sample order prefilter img r c = img \<lfloor>r + 1 / 2\<rfloor> \<lfloor>c + 1 / 2\<rfloor>"

definition nearest_mask :: "bool array2 \<Rightarrow> real \<Rightarrow> real \<Rightarrow> bool" where
  "nearest_mask m r c =
     (let i = \<lfloor>r + 1 / 2\<rfloor>; j = \<lfloor>c + 1 / 2\<rfloor>
      in 0 \<le> i \<and> i < int (nrows m) \<and> 0 \<le> j \<and> j < int (ncols m) \<and> m ! nat i ! nat j)"

definition example_collab ::
  "real \<Rightarrow> real
     \<Rightarrow> (field \<Rightarrow> field \<Rightarrow> real array2 \<Rightarrow> settings \<Rightarrow> (bool array2) res)
     \<Rightarrow> (field \<Rightarrow> field \<Rightarrow> bool array2 \<Rightarrow> settings \<Rightarrow> (field \<times> field) res)
     \<Rightarrow> (field \<Rightarrow> real \<Rightarrow> field res) \<Rightarrow> collab" where
  "example_collab du dv val rep smo =
     \<lparr>invert_pixel = (\<lambda>x. 255 - x),
      dynamic_masking = (\<lambda>f S. Inr (f, map (map (\<lambda>_. False)) f)),
      extended_search_area_piv = uniform_correlation du dv,
      get_field_shape = grid_shape,
      get_rect_coordinates = grid_coordinates,
      typical_validation = val,
      replace_outliers = rep,
      smoothn_smoothn = smo,
      RectBivariateSpline = constant_spline,
      interpolate = nearest_sample,
      sample_mask = nearest_mask\<rparr>"

text \<open>Settings for three passes with windows of 4 pixels, and everything optional
  switched off.\<close>

definition example_settings :: settings where
  "example_settings =
     \<lparr>windowsizes = [4, 4, 4], overlap = [0, 0, 0], num_iterations = 3, interpolation_order = 0,
      smoothn = False, smoothn_p = 1, validation_first_pass = True, replace_vectors = False,
      sig2noise_validate = False, sig2noise_method = Some ''peak2peak'', static_mask = None,
      roi = Full, invert = False, dynamic_masking_method = ''None''\<rparr>"

text \<open>Validation, repair and smoothing collaborators for the examples, and a frame of
  4 rows and 8 columns.\<close>

definition flag_first :: "field \<Rightarrow> field \<Rightarrow> real array2 \<Rightarrow> settings \<Rightarrow> (bool array2) res" where
  "flag_first u v s2n S =
     Inr (map (\<lambda>i. map (\<lambda>j. i = 0 \<and> j = 0) [0..<ncols (getdata u)]) [0..<nrows (getdata u)])"

definition flag_all_if :: "nat \<Rightarrow> field \<Rightarrow> field \<Rightarrow> real array2 \<Rightarrow> settings \<Rightarrow> (bool array2) res" where
  "flag_all_if c u v s2n S = Inr (map (map (\<lambda>_. ncols (getdata u) = c)) (getdata u))"

definition no_repair :: "field \<Rightarrow> field \<Rightarrow> bool array2 \<Rightarrow> settings \<Rightarrow> (field \<times> field) res" where
  "no_repair u v fl S = Inr (u, v)"

definition repair_with :: "real \<Rightarrow> field \<Rightarrow> field \<Rightarrow> bool array2 \<Rightarrow> settings \<Rightarrow> (field \<times> field) res" where
  "repair_with c u v fl S =
     Inr (NDArray (map2 (map2 (\<lambda>x b. if b then c else x)) (getdata u) fl),
          NDArray (map2 (map2 (\<lambda>x b. if b then c else x)) (getdata v) fl))"

definition halve :: "field \<Rightarrow> real \<Rightarrow> field res" where
  "halve u p = Inr (NDArray (map (map (\<lambda>x. x / 2)) (getdata u)))"

definition example_frame :: "real array2" where
  "example_frame = replicate 4 [1, 2, 3, 4, 5, 6, 7, 8]"

section \<open>Auxiliary notions for the proofs\<close>

text \<open>The value of \<open>np_pad\<close> with natural widths, and frame B after the two crops.\<close>

definition padded :: "real array2 \<Rightarrow> nat \<Rightarrow> nat \<Rightarrow> nat \<Rightarrow> nat \<Rightarrow> real array2" where
  "padded f a aa b bb =
     replicate a (replicate (b + ncols f + bb) 0)
     @ map (\<lambda>r. replicate b 0 @ r @ replicate bb 0) f
     @ replicate aa (replicate (b + ncols f + bb) 0)"


text \<open>
  For the tiled deformer: the sample the GPU code takes for one output pixel, the table
  of all of them after conversion to \<open>uint8\<close>, arrays of a given height and width, the
  tile that starts at \<open>(ys, xs)\<close>, and the indices covered by the tiles of a list of
  starts.
\<close>

definition gpu_sample ::
  "collab \<Rightarrow> real array2 \<Rightarrow> real array2 \<Rightarrow> real array2 \<Rightarrow> real \<Rightarrow> real \<Rightarrow> int \<Rightarrow> int
     \<Rightarrow> int \<Rightarrow> int \<Rightarrow> nat \<Rightarrow> nat \<Rightarrow> real" where
  "gpu_sample K frame u v x0 y0 window_size ovl order order2 row col =
     (let cy = true_divide (real row - y0) (window_size - ovl);
          cx = true_divide (real col - x0) (window_size - ovl);
          ut = sample_const K order2 0 u cy cx;
          vt = sample_const K order2 0 v cy cx
      in sample_at K order Nearest False frame (real row - vt) (real col + ut))"

definition sized :: "nat \<Rightarrow> nat \<Rightarrow> 'a array2 \<Rightarrow> bool" where
  "sized H W a = (length a = H \<and> (\<forall>r \<in> set a. length r = W))"

definition tile_of :: "(nat \<Rightarrow> nat \<Rightarrow> real) \<Rightarrow> nat \<Rightarrow> nat \<Rightarrow> nat \<Rightarrow> nat \<Rightarrow> nat \<Rightarrow> real array2" where
  "tile_of p ts H W ys xs =
     map (\<lambda>row. map (\<lambda>col. p row col) [xs..<min (xs + ts) W]) [ys..<min (ys + ts) H]"

definition covered :: "nat \<Rightarrow> nat \<Rightarrow> nat list \<Rightarrow> nat \<Rightarrow> bool" where
  "covered ts n L j = (\<exists>s \<in> set L. s \<le> j \<and> j < min (s + ts) n)"

definition gpu_table ::
  "collab \<Rightarrow> real array2 \<Rightarrow> real array2 \<Rightarrow> real array2 \<Rightarrow> real \<Rightarrow> real \<Rightarrow> int \<Rightarrow> int
     \<Rightarrow> int \<Rightarrow> int \<Rightarrow> real array2" where
  "gpu_table K frame u v x0 y0 window_size ovl order order2 =
     map (\<lambda>row. map (\<lambda>col. uint8_cast
                         (gpu_sample K frame u v x0 y0 window_size ovl order order2 row col))
                   [0..<ncols frame]) [0..<nrows frame]"

text \<open>The table of samples the CPU deformer takes, given the two fitted splines.\<close>

definition cpu_table ::
  "collab \<Rightarrow> real array2 \<Rightarrow> (real \<Rightarrow> real \<Rightarrow> real) \<Rightarrow> (real \<Rightarrow> real \<Rightarrow> real) \<Rightarrow> int \<Rightarrow> real array2" where
  "cpu_table K frame ip ip2 order =
     map (\<lambda>row. map (\<lambda>col. sample_at K order Nearest True frame
                          (real row - ip2 (real row) (real col))
                          (real col + ip (real row) (real col)))
                   [0..<ncols frame]) [0..<nrows frame]"

text \<open>
  The calls a run makes, read off the settings alone. The first pass correlates, smooths
  (both components) when \<open>smoothn\<close> is set, validates when \<open>validation_first_pass\<close> is
  set, and repairs when another pass follows or when it is the only pass and
  \<open>replace_vectors\<close> is set. Pass \<open>i \<ge> 1\<close> correlates and validates, and repairs and
  smooths unless it is the last one. \<open>same_plan\<close> relates settings that give the same
  calls: a pass changes the settings in place, but only \<open>sig2noise_method\<close>.
\<close>

definition first_log :: "settings \<Rightarrow> event list" where
  "first_log S =
     [Correlate 0]
     @ (if smoothn S then [Smooth 0, Smooth 0] else [])
     @ (if validation_first_pass S then [Validate 0] else [])
     @ (if (num_iterations S = 1 \<and> replace_vectors S) \<or> num_iterations S > 1
        then [Repair 0] else [])"

definition pass_log :: "settings \<Rightarrow> nat \<Rightarrow> event list" where
  "pass_log S i =
     [Correlate i, Validate i]
     @ (if int i + 1 \<noteq> num_iterations S then [Repair i] else [])
     @ (if smoothn S \<and> int i + 1 \<noteq> num_iterations S then [Smooth i, Smooth i] else [])"

definition schedule :: "settings \<Rightarrow> event list" where
  "schedule S = first_log S @ concat (map (pass_log S) (iterations S)) @ [Save]"

definition same_plan :: "settings \<Rightarrow> settings \<Rightarrow> bool" where
  "same_plan S S' = (num_iterations S' = num_iterations S \<and> smoothn S' = smoothn S)"

text \<open>A run that has not failed has logged exactly \<open>l\<close>; one that has failed has logged a
  prefix of it.\<close>

definition logs :: "'a run \<Rightarrow> event list \<Rightarrow> bool" where
  "logs m l = (case snd m of Inr _ \<Rightarrow> fst m = l | Inl _ \<Rightarrow> prefix (fst m) l)"

section \<open>Properties of prepare_images\<close>

lemma ncols_Nil [simp]: "ncols [] = 0"
  by (simp add: ncols_def)

lemma bindE_Inr [simp]: "bindE (Inr x) f = f x"
  by (simp add: bindE_def)

lemma bindE_Inl [simp]: "bindE (Inl e) f = Inl e"
  by (simp add: bindE_def)

lemma rect_iff: "rect a \<longleftrightarrow> (\<forall>r \<in> set a. length r = ncols a)"
  by (simp add: rect_def list_all_iff)

lemma ncols_rows: "a \<noteq> [] \<Longrightarrow> \<forall>r \<in> set a. length r = w \<Longrightarrow> ncols a = w"
  by (cases a) (auto simp: ncols_def)

lemma rect_rows: "\<forall>r \<in> set a. length r = w \<Longrightarrow> rect a"
  by (cases a) (auto simp: rect_iff ncols_def)


lemma crop_width_length [simp]: "length (crop_width A B) = length B"
  by (simp add: crop_width_def Let_def)

lemma crop_width_rows:
  assumes "rect B" "r \<in> set (crop_width A B)"
  shows "length r = min (ncols A) (ncols B)"
  using assms by (auto simp: crop_width_def Let_def rect_iff split: if_splits)






lemma padded_length [simp]: "length (padded f a aa b bb) = a + length f + aa"
  by (simp add: padded_def)




lemma crop_width_ncols: "rect B \<Longrightarrow> ncols (crop_width A B) = min (ncols A) (ncols B)"
proof (cases "B = []")
  case True
  then show ?thesis by (simp add: crop_width_def)
next
  case False
  assume "rect B"
  then have "\<forall>r \<in> set (crop_width A B). length r = min (ncols A) (ncols B)"
    by (simp add: crop_width_rows)
  moreover have "crop_width A B \<noteq> []"
    using False crop_width_length [of A B] by (metis length_0_conv)
  ultimately show ?thesis by (rule ncols_rows [rotated])
qed

lemma crop_width_rect: "rect B \<Longrightarrow> rect (crop_width A B)"
  using crop_width_rows [of B _ A] by (intro rect_rows [of _ "min (ncols A) (ncols B)"]) simp






lemma padded_none [simp]: "padded f 0 0 0 0 = f"
  by (simp add: padded_def)






lemma py_slice_set: "set (py_slice lo hi xs) \<subseteq> set xs"
  by (auto simp: py_slice_def Let_def dest: in_set_takeD in_set_dropD)




lemma bc_list_length [simp]: "length (bc_list n xs) = n"
  by (simp add: bc_list_def)

lemma shape_map_map [simp]: "shape (map (map g) z) = shape z"
  by (cases z) (simp_all add: shape_def nrows_def ncols_def)








section \<open>The tiled deformer computes one table\<close>

lemma map2_maps: "map2 f (map g xs) (map h xs) = map (\<lambda>x. f (g x) (h x)) xs"
  by (induction xs) auto

lemma replicate_as_map: "replicate (length xs) c = map (\<lambda>_. c) xs"
  by (induction xs) auto

lemma deform_tile_closed:
  "deform_tile K frame u v x0 y0 window_size ovl order order2 y_start y_end x_start x_end
   = map (\<lambda>row. map (\<lambda>col. gpu_sample K frame u v x0 y0 window_size ovl order order2 row col)
                   [x_start..<x_end]) [y_start..<y_end]"
proof -
  have rx: "replicate (length (map real [y_start..<y_end])) xs = map (\<lambda>_. xs) [y_start..<y_end]" for xs :: "real list"
    using replicate_as_map [of "[y_start..<y_end]" xs] by simp
  have ry: "replicate (length (map real [x_start..<x_end])) c = map (\<lambda>_. c) [x_start..<x_end]" for c :: real
    using replicate_as_map [of "[x_start..<x_end]" c] by simp
  show ?thesis
    unfolding deform_tile_def meshgrid_def Let_def prod.case map_coordinates_def
      map_coordinates_const_def sub2_def add2_def rx ry
    by (simp add: map2_maps o_def gpu_sample_def Let_def)
qed

lemma sample_const_divide:
  "sample_const K order2 0 w (true_divide a d) (true_divide b d)
   = (if d = 0 then 0
      else sample_at K order2 (Constant 0) True w (a / real_of_int d) (b / real_of_int d))"
  by (simp add: sample_const_def true_divide_def)

lemma sized_nth: "sized H W a \<Longrightarrow> i < H \<Longrightarrow> length (a ! i) = W"
  by (simp add: sized_def)

lemma write_row_nth:
  assumes "length row = W" "length trow = w" "xs + w \<le> W" "j < W"
  shows "(take xs row @ map uint8_cast trow @ drop (xs + length trow) row) ! j
         = (if xs \<le> j \<and> j < xs + w then uint8_cast (trow ! (j - xs)) else row ! j)"
  using assms by (auto simp: nth_append min_def)

lemma write_row_length:
  assumes "length row = W" "length trow = w" "xs + w \<le> W"
  shows "length (take xs row @ map uint8_cast trow @ drop (xs + length trow) row) = W"
  using assms by simp

lemma write_tile_length:
  assumes "sized H W fd" "sized h w tile" "ys + h \<le> H"
  shows "length (write_tile fd ys xs tile) = H"
  using assms by (simp add: write_tile_def sized_def)

lemma write_tile_row:
  assumes fd: "sized H W fd" and t: "sized h w tile" and fit: "ys + h \<le> H" and i: "i < H"
  shows "write_tile fd ys xs tile ! i
         = (if ys \<le> i \<and> i < ys + h
            then take xs (fd ! i) @ map uint8_cast (tile ! (i - ys))
                 @ drop (xs + length (tile ! (i - ys))) (fd ! i)
            else fd ! i)"
proof -
  have lfd: "length fd = H" and lt: "length tile = h" using fd t by (simp_all add: sized_def)
  let ?g = "\<lambda>row trow. take xs row @ map uint8_cast trow @ drop (xs + length trow) row"
  let ?A = "take ys fd" and ?M = "map2 ?g (take (length tile) (drop ys fd)) tile"
  let ?D = "drop (ys + length tile) fd"
  have lA: "length ?A = ys" using lfd fit by simp
  have lM: "length ?M = h" using lfd lt fit by simp
  have wt: "write_tile fd ys xs tile = ?A @ ?M @ ?D" by (simp add: write_tile_def)
  consider "i < ys" | "ys \<le> i" "i < ys + h" | "ys + h \<le> i" by linarith
  then show ?thesis
  proof cases
    case 1
    then have "(?A @ ?M @ ?D) ! i = ?A ! i" using lA by (simp add: nth_append)
    with 1 show ?thesis unfolding wt by simp
  next
    case 2
    then have k: "i - ys < h" by simp
    have "(?A @ ?M @ ?D) ! i = (?M @ ?D) ! (i - ys)" using 2 lA by (simp add: nth_append)
    also have "\<dots> = ?M ! (i - ys)" using k lM by (simp add: nth_append)
    also have "\<dots> = ?g (take (length tile) (drop ys fd) ! (i - ys)) (tile ! (i - ys))"
      using k lt lfd fit by simp
    also have "take (length tile) (drop ys fd) ! (i - ys) = fd ! i"
      using k lt lfd fit 2 by simp
    finally show ?thesis unfolding wt using 2 by simp
  next
    case 3
    then have "(?A @ ?M @ ?D) ! i = (?M @ ?D) ! (i - ys)" using lA by (simp add: nth_append)
    also have "\<dots> = ?D ! (i - ys - h)" using 3 lM by (simp add: nth_append)
    also have "\<dots> = fd ! (ys + length tile + (i - ys - h))"
      using lfd lt fit i 3 by (intro nth_drop) simp
    also have "ys + length tile + (i - ys - h) = i" using 3 lt by simp
    finally show ?thesis unfolding wt using 3 by simp
  qed
qed

lemma write_tile_sized:
  assumes fd: "sized H W fd" and t: "sized h w tile" and fit: "ys + h \<le> H" "xs + w \<le> W"
  shows "sized H W (write_tile fd ys xs tile)"
proof -
  have len: "length (write_tile fd ys xs tile) = H"
    using fd t fit(1) by (rule write_tile_length)
  have "length (write_tile fd ys xs tile ! i) = W" if i: "i < H" for i
  proof (cases "ys \<le> i \<and> i < ys + h")
    case True
    then have k: "i - ys < h" by auto
    have "length (fd ! i) = W" using fd i by (rule sized_nth)
    moreover have "length (tile ! (i - ys)) = w" using t k by (rule sized_nth)
    ultimately show ?thesis
      using write_tile_row [OF fd t fit(1) i, of xs] True fit(2) by simp
  next
    case False
    then have "write_tile fd ys xs tile ! i = fd ! i"
      using write_tile_row [OF fd t fit(1) i, of xs] by auto
    then show ?thesis using sized_nth [OF fd i] by simp
  qed
  with len show ?thesis by (auto simp: sized_def in_set_conv_nth)
qed

lemma write_tile_nth:
  assumes fd: "sized H W fd" and t: "sized h w tile" and fit: "ys + h \<le> H" "xs + w \<le> W"
    and i: "i < H" and j: "j < W"
  shows "write_tile fd ys xs tile ! i ! j
         = (if ys \<le> i \<and> i < ys + h \<and> xs \<le> j \<and> j < xs + w
            then uint8_cast (tile ! (i - ys) ! (j - xs)) else fd ! i ! j)"
proof (cases "ys \<le> i \<and> i < ys + h")
  case True
  then have k: "i - ys < h" by auto
  have row: "length (fd ! i) = W" using fd i by (rule sized_nth)
  have trow: "length (tile ! (i - ys)) = w" using t k by (rule sized_nth)
  show ?thesis
    using write_tile_row [OF fd t fit(1) i, of xs] True write_row_nth [OF row trow fit(2) j]
    by simp
next
  case False
  then show ?thesis using write_tile_row [OF fd t fit(1) i, of xs] by auto
qed

lemma tile_of_sized: "sized (min (ys + ts) H - ys) (min (xs + ts) W - xs) (tile_of p ts H W ys xs)"
  by (auto simp: sized_def tile_of_def)

lemma tile_of_nth:
  "a < min (ys + ts) H - ys \<Longrightarrow> b < min (xs + ts) W - xs \<Longrightarrow>
   tile_of p ts H W ys xs ! a ! b = p (ys + a) (xs + b)"
proof -
  assume a: "a < min (ys + ts) H - ys" and b: "b < min (xs + ts) W - xs"
  have "[ys..<min (ys + ts) H] ! a = ys + a" using a by (intro nth_upt) (auto simp: min_def split: if_splits)
  moreover have "[xs..<min (xs + ts) W] ! b = xs + b" using b by (intro nth_upt) (auto simp: min_def split: if_splits)
  ultimately show ?thesis using a b by (simp add: tile_of_def)
qed

lemma write_tile_of:
  assumes fd: "sized H W fd" and ys: "ys \<le> H" and xs: "xs \<le> W"
  shows "sized H W (write_tile fd ys xs (tile_of p ts H W ys xs))"
    and "i < H \<Longrightarrow> j < W \<Longrightarrow>
         write_tile fd ys xs (tile_of p ts H W ys xs) ! i ! j
         = (if ys \<le> i \<and> i < min (ys + ts) H \<and> xs \<le> j \<and> j < min (xs + ts) W
            then uint8_cast (p i j) else fd ! i ! j)"
proof -
  let ?h = "min (ys + ts) H - ys" and ?w = "min (xs + ts) W - xs"
  have fit: "ys + ?h \<le> H" "xs + ?w \<le> W" using ys xs by auto
  have yh: "ys + ?h = min (ys + ts) H" and xw: "xs + ?w = min (xs + ts) W"
    using ys xs by auto
  show "sized H W (write_tile fd ys xs (tile_of p ts H W ys xs))"
    using fd tile_of_sized fit by (rule write_tile_sized)
  assume i: "i < H" and j: "j < W"
  have "write_tile fd ys xs (tile_of p ts H W ys xs) ! i ! j
        = (if ys \<le> i \<and> i < ys + ?h \<and> xs \<le> j \<and> j < xs + ?w
           then uint8_cast (tile_of p ts H W ys xs ! (i - ys) ! (j - xs)) else fd ! i ! j)"
    using fd tile_of_sized fit i j by (rule write_tile_nth)
  also have "\<dots> = (if ys \<le> i \<and> i < min (ys + ts) H \<and> xs \<le> j \<and> j < min (xs + ts) W
            then uint8_cast (p i j) else fd ! i ! j)"
    unfolding yh xw by (auto simp: tile_of_nth)
  finally show "write_tile fd ys xs (tile_of p ts H W ys xs) ! i ! j
         = (if ys \<le> i \<and> i < min (ys + ts) H \<and> xs \<le> j \<and> j < min (xs + ts) W
            then uint8_cast (p i j) else fd ! i ! j)" .
qed

lemma fold_cols:
  assumes "sized H W fd" "ys \<le> H" "\<forall>xs \<in> set L. xs \<le> W"
  shows "sized H W (fold (\<lambda>xs fd. write_tile fd ys xs (tile_of p ts H W ys xs)) L fd)
         \<and> (\<forall>i<H. \<forall>j<W.
              fold (\<lambda>xs fd. write_tile fd ys xs (tile_of p ts H W ys xs)) L fd ! i ! j
              = (if ys \<le> i \<and> i < min (ys + ts) H \<and> covered ts W L j
                 then uint8_cast (p i j) else fd ! i ! j))"
  using assms
proof (induction L arbitrary: fd)
  case Nil
  then show ?case by (simp add: covered_def)
next
  case (Cons x L)
  let ?fd = "write_tile fd ys x (tile_of p ts H W ys x)"
  have x: "x \<le> W" using Cons.prems(3) by simp
  have s: "sized H W ?fd" using Cons.prems(1,2) x by (rule write_tile_of(1))
  have n: "?fd ! i ! j = (if ys \<le> i \<and> i < min (ys + ts) H \<and> x \<le> j \<and> j < min (x + ts) W
            then uint8_cast (p i j) else fd ! i ! j)" if "i < H" "j < W" for i j
    using Cons.prems(1,2) x that by (rule write_tile_of(2))
  have L: "\<forall>xs \<in> set L. xs \<le> W" using Cons.prems(3) by simp
  from Cons.IH [OF s Cons.prems(2) L] show ?case
    by (auto simp: n covered_def)
qed

lemma fold_rows:
  assumes "sized H W fd" "\<forall>ys \<in> set Ly. ys \<le> H" "\<forall>xs \<in> set Lx. xs \<le> W"
    and "\<forall>j<W. covered ts W Lx j"
  shows "sized H W (fold (\<lambda>ys fd. fold (\<lambda>xs fd. write_tile fd ys xs (tile_of p ts H W ys xs)) Lx fd) Ly fd)
         \<and> (\<forall>i<H. \<forall>j<W.
              fold (\<lambda>ys fd. fold (\<lambda>xs fd. write_tile fd ys xs (tile_of p ts H W ys xs)) Lx fd) Ly fd ! i ! j
              = (if covered ts H Ly i then uint8_cast (p i j) else fd ! i ! j))"
  using assms(1,2)
proof (induction Ly arbitrary: fd)
  case Nil
  then show ?case by (simp add: covered_def)
next
  case (Cons y Ly)
  let ?fd = "fold (\<lambda>xs fd. write_tile fd y xs (tile_of p ts H W y xs)) Lx fd"
  have y: "y \<le> H" using Cons.prems(2) by simp
  from fold_cols [OF Cons.prems(1) y assms(3), of p ts]
  have s: "sized H W ?fd"
    and n: "\<forall>i<H. \<forall>j<W. ?fd ! i ! j = (if y \<le> i \<and> i < min (y + ts) H \<and> covered ts W Lx j
                 then uint8_cast (p i j) else fd ! i ! j)"
    by blast+
  have L: "\<forall>ys \<in> set Ly. ys \<le> H" using Cons.prems(2) by simp
  from Cons.IH [OF s L] n assms(4) show ?case
    by (auto simp: covered_def)
qed

lemma tile_starts_bound: "0 < ts \<Longrightarrow> s \<in> set (tile_starts n ts) \<Longrightarrow> s < n"
proof -
  assume ts: "0 < ts" and "s \<in> set (tile_starts n ts)"
  then obtain k where s: "s = k * ts" and k: "k < (n + ts - 1) div ts"
    by (auto simp: tile_starts_def)
  from k have "Suc k \<le> (n + ts - 1) div ts" by simp
  then have "Suc k * ts \<le> n + ts - 1" using ts by (simp add: less_eq_div_iff_mult_less_eq)
  then show "s < n" using ts s by (cases ts) auto
qed

lemma tile_starts_cover: "0 < ts \<Longrightarrow> j < n \<Longrightarrow> covered ts n (tile_starts n ts) j"
proof -
  assume ts: "0 < ts" and j: "j < n"
  let ?k = "j div ts"
  have 1: "?k * ts \<le> j" by simp
  have 2: "j < ?k * ts + ts" using ts by (metis add.commute div_mult_mod_eq add_less_cancel_left mod_less_divisor)
  have "Suc ?k * ts \<le> n + ts - 1" using 1 j ts by (cases ts) auto
  then have "Suc ?k \<le> (n + ts - 1) div ts" using ts by (simp add: less_eq_div_iff_mult_less_eq)
  then have "?k * ts \<in> set (tile_starts n ts)" by (auto simp: tile_starts_def)
  moreover have "?k * ts \<le> j \<and> j < min (?k * ts + ts) n" using 1 2 j by simp
  ultimately show ?thesis unfolding covered_def by blast
qed

lemma sized_eqI:
  assumes "sized H W a" "sized H W b" "\<And>i j. i < H \<Longrightarrow> j < W \<Longrightarrow> a ! i ! j = b ! i ! j"
  shows "a = b"
proof (rule nth_equalityI)
  show "length a = length b" using assms(1,2) by (simp add: sized_def)
  fix i assume "i < length a"
  then have i: "i < H" using assms(1) by (simp add: sized_def)
  show "a ! i = b ! i"
  proof (rule nth_equalityI)
    show "length (a ! i) = length (b ! i)"
      using sized_nth [OF assms(1) i] sized_nth [OF assms(2) i] by simp
    fix j assume "j < length (a ! i)"
    then have "j < W" using sized_nth [OF assms(1) i] by simp
    with i show "a ! i ! j = b ! i ! j" by (rule assms(3))
  qed
qed

lemma tiles_fold_closed:
  assumes ts: "0 < ts" and init: "sized (nrows frame) (ncols frame) init"
  shows "fold (\<lambda>y_start frame_def.
               fold (\<lambda>x_start frame_def.
                  write_tile frame_def y_start x_start
                    (deform_tile K frame u v x0 y0 window_size ovl order order2
                       y_start (min (y_start + ts) (nrows frame))
                       x_start (min (x_start + ts) (ncols frame))))
                 (tile_starts (ncols frame) ts) frame_def)
             (tile_starts (nrows frame) ts) init
         = gpu_table K frame u v x0 y0 window_size ovl order order2"
proof -
  let ?H = "nrows frame" and ?W = "ncols frame"
  let ?p = "gpu_sample K frame u v x0 y0 window_size ovl order order2"
  have tile: "deform_tile K frame u v x0 y0 window_size ovl order order2
                ys (min (ys + ts) ?H) xs (min (xs + ts) ?W) = tile_of ?p ts ?H ?W ys xs" for ys xs
    by (simp add: deform_tile_closed tile_of_def)
  have yb: "\<forall>ys \<in> set (tile_starts ?H ts). ys \<le> ?H"
    using tile_starts_bound [OF ts] by (auto intro: less_imp_le)
  have xb: "\<forall>xs \<in> set (tile_starts ?W ts). xs \<le> ?W"
    using tile_starts_bound [OF ts] by (auto intro: less_imp_le)
  have cx: "\<forall>j<?W. covered ts ?W (tile_starts ?W ts) j"
    using tile_starts_cover [OF ts] by blast
  let ?R = "fold (\<lambda>ys fd. fold (\<lambda>xs fd. write_tile fd ys xs (tile_of ?p ts ?H ?W ys xs))
                     (tile_starts ?W ts) fd) (tile_starts ?H ts) init"
  from fold_rows [OF init yb xb cx, of ?p]
  have s: "sized ?H ?W ?R"
    and n: "\<forall>i<?H. \<forall>j<?W. ?R ! i ! j
              = (if covered ts ?H (tile_starts ?H ts) i then uint8_cast (?p i j) else init ! i ! j)"
    by blast+
  have t: "sized ?H ?W (gpu_table K frame u v x0 y0 window_size ovl order order2)"
    by (auto simp: sized_def gpu_table_def)
  have "?R = gpu_table K frame u v x0 y0 window_size ovl order order2"
  proof (rule sized_eqI [OF s t])
    fix i j assume i: "i < ?H" and j: "j < ?W"
    then have "?R ! i ! j = uint8_cast (?p i j)"
      using n tile_starts_cover [OF ts i] by simp
    also have "\<dots> = gpu_table K frame u v x0 y0 window_size ovl order order2 ! i ! j"
      using i j by (simp add: gpu_table_def)
    finally show "?R ! i ! j = gpu_table K frame u v x0 y0 window_size ovl order order2 ! i ! j" .
  qed
  then show ?thesis by (simp only: tile)
qed

lemma deform_windows_tiled_closed:
  assumes "0 < ts" "sized (nrows frame) (ncols frame) init"
  shows "deform_windows_tiled ts init K frame x y u v window_size ovl order order2
         = bindE (index00 x) (\<lambda>x0. bindE (index00 y) (\<lambda>y0.
             Inr (gpu_table K frame u v x0 y0 window_size ovl order order2)))"
  unfolding deform_windows_tiled_def Let_def
  by (simp only: tiles_fold_closed [OF assms])

lemma empty_frame_sized: "sized (nrows frame) (ncols frame) (empty_frame frame)"
  by (simp add: sized_def empty_frame_def nrows_def)

lemma deform_windows_gpu_closed [code]:
  "deform_windows_gpu K frame x y u v window_size ovl order order2
   = bindE (index00 x) (\<lambda>x0. bindE (index00 y) (\<lambda>y0.
       Inr (gpu_table K frame u v x0 y0 window_size ovl order order2)))"
  unfolding deform_windows_gpu_def
  by (rule deform_windows_tiled_closed) (simp_all add: empty_frame_sized)

section \<open>What the two deformers compute\<close>

lemma dense_field_closed:
  "create_deformation_field K frame x y u v order2
   = bindE (col0 y) (\<lambda>y1. bindE (row0 x) (\<lambda>x1.
     bindE (RectBivariateSpline K y1 x1 u order2 order2) (\<lambda>ip.
     bindE (RectBivariateSpline K y1 x1 v order2 order2) (\<lambda>ip2.
       Inr (map (\<lambda>row. map real [0..<ncols frame]) [0..<nrows frame],
            map (\<lambda>row. map (\<lambda>col. real row) [0..<ncols frame]) [0..<nrows frame],
            map (\<lambda>row. map (\<lambda>col. ip (real row) (real col)) [0..<ncols frame]) [0..<nrows frame],
            map (\<lambda>row. map (\<lambda>col. ip2 (real row) (real col)) [0..<ncols frame]) [0..<nrows frame])))))"
proof -
  have rx: "replicate (length (map real [0..<nrows frame])) xs = map (\<lambda>_. xs) [0..<nrows frame]"
    for xs :: "real list"
    using replicate_as_map [of "[0..<nrows frame]" xs] by simp
  have ry: "replicate (length (map real [0..<ncols frame])) c = map (\<lambda>_. c) [0..<ncols frame]"
    for c :: real
    using replicate_as_map [of "[0..<ncols frame]" c] by simp
  show ?thesis
    unfolding create_deformation_field_def meshgrid_def Let_def prod.case spline_grid_def rx ry
    by (simp add: o_def)
qed

lemma deform_windows_closed:
  "deform_windows K frame x y u v order order2
   = bindE (col0 y) (\<lambda>y1. bindE (row0 x) (\<lambda>x1.
     bindE (RectBivariateSpline K y1 x1 u order2 order2) (\<lambda>ip.
     bindE (RectBivariateSpline K y1 x1 v order2 order2) (\<lambda>ip2.
       Inr (cpu_table K frame ip ip2 order)))))"
  unfolding deform_windows_def dense_field_closed
  by (auto simp: bindE_def cpu_table_def map_coordinates_def sub2_def add2_def map2_maps o_def
           split: sum.splits)

lemma sized_shape: "sized H W a \<Longrightarrow> 0 < H \<Longrightarrow> shape a = (H, W) \<and> rect a"
  by (cases a) (auto simp: sized_def shape_def nrows_def ncols_def rect_def list_all_iff)

lemma sized_table:
  "sized (nrows frame) (ncols frame)
     (map (\<lambda>row. map (f row) [0..<ncols frame]) [0..<nrows frame])"
  by (auto simp: sized_def)

lemma table_shape:
  "shape (map (\<lambda>row. map (f row) [0..<ncols frame]) [0..<nrows frame]) = shape frame
   \<and> rect (map (\<lambda>row. map (f row) [0..<ncols frame]) [0..<nrows frame])"
proof (cases "nrows frame = 0")
  case True
  then show ?thesis by (simp add: shape_def nrows_def rect_def)
next
  case False
  then show ?thesis using sized_shape [OF sized_table [of frame f]] by (simp add: shape_def)
qed

lemma edge_extend_clamp:
  assumes "0 < nrows frame" "0 < ncols frame"
  shows "edge_extend frame i j
         = frame ! nat (max 0 (min i (int (nrows frame) - 1)))
                 ! nat (max 0 (min j (int (ncols frame) - 1)))"
proof -
  have "clamp_index n k = nat (max 0 (min k (int n - 1)))" if "0 < n" for n k
    using that by (auto simp: clamp_index_def max_def min_def)
  with assms show ?thesis by (simp add: edge_extend_def)
qed

text \<open>
  Claim C2, as the code has it. The CPU deformer returns a frame of the input's shape whose
  pixel \<open>(row, col)\<close> is the input sampled at \<open>(row - v(row, col), col + u(row, col))\<close> of
  the dense field, at the given order, on the frame extended by its edge values (a source
  coordinate outside the frame reads the nearest edge). The GPU deformer samples in the
  same place, on its own dense field and without spline prefilter, and stores the sample
  converted to \<open>uint8\<close>. Its dense field is the coarse field read at the pixel's
  position in index units, \<open>(row - y0) / (window_size - overlap)\<close>, and 0 outside the
  grid; when \<open>window_size = overlap\<close> the quotient is not a finite number and the dense
  field is 0 everywhere.
\<close>

theorem deformer_pixels:
  "(create_deformation_field K frame x y u v order2 = Inr (xm, ym, ut, vt) \<longrightarrow>
      (\<exists>fd. deform_windows K frame x y u v order order2 = Inr fd
          \<and> shape fd = shape frame \<and> rect fd
          \<and> (\<forall>row<nrows frame. \<forall>col<ncols frame.
                fd ! row ! col = interpolate K order True (edge_extend frame)
                                   (real row - vt ! row ! col) (real col + ut ! row ! col))))
   \<and> (index00 x = Inr x0 \<and> index00 y = Inr y0 \<longrightarrow>
      (\<exists>fd. deform_windows_gpu K frame x y u v window_size ovl order order2 = Inr fd
          \<and> shape fd = shape frame \<and> rect fd
          \<and> (\<forall>row<nrows frame. \<forall>col<ncols frame.
                let cy = (real row - y0) / real_of_int (window_size - ovl);
                    cx = (real col - x0) / real_of_int (window_size - ovl);
                    ut' = (if window_size = ovl then 0
                           else sample_at K order2 (Constant 0) True u cy cx);
                    vt' = (if window_size = ovl then 0
                           else sample_at K order2 (Constant 0) True v cy cx)
                in fd ! row ! col = uint8_cast (interpolate K order False (edge_extend frame)
                                                  (real row - vt') (real col + ut')))))
   \<and> (0 < nrows frame \<and> 0 < ncols frame \<longrightarrow>
        edge_extend frame i j
        = frame ! nat (max 0 (min i (int (nrows frame) - 1)))
                ! nat (max 0 (min j (int (ncols frame) - 1))))"
proof (intro conjI impI)
  assume d: "create_deformation_field K frame x y u v order2 = Inr (xm, ym, ut, vt)"
  then obtain y1 x1 ip ip2 where s: "col0 y = Inr y1" "row0 x = Inr x1"
    "RectBivariateSpline K y1 x1 u order2 order2 = Inr ip"
    "RectBivariateSpline K y1 x1 v order2 order2 = Inr ip2"
    and ut: "ut = map (\<lambda>row. map (\<lambda>col. ip (real row) (real col)) [0..<ncols frame]) [0..<nrows frame]"
    and vt: "vt = map (\<lambda>row. map (\<lambda>col. ip2 (real row) (real col)) [0..<ncols frame]) [0..<nrows frame]"
    unfolding dense_field_closed by (auto simp: bindE_def split: sum.splits)
  have fd: "deform_windows K frame x y u v order order2 = Inr (cpu_table K frame ip ip2 order)"
    unfolding deform_windows_closed using s by simp
  have sh: "shape (cpu_table K frame ip ip2 order) = shape frame \<and> rect (cpu_table K frame ip ip2 order)"
    unfolding cpu_table_def by (rule table_shape)
  have px: "cpu_table K frame ip ip2 order ! row ! col
            = interpolate K order True (edge_extend frame)
                (real row - vt ! row ! col) (real col + ut ! row ! col)"
    if "row < nrows frame" "col < ncols frame" for row col
    using that by (simp add: cpu_table_def ut vt sample_at_def)
  from fd sh px
  show "\<exists>fd. deform_windows K frame x y u v order order2 = Inr fd
          \<and> shape fd = shape frame \<and> rect fd
          \<and> (\<forall>row<nrows frame. \<forall>col<ncols frame.
                fd ! row ! col = interpolate K order True (edge_extend frame)
                                   (real row - vt ! row ! col) (real col + ut ! row ! col))"
    by blast
next
  assume i: "index00 x = Inr x0 \<and> index00 y = Inr y0"
  let ?T = "gpu_table K frame u v x0 y0 window_size ovl order order2"
  have fd: "deform_windows_gpu K frame x y u v window_size ovl order order2 = Inr ?T"
    unfolding deform_windows_gpu_closed using i by simp
  have sh: "shape ?T = shape frame \<and> rect ?T"
    unfolding gpu_table_def by (rule table_shape)
  have px: "let cy = (real row - y0) / real_of_int (window_size - ovl);
                    cx = (real col - x0) / real_of_int (window_size - ovl);
                    ut' = (if window_size = ovl then 0
                           else sample_at K order2 (Constant 0) True u cy cx);
                    vt' = (if window_size = ovl then 0
                           else sample_at K order2 (Constant 0) True v cy cx)
                in ?T ! row ! col = uint8_cast (interpolate K order False (edge_extend frame)
                                                  (real row - vt') (real col + ut'))"
    if "row < nrows frame" "col < ncols frame" for row col
    using that
    by (simp add: gpu_table_def gpu_sample_def Let_def sample_const_divide sample_at_def)
  from fd sh px
  show "\<exists>fd. deform_windows_gpu K frame x y u v window_size ovl order order2 = Inr fd
          \<and> shape fd = shape frame \<and> rect fd
          \<and> (\<forall>row<nrows frame. \<forall>col<ncols frame.
                let cy = (real row - y0) / real_of_int (window_size - ovl);
                    cx = (real col - x0) / real_of_int (window_size - ovl);
                    ut' = (if window_size = ovl then 0
                           else sample_at K order2 (Constant 0) True u cy cx);
                    vt' = (if window_size = ovl then 0
                           else sample_at K order2 (Constant 0) True v cy cx)
                in fd ! row ! col = uint8_cast (interpolate K order False (edge_extend frame)
                                                  (real row - vt') (real col + ut')))"
    by blast
next
  assume "0 < nrows frame \<and> 0 < ncols frame"
  then show "edge_extend frame i j
        = frame ! nat (max 0 (min i (int (nrows frame) - 1)))
                ! nat (max 0 (min j (int (ncols frame) - 1)))"
    by (simp add: edge_extend_clamp)
qed

theorem deformer_pixels_witness:
  "create_deformation_field (example_collab 1 2 flag_first no_repair halve)
       [[5, 6]] [[0]] [[0]] [[1]] [[0]] 0
     = Inr ([[0, 1]], [[0, 0]], [[1, 1]], [[0, 0]])
   \<and> index00 [[0 :: real]] = Inr 0
   \<and> 0 < nrows [[5, 6 :: real]] \<and> 0 < ncols [[5, 6 :: real]]
   \<and> deform_windows (example_collab 1 2 flag_first no_repair halve)
       [[5, 6]] [[0]] [[0]] [[1]] [[0]] 0 0 = Inr [[6, 6]]
   \<and> (\<exists>fd. deform_windows_gpu (example_collab 1 2 flag_first no_repair halve)
              [[5, 6]] [[0]] [[0]] [[1]] [[0]] 1 0 0 0 = Inr fd
          \<and> shape fd = shape [[5, 6 :: real]])
   \<and> deform_windows_gpu (example_collab 1 2 flag_first no_repair halve)
       [[5, 6]] [[0]] [[0]] [[1]] [[0]] 1 0 0 0 = Inr [[6, 6]]
   \<and> (\<exists>fd. deform_windows_gpu (example_collab 1 2 flag_first no_repair halve)
              [[5, 6]] [[0]] [[0]] [[1]] [[0]] 1 1 0 0 = Inr fd
          \<and> shape fd = shape [[5, 6 :: real]])
   \<and> deform_windows_gpu (example_collab 1 2 flag_first no_repair halve)
       [[5, 6]] [[0]] [[0]] [[1]] [[0]] 1 1 0 0 = Inr [[5, 6]]
   \<and> edge_extend [[5, 6]] 0 7 = 6"
proof -
  let ?K = "example_collab 1 2 flag_first no_repair halve"
  have d: "create_deformation_field ?K [[5, 6]] [[0]] [[0]] [[1]] [[0]] 0
           = Inr ([[0, 1]], [[0, 0]], [[1, 1]], [[0, 0]])"
    by code_simp
  have i: "index00 [[0 :: real]] = Inr 0" by code_simp
  have n: "0 < nrows [[5, 6 :: real]] \<and> 0 < ncols [[5, 6 :: real]]" by code_simp
  have c: "deform_windows ?K [[5, 6]] [[0]] [[0]] [[1]] [[0]] 0 0 = Inr [[6, 6]]" by code_simp
  note t = deformer_pixels [of ?K "[[5, 6]]" "[[0]]" "[[0]]" "[[1]]" "[[0]]" 0
              "[[0, 1]]" "[[0, 0]]" "[[1, 1]]" "[[0, 0]]" 0 0 0 1 0 0 7]
  from t i have g: "\<exists>fd. deform_windows_gpu ?K [[5, 6]] [[0]] [[0]] [[1]] [[0]] 1 0 0 0 = Inr fd
          \<and> shape fd = shape [[5, 6 :: real]]"
    by blast
  have g1: "deform_windows_gpu ?K [[5, 6]] [[0]] [[0]] [[1]] [[0]] 1 0 0 0 = Inr [[6, 6]]"
    by code_simp
  note t0 = deformer_pixels [of ?K "[[5, 6]]" "[[0]]" "[[0]]" "[[1]]" "[[0]]" 0
              "[[0, 1]]" "[[0, 0]]" "[[1, 1]]" "[[0, 0]]" 0 0 0 1 1 0 7]
  from t0 i have g0: "\<exists>fd. deform_windows_gpu ?K [[5, 6]] [[0]] [[0]] [[1]] [[0]] 1 1 0 0 = Inr fd
          \<and> shape fd = shape [[5, 6 :: real]]"
    by blast
  have g2: "deform_windows_gpu ?K [[5, 6]] [[0]] [[0]] [[1]] [[0]] 1 1 0 0 = Inr [[5, 6]]"
    by code_simp
  from t n have e: "edge_extend [[5, 6]] 0 7 = 6" by (simp add: nrows_def ncols_def)
  from d i n c g g1 g0 g2 e show ?thesis by blast
qed

text \<open>
  Claim C2 as stated fails on the GPU deformer: on a frame holding 1/2 and a zero field the
  sample at the claimed position is 1/2, the output pixel is 0.
\<close>

theorem gpu_pixel_is_truncated:
  "deform_windows_gpu (example_collab 1 2 flag_first no_repair halve)
       [[1 / 2]] [[0]] [[0]] [[0]] [[0]] 1 0 0 0 = Inr [[0]]
   \<and> interpolate (example_collab 1 2 flag_first no_repair halve) 0 False
       (edge_extend [[1 / 2]]) (real 0 - 0) (real 0 + 0) = 1 / 2"
  by code_simp

text \<open>
  Claim C3, as the code has it. Inside the tiled deformer the tiling cannot be observed:
  every positive tile size and every initial content of the output give the same frame.
  The tiled deformer is not the CPU deformer, though: it takes the window size and the
  overlap as two more arguments, densifies the field in index space with zeros outside
  the grid (and zeros everywhere when \<open>window_size = overlap\<close>, where the index
  coordinates are not finite), samples without prefilter and stores \<open>uint8\<close>. The two
  return the same frame when the two dense fields agree on every pixel, the prefilter
  flag makes no difference to the sampling, and every sample survives the conversion to
  \<open>uint8\<close>.
\<close>

theorem tiling_invisible:
  "(0 < ts \<and> 0 < ts' \<and> sized (nrows frame) (ncols frame) init
      \<and> sized (nrows frame) (ncols frame) init' \<longrightarrow>
      deform_windows_tiled ts init K frame x y u v window_size ovl order order2
      = deform_windows_tiled ts' init' K frame x y u v window_size ovl order order2)
   \<and> (col0 y = Inr y1 \<and> row0 x = Inr x1
        \<and> RectBivariateSpline K y1 x1 u order2 order2 = Inr ip
        \<and> RectBivariateSpline K y1 x1 v order2 order2 = Inr ip2
        \<and> index00 x = Inr x0 \<and> index00 y = Inr y0
        \<and> (\<forall>row<nrows frame. \<forall>col<ncols frame.
              (if window_size = ovl then 0
               else sample_at K order2 (Constant 0) True u
                      ((real row - y0) / real_of_int (window_size - ovl))
                      ((real col - x0) / real_of_int (window_size - ovl)))
                = ip (real row) (real col)
            \<and> (if window_size = ovl then 0
               else sample_at K order2 (Constant 0) True v
                      ((real row - y0) / real_of_int (window_size - ovl))
                      ((real col - x0) / real_of_int (window_size - ovl)))
                = ip2 (real row) (real col))
        \<and> (\<forall>img r c. interpolate K order False img r c = interpolate K order True img r c)
        \<and> (\<forall>fd. deform_windows K frame x y u v order order2 = Inr fd \<longrightarrow>
              (\<forall>row<nrows frame. \<forall>col<ncols frame.
                 uint8_cast (fd ! row ! col) = fd ! row ! col))
      \<longrightarrow> deform_windows_gpu K frame x y u v window_size ovl order order2
          = deform_windows K frame x y u v order order2)"
proof (intro conjI impI)
  assume "0 < ts \<and> 0 < ts' \<and> sized (nrows frame) (ncols frame) init
      \<and> sized (nrows frame) (ncols frame) init'"
  then show "deform_windows_tiled ts init K frame x y u v window_size ovl order order2
      = deform_windows_tiled ts' init' K frame x y u v window_size ovl order order2"
    by (simp add: deform_windows_tiled_closed)
next
  assume h: "col0 y = Inr y1 \<and> row0 x = Inr x1
        \<and> RectBivariateSpline K y1 x1 u order2 order2 = Inr ip
        \<and> RectBivariateSpline K y1 x1 v order2 order2 = Inr ip2
        \<and> index00 x = Inr x0 \<and> index00 y = Inr y0
        \<and> (\<forall>row<nrows frame. \<forall>col<ncols frame.
              (if window_size = ovl then 0
               else sample_at K order2 (Constant 0) True u
                      ((real row - y0) / real_of_int (window_size - ovl))
                      ((real col - x0) / real_of_int (window_size - ovl)))
                = ip (real row) (real col)
            \<and> (if window_size = ovl then 0
               else sample_at K order2 (Constant 0) True v
                      ((real row - y0) / real_of_int (window_size - ovl))
                      ((real col - x0) / real_of_int (window_size - ovl)))
                = ip2 (real row) (real col))
        \<and> (\<forall>img r c. interpolate K order False img r c = interpolate K order True img r c)
        \<and> (\<forall>fd. deform_windows K frame x y u v order order2 = Inr fd \<longrightarrow>
              (\<forall>row<nrows frame. \<forall>col<ncols frame.
                 uint8_cast (fd ! row ! col) = fd ! row ! col))"
  let ?C = "cpu_table K frame ip ip2 order"
  let ?G = "gpu_table K frame u v x0 y0 window_size ovl order order2"
  have cpu: "deform_windows K frame x y u v order order2 = Inr ?C"
    unfolding deform_windows_closed using h by simp
  have gpu: "deform_windows_gpu K frame x y u v window_size ovl order order2 = Inr ?G"
    unfolding deform_windows_gpu_closed using h by simp
  have cast: "uint8_cast (?C ! row ! col) = ?C ! row ! col"
    if "row < nrows frame" "col < ncols frame" for row col
    using h cpu that by blast
  have "?G = ?C"
  proof (rule sized_eqI [of "nrows frame" "ncols frame"])
    show "sized (nrows frame) (ncols frame) ?G" unfolding gpu_table_def by (rule sized_table)
    show "sized (nrows frame) (ncols frame) ?C" unfolding cpu_table_def by (rule sized_table)
    fix i j assume ij: "i < nrows frame" "j < ncols frame"
    have e: "(if window_size = ovl then 0
              else sample_at K order2 (Constant 0) True u
                     ((real i - y0) / real_of_int (window_size - ovl))
                     ((real j - x0) / real_of_int (window_size - ovl))) = ip (real i) (real j)"
         "(if window_size = ovl then 0
           else sample_at K order2 (Constant 0) True v
                  ((real i - y0) / real_of_int (window_size - ovl))
                  ((real j - x0) / real_of_int (window_size - ovl))) = ip2 (real i) (real j)"
      using h ij by blast+
    have d: "sample_const K order2 0 u (true_divide (real i - y0) (window_size - ovl))
               (true_divide (real j - x0) (window_size - ovl)) = ip (real i) (real j)"
         "sample_const K order2 0 v (true_divide (real i - y0) (window_size - ovl))
               (true_divide (real j - x0) (window_size - ovl)) = ip2 (real i) (real j)"
      using e by (simp_all add: sample_const_divide)
    have pf: "interpolate K order False img r c = interpolate K order True img r c" for img r c
      using h by blast
    have g: "?G ! i ! j
             = uint8_cast (gpu_sample K frame u v x0 y0 window_size ovl order order2 i j)"
      using ij by (simp add: gpu_table_def)
    have "gpu_sample K frame u v x0 y0 window_size ovl order order2 i j
          = sample_at K order Nearest False frame
              (real i - ip2 (real i) (real j)) (real j + ip (real i) (real j))"
      unfolding gpu_sample_def Let_def by (simp only: d)
    also have "\<dots> = sample_at K order Nearest True frame
              (real i - ip2 (real i) (real j)) (real j + ip (real i) (real j))"
      by (simp add: sample_at_def pf)
    also have "\<dots> = ?C ! i ! j" using ij by (simp add: cpu_table_def)
    finally have "?G ! i ! j = uint8_cast (?C ! i ! j)" using g by simp
    with cast [OF ij] show "?G ! i ! j = ?C ! i ! j" by simp
  qed
  with cpu gpu show "deform_windows_gpu K frame x y u v window_size ovl order order2
          = deform_windows K frame x y u v order order2"
    by simp
qed

theorem tiling_invisible_witness:
  "deform_windows_tiled 1 [[0, 0]] (example_collab 1 2 flag_first no_repair halve)
       [[5, 6]] [[0]] [[0]] [[0]] [[0]] 1 0 0 0
     = deform_windows_tiled 8192 [[9, 9]] (example_collab 1 2 flag_first no_repair halve)
         [[5, 6]] [[0]] [[0]] [[0]] [[0]] 1 0 0 0
   \<and> deform_windows (example_collab 1 2 flag_first no_repair halve)
         [[5, 6]] [[0]] [[0]] [[0]] [[0]] 0 0 = Inr [[5, 6]]
   \<and> deform_windows_gpu (example_collab 1 2 flag_first no_repair halve)
         [[5, 6]] [[0]] [[0]] [[0]] [[0]] 1 0 0 0
     = deform_windows (example_collab 1 2 flag_first no_repair halve)
         [[5, 6]] [[0]] [[0]] [[0]] [[0]] 0 0
   \<and> deform_windows_gpu (example_collab 1 2 flag_first no_repair halve)
         [[5, 6]] [[0]] [[0]] [[0]] [[0]] 1 1 0 0
     = deform_windows (example_collab 1 2 flag_first no_repair halve)
         [[5, 6]] [[0]] [[0]] [[0]] [[0]] 0 0"
proof -
  let ?K = "example_collab 1 2 flag_first no_repair halve"
  let ?ip = "\<lambda>(y :: real) (x :: real). case concat [[0 :: real]] of [] \<Rightarrow> 0 | z # _ \<Rightarrow> z"
  note t = tiling_invisible [of 1 8192 "[[5, 6]]" "[[0, 0]]" "[[9, 9]]" ?K "[[0]]" "[[0]]"
             "[[0]]" "[[0]]" 1 0 0 0 "[0]" "[0]" ?ip ?ip 0 0]
  have c: "deform_windows ?K [[5, 6]] [[0]] [[0]] [[0]] [[0]] 0 0 = Inr [[5, 6]]"
    by code_simp
  have h1: "0 < (1 :: nat) \<and> 0 < (8192 :: nat)
            \<and> sized (nrows [[5, 6 :: real]]) (ncols [[5, 6 :: real]]) [[0, 0 :: real]]
            \<and> sized (nrows [[5, 6 :: real]]) (ncols [[5, 6 :: real]]) [[9, 9 :: real]]"
    by (simp add: sized_def nrows_def ncols_def)
  have h2: "col0 [[0 :: real]] = Inr [0] \<and> row0 [[0 :: real]] = Inr [0]
            \<and> RectBivariateSpline ?K [0] [0] [[0]] 0 0 = Inr ?ip
            \<and> index00 [[0 :: real]] = Inr 0"
    by (simp add: col0_def row0_def index00_def index_list_def example_collab_def
          constant_spline_def)
  have h3: "\<forall>row<nrows [[5, 6 :: real]]. \<forall>col<ncols [[5, 6 :: real]].
              (if (1 :: int) = 0 then 0
               else sample_at ?K 0 (Constant 0) True [[0]]
                      ((real row - 0) / real_of_int (1 - 0)) ((real col - 0) / real_of_int (1 - 0)))
              = ?ip (real row) (real col)"
    by (auto simp: nrows_def ncols_def sample_at_def example_collab_def nearest_sample_def
          const_extend_def)
  have h4: "\<forall>img r c. interpolate ?K 0 False img r c = interpolate ?K 0 True img r c"
    by (simp add: example_collab_def nearest_sample_def)
  have h5: "\<forall>fd. deform_windows ?K [[5, 6]] [[0]] [[0]] [[0]] [[0]] 0 0 = Inr fd \<longrightarrow>
              (\<forall>row<nrows [[5, 6 :: real]]. \<forall>col<ncols [[5, 6 :: real]].
                 uint8_cast (fd ! row ! col) = fd ! row ! col)"
    unfolding c by (auto simp: nrows_def ncols_def uint8_cast_def trunc_int_def less_Suc_eq
                        numeral_2_eq_2)
  from t h1 have a: "deform_windows_tiled 1 [[0, 0]] ?K [[5, 6]] [[0]] [[0]] [[0]] [[0]] 1 0 0 0
     = deform_windows_tiled 8192 [[9, 9]] ?K [[5, 6]] [[0]] [[0]] [[0]] [[0]] 1 0 0 0"
    by blast
  from t h2 h3 h4 h5 have b: "deform_windows_gpu ?K [[5, 6]] [[0]] [[0]] [[0]] [[0]] 1 0 0 0
     = deform_windows ?K [[5, 6]] [[0]] [[0]] [[0]] [[0]] 0 0"
    by blast
  note t0 = tiling_invisible [of 1 8192 "[[5, 6]]" "[[0, 0]]" "[[9, 9]]" ?K "[[0]]" "[[0]]"
             "[[0]]" "[[0]]" 1 1 0 0 "[0]" "[0]" ?ip ?ip 0 0]
  have h0: "\<forall>row<nrows [[5, 6 :: real]]. \<forall>col<ncols [[5, 6 :: real]].
              (if (1 :: int) = 1 then 0
               else sample_at ?K 0 (Constant 0) True [[0]]
                      ((real row - 0) / real_of_int (1 - 1)) ((real col - 0) / real_of_int (1 - 1)))
              = ?ip (real row) (real col)"
    by simp
  from t0 h2 h0 h4 h5 have b0: "deform_windows_gpu ?K [[5, 6]] [[0]] [[0]] [[0]] [[0]] 1 1 0 0
     = deform_windows ?K [[5, 6]] [[0]] [[0]] [[0]] [[0]] 0 0"
    by blast
  from a c b b0 show ?thesis by blast
qed

text \<open>
  Claim C3 as stated fails: on a frame of two fractional intensities and a zero field
  the CPU deformer returns the frame, the GPU deformer returns zeros.
\<close>

theorem gpu_deformer_differs:
  "deform_windows (example_collab 1 2 flag_first no_repair halve)
       [[1 / 4, 3 / 4]] [[0]] [[0]] [[0]] [[0]] 0 0 = Inr [[1 / 4, 3 / 4]]
   \<and> deform_windows_gpu (example_collab 1 2 flag_first no_repair halve)
       [[1 / 4, 3 / 4]] [[0]] [[0]] [[0]] [[0]] 1 0 0 0 = Inr [[0, 0]]"
  by code_simp

section \<open>Runs and their logs\<close>

text \<open>
  The log of every stage is read off its definition; composed along the run, the logs
  give \<open>schedule\<close> for a run that returns and a prefix of it for one that raises.
\<close>

lemma bindR_Inl [simp]: "bindR (l, Inl e) f = (l, Inl e)"
  by (simp add: bindR_def)

lemma bindR_Inr [simp]: "bindR (l, Inr x) f = (l @ fst (f x), snd (f x))"
  by (simp add: bindR_def split: prod.splits)

lemma bindR_liftR_Inr [simp]: "bindR (liftR (Inr x)) f = f x"
  by (simp add: liftR_def)

lemma bindR_liftR_Inl [simp]: "bindR (liftR (Inl e)) f = ([], Inl e)"
  by (simp add: liftR_def)

lemma bindR_assoc: "bindR (bindR m f) g = bindR m (\<lambda>x. bindR (f x) g)"
  by (cases m; cases "snd m") (auto simp: bindR_def split: prod.splits sum.splits)

lemma bindR_liftR_right [simp]: "bindR m (\<lambda>x. liftR (Inr x)) = m"
  by (cases m; cases "snd m") (auto simp: liftR_def)

lemma pass_loop_append:
  "pass_loop body (pre @ rest) st = bindR (pass_loop body pre st) (pass_loop body rest)"
proof (induction pre arbitrary: st)
  case Nil
  show ?case by simp
next
  case (Cons i pre)
  have "pass_loop body (pre @ rest) = (\<lambda>x. bindR (pass_loop body pre x) (pass_loop body rest))"
    by (rule ext) (rule Cons.IH)
  then show ?case by (simp add: bindR_assoc)
qed

lemma validate_all_invalid:
  "typical_validation K u v s2n S = Inr flags \<Longrightarrow> np_all flags \<Longrightarrow>
   validate K i u v s2n S = ([Validate i], Inl (ValueError ''Something happened in the validation''))"
  by (simp add: validate_def call_def liftR_def)

lemma validate_some_valid:
  "typical_validation K u v s2n S = Inr flags \<Longrightarrow> \<not> np_all flags \<Longrightarrow>
   validate K i u v s2n S = ([Validate i], Inr flags)"
  by (simp add: validate_def call_def liftR_def)

lemma multipass_img_deform_exhausted:
  assumes "residual_pass K fa fb i x_old y_old u_old v_old S = (l, Inr (x, y, u, v, s2n, gm))"
    and "typical_validation K u v s2n (disable_sig2noise S) = Inr flags" "np_all flags"
  shows "multipass_img_deform K fa fb i x_old y_old u_old v_old S
         = (l @ [Validate i], Inl (ValueError ''Something happened in the validation''))"
  using assms by (simp add: multipass_img_deform_def validate_all_invalid)

lemma multipass_img_deform_gpu_exhausted:
  assumes "residual_pass_gpu K fa fb i x_old y_old u_old v_old S = (l, Inr (x, y, u, v, s2n, gm))"
    and "typical_validation K u v s2n (disable_sig2noise S) = Inr flags" "np_all flags"
  shows "multipass_img_deform_gpu K fa fb i x_old y_old u_old v_old S
         = (l @ [Validate i], Inl (ValueError ''Something happened in the validation''))"
  using assms by (simp add: multipass_img_deform_gpu_def validate_all_invalid)

lemma same_plan_refl [simp]: "same_plan S S"
  by (simp add: same_plan_def)

lemma same_plan_disable [simp]: "same_plan S (disable_sig2noise S)"
  by (simp add: same_plan_def disable_sig2noise_def)

lemma same_plan_trans: "same_plan S S' \<Longrightarrow> same_plan S' S'' \<Longrightarrow> same_plan S S''"
  by (simp add: same_plan_def)

lemma pass_log_cong: "same_plan S S' \<Longrightarrow> pass_log S' i = pass_log S i"
  by (simp add: same_plan_def pass_log_def)

lemma logs_liftR [simp]: "logs (liftR r) []"
  by (cases r) (simp_all add: logs_def liftR_def)

lemma logs_call [simp]: "logs (call ev r) [ev]"
  by (cases r) (simp_all add: logs_def call_def)

lemma logs_bindR:
  assumes "logs m l1" "\<And>x. snd m = Inr x \<Longrightarrow> logs (f x) l2"
  shows "logs (bindR m f) (l1 @ l2)"
proof (cases m)
  case (Pair l r)
  show ?thesis
  proof (cases r)
    case (Inl e)
    with Pair assms(1) show ?thesis by (simp add: logs_def)
  next
    case (Inr x)
    with Pair assms(1) have l: "l = l1" by (simp add: logs_def)
    from assms(2) [of x] Pair Inr have "logs (f x) l2" by simp
    with Pair Inr l show ?thesis by (cases "snd (f x)") (simp_all add: logs_def)
  qed
qed

lemma logs_bindR_lift:
  assumes "\<And>x. logs (f x) l"
  shows "logs (bindR (liftR r) f) l"
  using logs_bindR [of "liftR r" "[]" f l] assms by simp

lemma logs_bindR_single:
  assumes "logs m [e]" "\<And>x. logs (f x) l"
  shows "logs (bindR m f) (e # l)"
  using logs_bindR [of m "[e]" f l] assms by simp

lemma logs_case_prod: "(\<And>a b. logs (f a b) l) \<Longrightarrow> logs (case p of (a, b) \<Rightarrow> f a b) l"
  by (cases p) simp

lemma logs_Inr: "logs m l \<Longrightarrow> snd m = Inr x \<Longrightarrow> fst m = l"
  by (simp add: logs_def)

lemma logs_set: "logs m l \<Longrightarrow> set (fst m) \<subseteq> set l"
  by (cases "snd m") (auto simp: logs_def dest: set_mono_prefix)

lemma logs_correlate: "logs (correlate K i fa fb w ovl search S) [Correlate i]"
  unfolding correlate_def
  by (intro logs_bindR_single logs_call logs_case_prod logs_liftR)

lemma logs_residual_pass: "logs (residual_pass K fa fb i xo yo uo vo S) [Correlate i]"
  unfolding residual_pass_def
  by (intro logs_bindR_lift logs_case_prod logs_bindR_single logs_correlate logs_liftR)

lemma logs_residual_pass_gpu: "logs (residual_pass_gpu K fa fb i xo yo uo vo S) [Correlate i]"
  unfolding residual_pass_gpu_def
  by (intro logs_bindR_lift logs_case_prod logs_bindR_single logs_correlate logs_liftR)

lemma logs_validate: "logs (validate K i u v s2n S) [Validate i]"
  unfolding validate_def
  by (rule logs_bindR [of _ "[Validate i]" _ "[]", simplified]) simp_all

lemma logs_repair_unless_last:
  "logs (repair_unless_last K i u v flags S)
     (if int i + 1 \<noteq> num_iterations S then [Repair i] else [])"
  by (simp add: repair_unless_last_def)

lemma logs_repair_unless_last_gpu:
  "logs (repair_unless_last_gpu K i u v flags S)
     (if int i + 1 \<noteq> num_iterations S then [Repair i] else [])"
  unfolding repair_unless_last_gpu_def
  by (auto intro!: logs_bindR_single logs_case_prod)

lemma logs_multipass_img_deform:
  "logs (multipass_img_deform K fa fb i xo yo uo vo S)
     ([Correlate i, Validate i] @ (if int i + 1 \<noteq> num_iterations S then [Repair i] else []))"
proof -
  have n: "num_iterations (disable_sig2noise S) = num_iterations S"
    by (simp add: disable_sig2noise_def)
  show ?thesis
    unfolding multipass_img_deform_def append.simps
    apply (intro logs_bindR_single logs_residual_pass logs_case_prod logs_validate)
    apply (rule logs_bindR [of _ _ _ "[]", simplified])
     apply (rule logs_repair_unless_last [of K i _ _ _ "disable_sig2noise S", unfolded n])
    apply (intro logs_case_prod logs_liftR)
    done
qed

lemma logs_multipass_img_deform_gpu:
  "logs (multipass_img_deform_gpu K fa fb i xo yo uo vo S)
     ([Correlate i, Validate i] @ (if int i + 1 \<noteq> num_iterations S then [Repair i] else []))"
proof -
  have n: "num_iterations (disable_sig2noise S) = num_iterations S"
    by (simp add: disable_sig2noise_def)
  show ?thesis
    unfolding multipass_img_deform_gpu_def append.simps
    apply (intro logs_bindR_single logs_residual_pass_gpu logs_case_prod logs_validate)
    apply (rule logs_bindR [of _ _ _ "[]", simplified])
     apply (rule logs_repair_unless_last_gpu [of K i _ _ _ "disable_sig2noise S", unfolded n])
    apply (intro logs_case_prod logs_liftR)
    done
qed

lemma snd_bindR_InrE:
  assumes "snd (bindR m f) = Inr y"
  obtains x where "snd m = Inr x" "snd (f x) = Inr y"
  using assms by (cases m; cases "snd m") (auto simp: bindR_def split: prod.splits)

lemma snd_liftR [simp]: "snd (liftR r) = r"
  by (simp add: liftR_def)

lemma snd_call [simp]: "snd (call ev r) = r"
  by (simp add: call_def)

lemma multipass_img_deform_settings:
  "snd (multipass_img_deform K fa fb i xo yo uo vo S) = Inr st \<Longrightarrow>
   psettings st = disable_sig2noise S"
  unfolding multipass_img_deform_def
  by (auto simp: split_beta elim!: snd_bindR_InrE)

lemma multipass_img_deform_gpu_settings:
  "snd (multipass_img_deform_gpu K fa fb i xo yo uo vo S) = Inr st \<Longrightarrow>
   psettings st = disable_sig2noise S"
  unfolding multipass_img_deform_gpu_def
  by (auto simp: split_beta elim!: snd_bindR_InrE)

lemma logs_smooth_uv: "logs (smooth_uv K S i uv) [Smooth i, Smooth i]"
  unfolding smooth_uv_def
  by (intro logs_bindR_single logs_call logs_liftR)

lemma logs_smooth_between:
  "logs (smooth_between K i st)
     (if smoothn (psettings st) \<and> int i + 1 \<noteq> num_iterations (psettings st)
      then [Smooth i, Smooth i] else [])"
proof (cases "smoothn (psettings st) \<and> int i + 1 \<noteq> num_iterations (psettings st)")
  case True
  have "logs (bindR (smooth_uv K (psettings st) i (pu st, pv st))
                (\<lambda>(u, v). liftR (Inr (st\<lparr>pu := u, pv := v\<rparr>)))) [Smooth i, Smooth i]"
    by (rule logs_bindR [of _ "[Smooth i, Smooth i]" _ "[]", simplified])
       (simp_all add: logs_smooth_uv split_beta)
  with True show ?thesis by (simp add: smooth_between_def)
next
  case False
  then show ?thesis by (auto simp: smooth_between_def)
qed

lemma smooth_between_settings:
  "snd (smooth_between K i st) = Inr st' \<Longrightarrow> psettings st' = psettings st"
  unfolding smooth_between_def
  by (auto simp: split_beta elim!: snd_bindR_InrE split: if_splits)

lemma smooth_between_last:
  "int i + 1 = num_iterations (psettings st) \<Longrightarrow> smooth_between K i st = liftR (Inr st)"
  by (simp add: smooth_between_def)

lemma logs_loop_body: "logs (loop_body K fa fb i st) (pass_log (psettings st) i)"
proof -
  have "logs (loop_body K fa fb i st)
          (([Correlate i, Validate i]
            @ (if int i + 1 \<noteq> num_iterations (psettings st) then [Repair i] else []))
           @ (if smoothn (psettings st) \<and> int i + 1 \<noteq> num_iterations (psettings st)
              then [Smooth i, Smooth i] else []))"
    unfolding loop_body_def
  proof (rule logs_bindR [OF logs_multipass_img_deform])
    fix st'
    assume "snd (multipass_img_deform K fa fb i (px st) (py st) (pu st) (pv st) (psettings st))
            = Inr st'"
    then have "psettings st' = disable_sig2noise (psettings st)"
      by (rule multipass_img_deform_settings)
    then have "smoothn (psettings st') = smoothn (psettings st)"
      "num_iterations (psettings st') = num_iterations (psettings st)"
      by (simp_all add: disable_sig2noise_def)
    with logs_smooth_between [of K i st']
    show "logs (smooth_between K i st')
            (if smoothn (psettings st) \<and> int i + 1 \<noteq> num_iterations (psettings st)
             then [Smooth i, Smooth i] else [])"
      by simp
  qed
  then show ?thesis by (simp add: pass_log_def)
qed

lemma logs_loop_body_gpu: "logs (loop_body_gpu K fa fb i st) (pass_log (psettings st) i)"
proof -
  have "logs (loop_body_gpu K fa fb i st)
          (([Correlate i, Validate i]
            @ (if int i + 1 \<noteq> num_iterations (psettings st) then [Repair i] else []))
           @ (if smoothn (psettings st) \<and> int i + 1 \<noteq> num_iterations (psettings st)
              then [Smooth i, Smooth i] else []))"
    unfolding loop_body_gpu_def
  proof (rule logs_bindR [OF logs_multipass_img_deform_gpu])
    fix st'
    assume "snd (multipass_img_deform_gpu K fa fb i (px st) (py st) (pu st) (pv st) (psettings st))
            = Inr st'"
    then have "psettings st' = disable_sig2noise (psettings st)"
      by (rule multipass_img_deform_gpu_settings)
    then have "smoothn (psettings st') = smoothn (psettings st)"
      "num_iterations (psettings st') = num_iterations (psettings st)"
      by (simp_all add: disable_sig2noise_def)
    with logs_smooth_between [of K i st']
    show "logs (smooth_between K i st')
            (if smoothn (psettings st) \<and> int i + 1 \<noteq> num_iterations (psettings st)
             then [Smooth i, Smooth i] else [])"
      by simp
  qed
  then show ?thesis by (simp add: pass_log_def)
qed

lemma loop_body_plan:
  "snd (loop_body K fa fb i st) = Inr st' \<Longrightarrow> same_plan (psettings st) (psettings st')"
  unfolding loop_body_def
  by (auto elim!: snd_bindR_InrE dest!: multipass_img_deform_settings smooth_between_settings)

lemma loop_body_gpu_plan:
  "snd (loop_body_gpu K fa fb i st) = Inr st' \<Longrightarrow> same_plan (psettings st) (psettings st')"
  unfolding loop_body_gpu_def
  by (auto elim!: snd_bindR_InrE dest!: multipass_img_deform_gpu_settings smooth_between_settings)

lemma pass_loop_logs:
  assumes body: "\<And>i st. logs (body i st) (pass_log (psettings st) i)"
    and plan: "\<And>i st st'. snd (body i st) = Inr st' \<Longrightarrow> same_plan (psettings st) (psettings st')"
  shows "logs (pass_loop body is st) (concat (map (pass_log (psettings st)) is))
         \<and> (\<forall>st'. snd (pass_loop body is st) = Inr st' \<longrightarrow> same_plan (psettings st) (psettings st'))"
proof (induction "is" arbitrary: st)
  case Nil
  show ?case by simp
next
  case (Cons i rest)
  have l: "logs (pass_loop body (i # rest) st)
             (pass_log (psettings st) i @ concat (map (pass_log (psettings st)) rest))"
    unfolding pass_loop.simps
  proof (rule logs_bindR [OF body])
    fix st1 assume "snd (body i st) = Inr st1"
    then have "same_plan (psettings st) (psettings st1)" by (rule plan)
    then have "pass_log (psettings st1) = pass_log (psettings st)"
      by (intro ext pass_log_cong)
    with Cons.IH [of st1]
    show "logs (pass_loop body rest st1) (concat (map (pass_log (psettings st)) rest))"
      by simp
  qed
  have p: "same_plan (psettings st) (psettings st')"
    if "snd (pass_loop body (i # rest) st) = Inr st'" for st'
  proof -
    from that obtain st1 where 1: "snd (body i st) = Inr st1"
      and 2: "snd (pass_loop body rest st1) = Inr st'"
      by (auto elim!: snd_bindR_InrE)
    from 1 have "same_plan (psettings st) (psettings st1)" by (rule plan)
    moreover from 2 Cons.IH [of st1] have "same_plan (psettings st1) (psettings st')" by blast
    ultimately show ?thesis by (rule same_plan_trans)
  qed
  from l p show ?case by simp
qed

lemma logs_first_pass: "logs (first_pass K fa fb S) [Correlate 0]"
  unfolding first_pass_def
  by (intro logs_bindR_lift logs_case_prod logs_bindR_single logs_correlate logs_liftR)

lemma logs_first_stage: "logs (first_stage K fa fb im S) (first_log S)"
proof -
  have sm: "logs (if smoothn S then smooth_uv K S 0 uv else liftR (Inr uv))
              (if smoothn S then [Smooth 0, Smooth 0] else [])" for uv
    by (simp add: logs_smooth_uv)
  have va: "logs (if validation_first_pass S then call (Validate 0) r else liftR r')
              (if validation_first_pass S then [Validate 0] else [])" for r r'
    by simp
  have re: "logs (if (num_iterations S = 1 \<and> replace_vectors S) \<or> num_iterations S > 1
                  then call (Repair 0) r else liftR r')
              (if (num_iterations S = 1 \<and> replace_vectors S) \<or> num_iterations S > 1
               then [Repair 0] else [])" for r r'
    by simp
  show ?thesis
    unfolding first_stage_def first_log_def Let_def
    apply (rule logs_bindR [OF logs_first_pass])
    apply (simp only: split_beta)
    apply (rule logs_bindR [OF sm])
    apply (simp only: split_beta)
    apply (rule logs_bindR [OF va])
    apply (rule logs_bindR [of _ _ _ "[]", simplified])
     apply (rule re)
    apply (simp only: split_beta logs_liftR)
    done
qed

lemma first_stage_settings:
  "snd (first_stage K fa fb im S) = Inr st \<Longrightarrow> psettings st = S"
  unfolding first_stage_def
  by (auto simp: split_beta Let_def elim!: snd_bindR_InrE)

lemma logs_finalize: "logs (finalize K im st) [Save]"
  unfolding finalize_def
  by (auto intro!: logs_bindR_lift logs_case_prod logs_call)
     (simp add: logs_def liftR_def)

lemma logs_finalize_gpu: "logs (finalize_gpu st) [Save]"
  by (simp add: finalize_gpu_def)

lemma logs_multipass: "logs (multipass K raw_a raw_b S) (schedule S)"
  unfolding multipass_def schedule_def
proof (intro logs_bindR_lift logs_case_prod, rule logs_bindR [OF logs_first_stage])
  fix fa fb im st0
  assume "snd (first_stage K fa fb im S) = Inr st0"
  then have S: "psettings st0 = S" by (rule first_stage_settings)
  from pass_loop_logs [of "loop_body K fa fb" "iterations S" st0, OF logs_loop_body loop_body_plan]
  have "logs (pass_loop (loop_body K fa fb) (iterations S) st0)
          (concat (map (pass_log S) (iterations S)))"
    by (simp add: S)
  then show "logs (bindR (pass_loop (loop_body K fa fb) (iterations S) st0) (finalize K im))
          (concat (map (pass_log S) (iterations S)) @ [Save])"
    by (rule logs_bindR) (rule logs_finalize)
qed

lemma logs_multipass_gpu: "logs (multipass_gpu K raw_a raw_b S) (schedule S)"
  unfolding multipass_gpu_def schedule_def
proof (intro logs_bindR_lift logs_case_prod, rule logs_bindR [OF logs_first_stage])
  fix fa fb st0
  assume "snd (first_stage K fa fb None S) = Inr st0"
  then have S: "psettings st0 = S" by (rule first_stage_settings)
  from pass_loop_logs [of "loop_body_gpu K fa fb" "iterations S" st0,
         OF logs_loop_body_gpu loop_body_gpu_plan]
  have "logs (pass_loop (loop_body_gpu K fa fb) (iterations S) st0)
          (concat (map (pass_log S) (iterations S)))"
    by (simp add: S)
  then show "logs (bindR (pass_loop (loop_body_gpu K fa fb) (iterations S) st0) finalize_gpu)
          (concat (map (pass_log S) (iterations S)) @ [Save])"
    by (rule logs_bindR) (rule logs_finalize_gpu)
qed

lemma Repair_in_schedule:
  "Repair i \<in> set (schedule S)
   \<longleftrightarrow> int i + 1 < num_iterations S \<or> (i = 0 \<and> num_iterations S = 1 \<and> replace_vectors S)"
  by (auto simp: schedule_def first_log_def pass_log_def iterations_def)

lemma Smooth_in_schedule:
  "Smooth i \<in> set (schedule S)
   \<longleftrightarrow> smoothn S \<and> (i = 0 \<or> int i + 1 < num_iterations S)"
  by (auto simp: schedule_def first_log_def pass_log_def iterations_def)

section \<open>What a run that returns has computed\<close>

text \<open>
  A stage that has returned a value has got a value from each of its steps: the
  decomposition of a run, of the finalizing step and of a pass into the results of their
  steps, and the shapes of the arrays a pass adds.
\<close>

lemma snd_bindR_Inr_iff:
  "snd (bindR m f) = Inr y \<longleftrightarrow> (\<exists>x. snd m = Inr x \<and> snd (f x) = Inr y)"
  by (cases m; cases "snd m") (auto simp: bindR_def split: prod.splits)

lemma bindE_Inr_iff: "bindE m f = Inr y \<longleftrightarrow> (\<exists>x. m = Inr x \<and> f x = Inr y)"
  by (cases m) simp_all

lemma multipass_completed:
  assumes "snd (multipass K raw_a raw_b S) = Inr out"
  shows "\<exists>fa fb im st0 st. prepare_images K raw_a raw_b S = Inr (fa, fb, im)
     \<and> snd (first_stage K fa fb im S) = Inr st0
     \<and> snd (pass_loop (loop_body K fa fb) (iterations S) st0) = Inr st
     \<and> snd (finalize K im st) = Inr out"
  using assms unfolding multipass_def
  by (auto simp: snd_bindR_Inr_iff split_beta)

lemma multipass_gpu_completed:
  assumes "snd (multipass_gpu K raw_a raw_b S) = Inr out"
  shows "\<exists>fa fb st0 st. prepare_images_gpu raw_a raw_b S = Inr (fa, fb)
     \<and> snd (first_stage K fa fb None S) = Inr st0
     \<and> snd (pass_loop (loop_body_gpu K fa fb) (iterations S) st0) = Inr st
     \<and> out = \<lparr>saved_x = px st, saved_y = py st, saved_u = neg_flip (pu st),
               saved_v = neg_flip (pv st), saved_flags = pflags st,
               saved_mask = zeros_like (pu st)\<rparr>"
  using assms unfolding multipass_gpu_def
  by (auto simp: snd_bindR_Inr_iff split_beta finalize_gpu_def)

lemma finalize_Inr:
  assumes "snd (finalize K im st) = Inr out"
  shows "\<exists>du mu dv mv u v. pu st = MaskedArray du mu \<and> pv st = MaskedArray dv mv
      \<and> (case im of
            Some m \<Rightarrow> masked_array (fill_zero du mu) (mask_on_grid K m (py st) (px st)) = Inr u
                     \<and> masked_array (fill_zero dv mv) (mask_on_grid K m (py st) (px st)) = Inr v
                     \<and> saved_mask out = mask_on_grid K m (py st) (px st)
          | None \<Rightarrow> u = nomask_array (fill_zero du mu) \<and> v = nomask_array (fill_zero dv mv)
                     \<and> saved_mask out = pmask st)
      \<and> saved_u out = neg_flip u \<and> saved_v out = neg_flip v
      \<and> saved_x out = px st \<and> saved_y out = py st \<and> saved_flags out = pflags st"
proof -
  from assms have ne: "iterations (psettings st) \<noteq> []"
    by (auto simp: finalize_def)
  from assms ne obtain du mu where u: "pu st = MaskedArray du mu"
    by (cases "pu st") (auto simp: finalize_def filled_method_def)
  from assms ne u obtain dv mv where v: "pv st = MaskedArray dv mv"
    by (cases "pv st") (auto simp: finalize_def filled_method_def)
  show ?thesis
  proof (cases im)
    case None
    with assms ne u v show ?thesis
      by (auto simp: finalize_def filled_method_def)
  next
    case (Some m)
    with assms ne u v show ?thesis
      by (auto simp: finalize_def filled_method_def Let_def bindE_Inr_iff snd_bindR_Inr_iff
            split_beta)
  qed
qed

lemma fill_zero_length: "length (fill_zero d m) = min (length d) (length m)"
  by (simp add: fill_zero_def)

lemma fill_zero_nth:
  assumes "r < length d" "r < length m" "c < length (d ! r)" "c < length (m ! r)"
  shows "fill_zero d m ! r ! c = (if m ! r ! c then 0 else d ! r ! c)"
  using assms by (simp add: fill_zero_def)

lemma getdata_neg_flip: "getdata (neg_flip f) = map (map uminus) (rev (getdata f))"
  by (cases f) (simp_all add: neg_flip_def getdata_def)

lemma masked_array_data: "masked_array d m = Inr u \<Longrightarrow> getdata u = d"
  by (auto simp: masked_array_def getdata_def bindE_Inr_iff split: if_splits)

lemma getdata_nomask [simp]: "getdata (nomask_array d) = d"
  by (simp add: nomask_array_def getdata_def)

lemma neg_flip_nth:
  assumes "r < length d" "c < length (d ! r)"
  shows "map (map uminus) (rev d) ! (length d - 1 - r) ! c = - (d ! r ! c)"
proof -
  from assms(1) have "rev d ! (length d - 1 - r) = d ! r"
    by (simp add: rev_nth)
  with assms show ?thesis by simp
qed

lemma reshape_rect: "reshape xs sh = Inr a \<Longrightarrow> rect a"
proof -
  assume r: "reshape xs sh = Inr a"
  obtain r c where sh: "sh = (r, c)" by (cases sh)
  from r sh have len: "length xs = r * c"
    and a: "a = map (\<lambda>i. take c (drop (i * c) xs)) [0..<r]"
    by (auto simp: reshape_def split: if_splits)
  have "\<forall>row \<in> set a. length row = c"
  proof
    fix row assume "row \<in> set a"
    with a obtain i where i: "i < r" and row: "row = take c (drop (i * c) xs)" by auto
    from i have "(i + 1) * c \<le> r * c" by (intro mult_le_mono1) simp
    with len have "c \<le> length xs - i * c" by simp
    with row show "length row = c" by simp
  qed
  then show "rect a" by (rule rect_rows)
qed

lemma correlate_rect:
  assumes "snd (correlate K i fa fb w ov search S) = Inr (u, v, s2n)"
  shows "rect u \<and> rect v"
  using assms unfolding correlate_def
  by (auto simp: snd_bindR_Inr_iff split_beta bindE_Inr_iff dest: reshape_rect)

lemma spline_grid_rect: "rect (spline_grid ip ys xs)"
  by (rule rect_rows [of _ "length xs"]) (auto simp: spline_grid_def)

lemma resample_rect: "resample K S yo xo w ys xs = Inr a \<Longrightarrow> rect a"
  by (auto simp: resample_def bindE_Inr_iff spline_grid_rect)

lemma predictor_rect:
  "predictor K S xo yo uo vo x y = Inr (upre, vpre) \<Longrightarrow> rect upre \<and> rect vpre"
  by (auto simp: predictor_def bindE_Inr_iff dest: resample_rect)

lemma py_slice2_rect: "rect A \<Longrightarrow> rect (py_slice2 r0 r1 c0 c1 A)"
proof -
  assume r: "rect A"
  have "\<forall>row \<in> set (py_slice2 r0 r1 c0 c1 A).
          length row = length (py_slice c0 c1 (replicate (ncols A) (0 :: nat)))"
  proof
    fix row assume "row \<in> set (py_slice2 r0 r1 c0 c1 A)"
    then obtain r' where r': "r' \<in> set (py_slice r0 r1 A)" and row: "row = py_slice c0 c1 r'"
      by (auto simp: py_slice2_def)
    from r' py_slice_set [of r0 r1 A] have "r' \<in> set A" by blast
    with r have "length r' = ncols A" by (simp add: rect_iff)
    then show "length row = length (py_slice c0 c1 (replicate (ncols A) (0 :: nat)))"
      unfolding row by (simp add: py_slice_def Let_def)
  qed
  then show ?thesis by (rule rect_rows)
qed

lemma predictor_gpu_rect:
  "predictor_gpu K S fa w ov xo yo uo vo x y = Inr (y_add, x_add, xe, ye, upre, vpre) \<Longrightarrow>
   rect upre \<and> rect vpre"
  by (auto simp: predictor_gpu_def bindE_Inr_iff Let_def split_beta dest: resample_rect)

lemma iadd_same_shape:
  assumes "rect u" "rect p" "shape p = shape u"
  shows "iadd u p = Inr (add2 u p)"
proof -
  from assms(3) have n: "nrows p = nrows u" and c: "ncols p = ncols u"
    by (simp_all add: shape_def)
  from n have b: "bc_list (nrows u) p = p" by (simp add: bc_list_def nrows_def)
  have "map2 (\<lambda>ru rp. map2 (+) ru (bc_list (ncols u) rp)) u p = map2 (map2 (+)) u p"
  proof (rule map_cong [OF refl])
    fix z assume "z \<in> set (zip u p)"
    then have "snd z \<in> set p" by (metis prod.collapse set_zip_rightD)
    with assms(2) c have "length (snd z) = ncols u" by (simp add: rect_iff)
    then show "(case z of (ru, rp) \<Rightarrow> map2 (+) ru (bc_list (ncols u) rp))
               = (case z of (ru, rp) \<Rightarrow> map2 (+) ru rp)"
      by (cases z) (simp add: bc_list_def)
  qed
  with n c b show ?thesis by (simp add: iadd_def add2_def)
qed

lemma add2_nth:
  assumes "r < length a" "r < length b" "c < length (a ! r)" "c < length (b ! r)"
  shows "add2 a b ! r ! c = a ! r ! c + b ! r ! c"
  using assms by (simp add: add2_def)

lemma validate_Inr:
  "snd (validate K i u v s2n S) = Inr flags \<Longrightarrow>
   typical_validation K u v s2n S = Inr flags \<and> \<not> np_all flags"
  by (auto simp: validate_def snd_bindR_Inr_iff split: if_splits)

lemma apply_grid_mask_Inr:
  assumes "apply_grid_mask K S x y us vs = Inr (u, v, gm)"
  shows "masked_array us gm = Inr u \<and> masked_array vs gm = Inr v
         \<and> getdata u = us \<and> getdata v = vs"
  using assms
  by (auto simp: apply_grid_mask_def Let_def bindE_Inr_iff dest: masked_array_data)

lemma residual_pass_Inr:
  assumes "snd (residual_pass K fa fb i xo yo uo vo S) = Inr (x, y, u, v, s2n, gm)"
  shows "\<exists>w ov upre vpre fbd ures vres us vs.
      new_grid K fa S i = Inr (w, ov, x, y)
    \<and> predictor K S xo yo uo vo x y = Inr (upre, vpre)
    \<and> deform_windows K fb x y upre (neg2 vpre) (interpolation_order S) (interpolation_order S)
        = Inr fbd
    \<and> snd (correlate K i fa fbd w ov None (disable_sig2noise S)) = Inr (ures, vres, s2n)
    \<and> iadd ures upre = Inr us \<and> iadd vres vpre = Inr vs
    \<and> apply_grid_mask K (disable_sig2noise S) x y us vs = Inr (u, v, gm)"
  using assms unfolding residual_pass_def accumulate_def
  by (auto simp: snd_bindR_Inr_iff split_beta bindE_Inr_iff)

lemma residual_pass_gpu_Inr:
  assumes "snd (residual_pass_gpu K fa fb i xo yo uo vo S) = Inr (x', y', u, v, s2n, gm)"
  shows "\<exists>w ov x y y_add x_add xe ye upre vpre fbd ures vres us vs.
      new_grid K fa S i = Inr (w, ov, x, y)
    \<and> predictor_gpu K S fa w ov xo yo uo vo x y = Inr (y_add, x_add, xe, ye, upre, vpre)
    \<and> deform_windows_gpu K fb xe ye upre (neg2 vpre) w ov (interpolation_order S)
        (interpolation_order S) = Inr fbd
    \<and> snd (correlate K i fa fbd w ov None (disable_sig2noise S)) = Inr (ures, vres, s2n)
    \<and> iadd ures (cut_back y_add x_add upre) = Inr us
    \<and> iadd vres (cut_back y_add x_add vpre) = Inr vs
    \<and> x' = cut_back y_add x_add xe \<and> y' = cut_back y_add x_add ye
    \<and> u = NDArray us \<and> v = NDArray vs \<and> gm = zeros_like (NDArray us)"
  using assms unfolding residual_pass_gpu_def accumulate_def
  by (auto simp: snd_bindR_Inr_iff split_beta bindE_Inr_iff)

lemma repair_unless_last_Inr:
  assumes "snd (repair_unless_last K i u v flags S) = Inr (u', v')"
  shows "if int i + 1 = num_iterations S then u' = u \<and> v' = v
         else replace_outliers K u v flags S = Inr (u', v')"
  using assms by (auto simp: repair_unless_last_def split: if_splits)

lemma repair_unless_last_gpu_Inr:
  assumes "snd (repair_unless_last_gpu K i u v flags S) = Inr (u', v', flags')"
  shows "if int i + 1 = num_iterations S then u' = u \<and> v' = v \<and> flags' = flags
         else replace_outliers K u v flags S = Inr (u', v') \<and> flags' = zeros_like u'"
  using assms
  by (auto simp: repair_unless_last_gpu_def snd_bindR_Inr_iff split_beta split: if_splits)

lemma multipass_img_deform_Inr:
  assumes "snd (multipass_img_deform K fa fb i xo yo uo vo S) = Inr st"
  shows "\<exists>u v s2n.
      snd (residual_pass K fa fb i xo yo uo vo S) = Inr (px st, py st, u, v, s2n, pmask st)
    \<and> snd (validate K i u v s2n (disable_sig2noise S)) = Inr (pflags st)
    \<and> snd (repair_unless_last K i u v (pflags st) (disable_sig2noise S)) = Inr (pu st, pv st)"
  using assms unfolding multipass_img_deform_def
  by (auto simp: snd_bindR_Inr_iff split_beta)

lemma multipass_img_deform_gpu_Inr:
  assumes "snd (multipass_img_deform_gpu K fa fb i xo yo uo vo S) = Inr st"
  shows "\<exists>u v s2n flags.
      snd (residual_pass_gpu K fa fb i xo yo uo vo S) = Inr (px st, py st, u, v, s2n, pmask st)
    \<and> snd (validate K i u v s2n (disable_sig2noise S)) = Inr flags
    \<and> snd (repair_unless_last_gpu K i u v flags (disable_sig2noise S))
        = Inr (pu st, pv st, pflags st)"
  using assms unfolding multipass_img_deform_gpu_def
  by (auto simp: snd_bindR_Inr_iff split_beta)

section \<open>The field a pass returns\<close>

text \<open>
  Claim C1. A pass \<open>multipass_img_deform\<close> that returns has correlated frame A against
  the deformed frame B on the new grid, and added the previous field resampled onto that
  grid with \<open>+=\<close>: cell by cell when the two have one shape. This sum is what validation
  sees (masked by the grid mask in the CPU file). On the last iteration the pass returns
  it; on every other iteration it returns what \<open>replace_outliers\<close> makes of it, and in
  the GPU file flags that are all \<open>False\<close>.
\<close>

theorem pass_returns_accumulated_field:
  "(snd (multipass_img_deform K fa fb i xo yo uo vo S) = Inr st \<longrightarrow>
      (\<exists>w ov upre vpre fbd ures vres s2n us vs u v.
         new_grid K fa S i = Inr (w, ov, px st, py st)
       \<and> predictor K S xo yo uo vo (px st) (py st) = Inr (upre, vpre)
       \<and> deform_windows K fb (px st) (py st) upre (neg2 vpre)
           (interpolation_order S) (interpolation_order S) = Inr fbd
       \<and> snd (correlate K i fa fbd w ov None (disable_sig2noise S)) = Inr (ures, vres, s2n)
       \<and> iadd ures upre = Inr us \<and> iadd vres vpre = Inr vs
       \<and> (shape upre = shape ures \<longrightarrow> us = add2 ures upre)
       \<and> (shape vpre = shape vres \<longrightarrow> vs = add2 vres vpre)
       \<and> masked_array us (pmask st) = Inr u \<and> masked_array vs (pmask st) = Inr v
       \<and> getdata u = us \<and> getdata v = vs
       \<and> typical_validation K u v s2n (disable_sig2noise S) = Inr (pflags st)
       \<and> (if int i + 1 = num_iterations S then pu st = u \<and> pv st = v
          else replace_outliers K u v (pflags st) (disable_sig2noise S) = Inr (pu st, pv st))))
   \<and> (snd (multipass_img_deform_gpu K fa fb i xo yo uo vo S) = Inr st \<longrightarrow>
      (\<exists>w ov x y y_add x_add xe ye upre vpre fbd ures vres s2n us vs flags.
         new_grid K fa S i = Inr (w, ov, x, y)
       \<and> predictor_gpu K S fa w ov xo yo uo vo x y = Inr (y_add, x_add, xe, ye, upre, vpre)
       \<and> deform_windows_gpu K fb xe ye upre (neg2 vpre) w ov
           (interpolation_order S) (interpolation_order S) = Inr fbd
       \<and> snd (correlate K i fa fbd w ov None (disable_sig2noise S)) = Inr (ures, vres, s2n)
       \<and> iadd ures (cut_back y_add x_add upre) = Inr us
       \<and> iadd vres (cut_back y_add x_add vpre) = Inr vs
       \<and> (shape (cut_back y_add x_add upre) = shape ures
            \<longrightarrow> us = add2 ures (cut_back y_add x_add upre))
       \<and> (shape (cut_back y_add x_add vpre) = shape vres
            \<longrightarrow> vs = add2 vres (cut_back y_add x_add vpre))
       \<and> typical_validation K (NDArray us) (NDArray vs) s2n (disable_sig2noise S) = Inr flags
       \<and> (if int i + 1 = num_iterations S
          then pu st = NDArray us \<and> pv st = NDArray vs \<and> pflags st = flags
          else replace_outliers K (NDArray us) (NDArray vs) flags (disable_sig2noise S)
                 = Inr (pu st, pv st)
               \<and> pflags st = zeros_like (pu st))))"
proof (intro conjI impI)
  assume c: "snd (multipass_img_deform K fa fb i xo yo uo vo S) = Inr st"
  from multipass_img_deform_Inr [OF c] obtain u v s2n where
    r: "snd (residual_pass K fa fb i xo yo uo vo S) = Inr (px st, py st, u, v, s2n, pmask st)"
    and va: "snd (validate K i u v s2n (disable_sig2noise S)) = Inr (pflags st)"
    and re: "snd (repair_unless_last K i u v (pflags st) (disable_sig2noise S))
             = Inr (pu st, pv st)"
    by blast
  from residual_pass_Inr [OF r] obtain w ov upre vpre fbd ures vres us vs where
    g: "new_grid K fa S i = Inr (w, ov, px st, py st)"
    and p: "predictor K S xo yo uo vo (px st) (py st) = Inr (upre, vpre)"
    and d: "deform_windows K fb (px st) (py st) upre (neg2 vpre)
              (interpolation_order S) (interpolation_order S) = Inr fbd"
    and co: "snd (correlate K i fa fbd w ov None (disable_sig2noise S)) = Inr (ures, vres, s2n)"
    and au: "iadd ures upre = Inr us" and av: "iadd vres vpre = Inr vs"
    and m: "apply_grid_mask K (disable_sig2noise S) (px st) (py st) us vs = Inr (u, v, pmask st)"
    by blast
  from correlate_rect [OF co] predictor_rect [OF p]
  have rects: "rect ures" "rect vres" "rect upre" "rect vpre" by simp_all
  have su: "shape upre = shape ures \<longrightarrow> us = add2 ures upre"
    using iadd_same_shape [OF rects(1) rects(3)] au by auto
  have sv: "shape vpre = shape vres \<longrightarrow> vs = add2 vres vpre"
    using iadd_same_shape [OF rects(2) rects(4)] av by auto
  note mm = apply_grid_mask_Inr [OF m]
  from validate_Inr [OF va]
  have t: "typical_validation K u v s2n (disable_sig2noise S) = Inr (pflags st)" by simp
  have n: "num_iterations (disable_sig2noise S) = num_iterations S"
    by (simp add: disable_sig2noise_def)
  from repair_unless_last_Inr [OF re]
  have e: "if int i + 1 = num_iterations S then pu st = u \<and> pv st = v
           else replace_outliers K u v (pflags st) (disable_sig2noise S) = Inr (pu st, pv st)"
    unfolding n .
  from g p d co au av su sv mm t e
  show "\<exists>w ov upre vpre fbd ures vres s2n us vs u v.
         new_grid K fa S i = Inr (w, ov, px st, py st)
       \<and> predictor K S xo yo uo vo (px st) (py st) = Inr (upre, vpre)
       \<and> deform_windows K fb (px st) (py st) upre (neg2 vpre)
           (interpolation_order S) (interpolation_order S) = Inr fbd
       \<and> snd (correlate K i fa fbd w ov None (disable_sig2noise S)) = Inr (ures, vres, s2n)
       \<and> iadd ures upre = Inr us \<and> iadd vres vpre = Inr vs
       \<and> (shape upre = shape ures \<longrightarrow> us = add2 ures upre)
       \<and> (shape vpre = shape vres \<longrightarrow> vs = add2 vres vpre)
       \<and> masked_array us (pmask st) = Inr u \<and> masked_array vs (pmask st) = Inr v
       \<and> getdata u = us \<and> getdata v = vs
       \<and> typical_validation K u v s2n (disable_sig2noise S) = Inr (pflags st)
       \<and> (if int i + 1 = num_iterations S then pu st = u \<and> pv st = v
          else replace_outliers K u v (pflags st) (disable_sig2noise S) = Inr (pu st, pv st))"
    by blast
next
  assume c: "snd (multipass_img_deform_gpu K fa fb i xo yo uo vo S) = Inr st"
  from multipass_img_deform_gpu_Inr [OF c] obtain u v s2n flags where
    r: "snd (residual_pass_gpu K fa fb i xo yo uo vo S)
        = Inr (px st, py st, u, v, s2n, pmask st)"
    and va: "snd (validate K i u v s2n (disable_sig2noise S)) = Inr flags"
    and re: "snd (repair_unless_last_gpu K i u v flags (disable_sig2noise S))
             = Inr (pu st, pv st, pflags st)"
    by blast
  from residual_pass_gpu_Inr [OF r] obtain w ov x y y_add x_add xe ye upre vpre fbd ures vres us vs
    where g: "new_grid K fa S i = Inr (w, ov, x, y)"
    and p: "predictor_gpu K S fa w ov xo yo uo vo x y = Inr (y_add, x_add, xe, ye, upre, vpre)"
    and d: "deform_windows_gpu K fb xe ye upre (neg2 vpre) w ov
              (interpolation_order S) (interpolation_order S) = Inr fbd"
    and co: "snd (correlate K i fa fbd w ov None (disable_sig2noise S)) = Inr (ures, vres, s2n)"
    and au: "iadd ures (cut_back y_add x_add upre) = Inr us"
    and av: "iadd vres (cut_back y_add x_add vpre) = Inr vs"
    and u: "u = NDArray us" and v: "v = NDArray vs"
    by blast
  from correlate_rect [OF co] predictor_gpu_rect [OF p]
  have rects: "rect ures" "rect vres" "rect (cut_back y_add x_add upre)"
    "rect (cut_back y_add x_add vpre)"
    by (simp_all add: cut_back_def py_slice2_rect)
  have su: "shape (cut_back y_add x_add upre) = shape ures
            \<longrightarrow> us = add2 ures (cut_back y_add x_add upre)"
    using iadd_same_shape [OF rects(1) rects(3)] au by auto
  have sv: "shape (cut_back y_add x_add vpre) = shape vres
            \<longrightarrow> vs = add2 vres (cut_back y_add x_add vpre)"
    using iadd_same_shape [OF rects(2) rects(4)] av by auto
  from validate_Inr [OF va] u v
  have t: "typical_validation K (NDArray us) (NDArray vs) s2n (disable_sig2noise S) = Inr flags"
    by simp
  have n: "num_iterations (disable_sig2noise S) = num_iterations S"
    by (simp add: disable_sig2noise_def)
  from repair_unless_last_gpu_Inr [OF re]
  have e: "if int i + 1 = num_iterations S
          then pu st = NDArray us \<and> pv st = NDArray vs \<and> pflags st = flags
          else replace_outliers K (NDArray us) (NDArray vs) flags (disable_sig2noise S)
                 = Inr (pu st, pv st)
               \<and> pflags st = zeros_like (pu st)"
    unfolding n u v .
  from g p d co au av su sv t e
  show "\<exists>w ov x y y_add x_add xe ye upre vpre fbd ures vres s2n us vs flags.
         new_grid K fa S i = Inr (w, ov, x, y)
       \<and> predictor_gpu K S fa w ov xo yo uo vo x y = Inr (y_add, x_add, xe, ye, upre, vpre)
       \<and> deform_windows_gpu K fb xe ye upre (neg2 vpre) w ov
           (interpolation_order S) (interpolation_order S) = Inr fbd
       \<and> snd (correlate K i fa fbd w ov None (disable_sig2noise S)) = Inr (ures, vres, s2n)
       \<and> iadd ures (cut_back y_add x_add upre) = Inr us
       \<and> iadd vres (cut_back y_add x_add vpre) = Inr vs
       \<and> (shape (cut_back y_add x_add upre) = shape ures
            \<longrightarrow> us = add2 ures (cut_back y_add x_add upre))
       \<and> (shape (cut_back y_add x_add vpre) = shape vres
            \<longrightarrow> vs = add2 vres (cut_back y_add x_add vpre))
       \<and> typical_validation K (NDArray us) (NDArray vs) s2n (disable_sig2noise S) = Inr flags
       \<and> (if int i + 1 = num_iterations S
          then pu st = NDArray us \<and> pv st = NDArray vs \<and> pflags st = flags
          else replace_outliers K (NDArray us) (NDArray vs) flags (disable_sig2noise S)
                 = Inr (pu st, pv st)
               \<and> pflags st = zeros_like (pu st))"
    by blast
qed

theorem pass_returns_accumulated_field_witness:
  "(let K = example_collab 1 2 flag_first (repair_with 7) halve;
        fa = [[5, 6]];
        S = example_settings\<lparr>windowsizes := [1, 1, 1]\<rparr>;
        xo = [[1 / 2, 3 / 2]];
        yo = [[1 / 2, 1 / 2]];
        uo = NDArray [[1, 1]];
        vo = NDArray [[2, 2]];
        st = \<lparr>px = [[1 / 2, 3 / 2]], py = [[1 / 2, 1 / 2]], pu = NDArray [[7, 2]],
                pv = NDArray [[7, 4]], pmask = [[False, False]], pflags = [[True, False]],
                psettings = disable_sig2noise S\<rparr>
    in snd (multipass_img_deform K fa fa 1 xo yo uo vo S) = Inr st
     \<and> (\<exists>w ov upre vpre fbd ures vres s2n us vs u v.
         new_grid K fa S 1 = Inr (w, ov, px st, py st)
       \<and> predictor K S xo yo uo vo (px st) (py st) = Inr (upre, vpre)
       \<and> deform_windows K fa (px st) (py st) upre (neg2 vpre)
           (interpolation_order S) (interpolation_order S) = Inr fbd
       \<and> snd (correlate K 1 fa fbd w ov None (disable_sig2noise S)) = Inr (ures, vres, s2n)
       \<and> iadd ures upre = Inr us \<and> iadd vres vpre = Inr vs
       \<and> (shape upre = shape ures \<longrightarrow> us = add2 ures upre)
       \<and> (shape vpre = shape vres \<longrightarrow> vs = add2 vres vpre)
       \<and> masked_array us (pmask st) = Inr u \<and> masked_array vs (pmask st) = Inr v
       \<and> getdata u = us \<and> getdata v = vs
       \<and> typical_validation K u v s2n (disable_sig2noise S) = Inr (pflags st)
       \<and> (if int 1 + 1 = num_iterations S then pu st = u \<and> pv st = v
          else replace_outliers K u v (pflags st) (disable_sig2noise S) = Inr (pu st, pv st))))
   \<and> (let K = example_collab 1 2 flag_first (repair_with 7) halve;
        fa = replicate 3 [1, 2, 3, 4, 5, 6];
        S = example_settings\<lparr>windowsizes := [3, 3, 3]\<rparr>;
        xo = [[3 / 2, 9 / 2]];
        yo = [[3 / 2, 3 / 2]];
        uo = NDArray [[1, 1]];
        vo = NDArray [[2, 2]];
        st = \<lparr>px = [[3 / 2, 9 / 2]], py = [[3 / 2, 3 / 2]], pu = NDArray [[7, 2]],
                pv = NDArray [[7, 4]], pmask = [[False, False]], pflags = [[False, False]],
                psettings = disable_sig2noise S\<rparr>
    in snd (multipass_img_deform_gpu K fa fa 1 xo yo uo vo S) = Inr st
     \<and> (\<exists>w ov x y y_add x_add xe ye upre vpre fbd ures vres s2n us vs flags.
         new_grid K fa S 1 = Inr (w, ov, x, y)
       \<and> predictor_gpu K S fa w ov xo yo uo vo x y = Inr (y_add, x_add, xe, ye, upre, vpre)
       \<and> deform_windows_gpu K fa xe ye upre (neg2 vpre) w ov
           (interpolation_order S) (interpolation_order S) = Inr fbd
       \<and> snd (correlate K 1 fa fbd w ov None (disable_sig2noise S)) = Inr (ures, vres, s2n)
       \<and> iadd ures (cut_back y_add x_add upre) = Inr us
       \<and> iadd vres (cut_back y_add x_add vpre) = Inr vs
       \<and> (shape (cut_back y_add x_add upre) = shape ures
            \<longrightarrow> us = add2 ures (cut_back y_add x_add upre))
       \<and> (shape (cut_back y_add x_add vpre) = shape vres
            \<longrightarrow> vs = add2 vres (cut_back y_add x_add vpre))
       \<and> typical_validation K (NDArray us) (NDArray vs) s2n (disable_sig2noise S) = Inr flags
       \<and> (if int 1 + 1 = num_iterations S
          then pu st = NDArray us \<and> pv st = NDArray vs \<and> pflags st = flags
          else replace_outliers K (NDArray us) (NDArray vs) flags (disable_sig2noise S)
                 = Inr (pu st, pv st)
               \<and> pflags st = zeros_like (pu st))))"
proof -
  let ?K = "example_collab 1 2 flag_first (repair_with 7) halve"
  let ?fa = "[[5, 6]] :: real list list"
  let ?S = "example_settings\<lparr>windowsizes := [1, 1, 1]\<rparr>"
  let ?xo = "[[1 / 2, 3 / 2]] :: real list list"
  let ?yo = "[[1 / 2, 1 / 2]] :: real list list"
  let ?uo = "NDArray [[1, 1]]"
  let ?vo = "NDArray [[2, 2]]"
  let ?st = "\<lparr>px = [[1 / 2, 3 / 2]], py = [[1 / 2, 1 / 2]], pu = NDArray [[7, 2]], pv = NDArray [[7, 4]], pmask = [[False, False]], pflags = [[True, False]], psettings = disable_sig2noise ?S\<rparr>"
  let ?Kg = "example_collab 1 2 flag_first (repair_with 7) halve"
  let ?fag = "replicate 3 [1, 2, 3, 4, 5, 6] :: real list list"
  let ?Sg = "example_settings\<lparr>windowsizes := [3, 3, 3]\<rparr>"
  let ?xog = "[[3 / 2, 9 / 2]] :: real list list"
  let ?yog = "[[3 / 2, 3 / 2]] :: real list list"
  let ?uog = "NDArray [[1, 1]]"
  let ?vog = "NDArray [[2, 2]]"
  let ?stg = "\<lparr>px = [[3 / 2, 9 / 2]], py = [[3 / 2, 3 / 2]], pu = NDArray [[7, 2]], pv = NDArray [[7, 4]], pmask = [[False, False]], pflags = [[False, False]], psettings = disable_sig2noise ?Sg\<rparr>"
  have h: "snd (multipass_img_deform ?K ?fa ?fa 1 ?xo ?yo ?uo ?vo ?S) = Inr ?st"
    by code_simp
  have hg: "snd (multipass_img_deform_gpu ?Kg ?fag ?fag 1 ?xog ?yog ?uog ?vog ?Sg) = Inr ?stg"
    by code_simp
  note t = pass_returns_accumulated_field [of ?K ?fa ?fa 1 ?xo ?yo ?uo ?vo ?S ?st]
  note tg = pass_returns_accumulated_field [of ?Kg ?fag ?fag 1 ?xog ?yog ?uog ?vog ?Sg ?stg]
  from t h have c: "(\<exists>w ov upre vpre fbd ures vres s2n us vs u v.
            new_grid ?K ?fa ?S 1 = Inr (w, ov, px ?st, py ?st)
          \<and> predictor ?K ?S ?xo ?yo ?uo ?vo (px ?st) (py ?st) = Inr (upre, vpre)
          \<and> deform_windows ?K ?fa (px ?st) (py ?st) upre (neg2 vpre)
              (interpolation_order ?S) (interpolation_order ?S) = Inr fbd
          \<and> snd (correlate ?K 1 ?fa fbd w ov None (disable_sig2noise ?S)) = Inr (ures, vres, s2n)
          \<and> iadd ures upre = Inr us \<and> iadd vres vpre = Inr vs
          \<and> (shape upre = shape ures \<longrightarrow> us = add2 ures upre)
          \<and> (shape vpre = shape vres \<longrightarrow> vs = add2 vres vpre)
          \<and> masked_array us (pmask ?st) = Inr u \<and> masked_array vs (pmask ?st) = Inr v
          \<and> getdata u = us \<and> getdata v = vs
          \<and> typical_validation ?K u v s2n (disable_sig2noise ?S) = Inr (pflags ?st)
          \<and> (if int 1 + 1 = num_iterations ?S then pu ?st = u \<and> pv ?st = v
             else replace_outliers ?K u v (pflags ?st) (disable_sig2noise ?S) = Inr (pu ?st, pv ?st)))"
    by blast
  from tg hg have cg: "(\<exists>w ov x y y_add x_add xe ye upre vpre fbd ures vres s2n us vs flags.
            new_grid ?Kg ?fag ?Sg 1 = Inr (w, ov, x, y)
          \<and> predictor_gpu ?Kg ?Sg ?fag w ov ?xog ?yog ?uog ?vog x y = Inr (y_add, x_add, xe, ye, upre, vpre)
          \<and> deform_windows_gpu ?Kg ?fag xe ye upre (neg2 vpre) w ov
              (interpolation_order ?Sg) (interpolation_order ?Sg) = Inr fbd
          \<and> snd (correlate ?Kg 1 ?fag fbd w ov None (disable_sig2noise ?Sg)) = Inr (ures, vres, s2n)
          \<and> iadd ures (cut_back y_add x_add upre) = Inr us
          \<and> iadd vres (cut_back y_add x_add vpre) = Inr vs
          \<and> (shape (cut_back y_add x_add upre) = shape ures
               \<longrightarrow> us = add2 ures (cut_back y_add x_add upre))
          \<and> (shape (cut_back y_add x_add vpre) = shape vres
               \<longrightarrow> vs = add2 vres (cut_back y_add x_add vpre))
          \<and> typical_validation ?Kg (NDArray us) (NDArray vs) s2n (disable_sig2noise ?Sg) = Inr flags
          \<and> (if int 1 + 1 = num_iterations ?Sg
             then pu ?stg = NDArray us \<and> pv ?stg = NDArray vs \<and> pflags ?stg = flags
             else replace_outliers ?Kg (NDArray us) (NDArray vs) flags (disable_sig2noise ?Sg)
                    = Inr (pu ?stg, pv ?stg)
                  \<and> pflags ?stg = zeros_like (pu ?stg)))"
    by blast
  from h c hg cg show ?thesis unfolding Let_def by blast
qed

text \<open>
  Claim C1 as stated fails on an iteration that is not the last: the sum is 2 in both
  cells, validation flags the first, and the pass returns the repaired 7 there.
\<close>

theorem repaired_field_is_not_the_sum:
  "map_sum id (\<lambda>(x, y, u, v, s2n, gm). u)
     (snd (residual_pass (example_collab 1 2 flag_first (repair_with 7) halve)
        [[5, 6]] [[5, 6]] 1 [[1 / 2, 3 / 2]] [[1 / 2, 1 / 2]] (NDArray [[1, 1]]) (NDArray [[2, 2]])
        (example_settings\<lparr>windowsizes := [1, 1, 1]\<rparr>)))
     = Inr (MaskedArray [[2, 2]] [[False, False]])
   \<and> map_sum id pu
     (snd (multipass_img_deform (example_collab 1 2 flag_first (repair_with 7) halve)
        [[5, 6]] [[5, 6]] 1 [[1 / 2, 3 / 2]] [[1 / 2, 1 / 2]] (NDArray [[1, 1]]) (NDArray [[2, 2]])
        (example_settings\<lparr>windowsizes := [1, 1, 1]\<rparr>)))
     = Inr (NDArray [[7, 2]])"
  by code_simp

section \<open>When outliers are replaced\<close>

text \<open>
  Claim C4. \<open>replace_outliers\<close> is called after pass \<open>i\<close> exactly when another pass
  follows (\<open>i + 1 < num_iterations\<close>), or when pass 0 is the only pass and
  \<open>replace_vectors\<close> is set. No run, returning or raising, makes another repair call,
  and a run that returns has made exactly the calls of \<open>schedule\<close>, in that order: for
  two passes or more the last validation is followed by the save alone.
\<close>

theorem repair_schedule:
  "(Repair i \<in> set (fst (multipass K raw_a raw_b S))
      \<longrightarrow> int i + 1 < num_iterations S \<or> (i = 0 \<and> num_iterations S = 1 \<and> replace_vectors S))
   \<and> (Repair i \<in> set (fst (multipass_gpu K raw_a raw_b S))
      \<longrightarrow> int i + 1 < num_iterations S \<or> (i = 0 \<and> num_iterations S = 1 \<and> replace_vectors S))
   \<and> (snd (multipass K raw_a raw_b S) = Inr out
      \<longrightarrow> fst (multipass K raw_a raw_b S) = schedule S
        \<and> (Repair i \<in> set (fst (multipass K raw_a raw_b S))
             \<longleftrightarrow> int i + 1 < num_iterations S
                 \<or> (i = 0 \<and> num_iterations S = 1 \<and> replace_vectors S)))
   \<and> (snd (multipass_gpu K raw_a raw_b S) = Inr out
      \<longrightarrow> fst (multipass_gpu K raw_a raw_b S) = schedule S
        \<and> (Repair i \<in> set (fst (multipass_gpu K raw_a raw_b S))
             \<longleftrightarrow> int i + 1 < num_iterations S
                 \<or> (i = 0 \<and> num_iterations S = 1 \<and> replace_vectors S)))"
proof (intro conjI impI)
  assume "Repair i \<in> set (fst (multipass K raw_a raw_b S))"
  with logs_set [OF logs_multipass, of K raw_a raw_b S]
  have "Repair i \<in> set (schedule S)" by blast
  then show "int i + 1 < num_iterations S \<or> (i = 0 \<and> num_iterations S = 1 \<and> replace_vectors S)"
    by (simp only: Repair_in_schedule)
next
  assume "Repair i \<in> set (fst (multipass_gpu K raw_a raw_b S))"
  with logs_set [OF logs_multipass_gpu, of K raw_a raw_b S]
  have "Repair i \<in> set (schedule S)" by blast
  then show "int i + 1 < num_iterations S \<or> (i = 0 \<and> num_iterations S = 1 \<and> replace_vectors S)"
    by (simp only: Repair_in_schedule)
next
  assume c: "snd (multipass K raw_a raw_b S) = Inr out"
  show e: "fst (multipass K raw_a raw_b S) = schedule S"
    by (rule logs_Inr [OF logs_multipass c])
  show "Repair i \<in> set (fst (multipass K raw_a raw_b S))
        \<longleftrightarrow> int i + 1 < num_iterations S \<or> (i = 0 \<and> num_iterations S = 1 \<and> replace_vectors S)"
    by (simp only: e Repair_in_schedule)
next
  assume c: "snd (multipass_gpu K raw_a raw_b S) = Inr out"
  show e: "fst (multipass_gpu K raw_a raw_b S) = schedule S"
    by (rule logs_Inr [OF logs_multipass_gpu c])
  show "Repair i \<in> set (fst (multipass_gpu K raw_a raw_b S))
        \<longleftrightarrow> int i + 1 < num_iterations S \<or> (i = 0 \<and> num_iterations S = 1 \<and> replace_vectors S)"
    by (simp only: e Repair_in_schedule)
qed

theorem repair_schedule_witness:
  "(let K = example_collab 1 2 flag_first (repair_with 7) halve;
        S = example_settings\<lparr>windowsizes := [1, 1, 1]\<rparr>;
        out = \<lparr>saved_x = [[1 / 2, 3 / 2]], saved_y = [[1 / 2, 1 / 2]],
                 saved_u = MaskedArray [[- 8, - 8]] [[False, False]],
                 saved_v = MaskedArray [[- 9, - 9]] [[False, False]],
                 saved_flags = [[True, False]], saved_mask = [[False, False]]\<rparr>
    in snd (multipass K [[5, 6]] [[5, 6]] S) = Inr out
     \<and> fst (multipass K [[5, 6]] [[5, 6]] S) = schedule S
     \<and> schedule S = [Correlate 0, Validate 0, Repair 0, Correlate 1, Validate 1, Repair 1,
                      Correlate 2, Validate 2, Save]
     \<and> Repair 1 \<in> set (fst (multipass K [[5, 6]] [[5, 6]] S))
     \<and> Repair 2 \<notin> set (fst (multipass K [[5, 6]] [[5, 6]] S)))
   \<and> (let K = example_collab 1 2 flag_first (repair_with 7) halve;
        raw = replicate 3 [1, 2, 3, 4, 5, 6];
        S = example_settings\<lparr>windowsizes := [3, 3, 3]\<rparr>;
        out = \<lparr>saved_x = [[3 / 2, 9 / 2]], saved_y = [[3 / 2, 3 / 2]],
                 saved_u = NDArray [[- 8, - 8]], saved_v = NDArray [[- 9, - 9]],
                 saved_flags = [[True, False]], saved_mask = [[False, False]]\<rparr>
    in snd (multipass_gpu K raw raw S) = Inr out
     \<and> fst (multipass_gpu K raw raw S) = schedule S
     \<and> Repair 1 \<in> set (fst (multipass_gpu K raw raw S))
     \<and> Repair 2 \<notin> set (fst (multipass_gpu K raw raw S)))"
proof -
  let ?K = "example_collab 1 2 flag_first (repair_with 7) halve"
  let ?A = "[[5, 6 :: real]]"
  let ?S = "example_settings\<lparr>windowsizes := [1, 1, 1]\<rparr>"
  let ?out = "\<lparr>saved_x = [[1 / 2, 3 / 2]], saved_y = [[1 / 2, 1 / 2]],
                 saved_u = MaskedArray [[- 8, - 8]] [[False, False]],
                 saved_v = MaskedArray [[- 9, - 9]] [[False, False]],
                 saved_flags = [[True, False]], saved_mask = [[False, False]]\<rparr>"
  let ?G = "replicate 3 [1, 2, 3, 4, 5, 6 :: real]"
  let ?T = "example_settings\<lparr>windowsizes := [3, 3, 3]\<rparr>"
  let ?outg = "\<lparr>saved_x = [[3 / 2, 9 / 2]], saved_y = [[3 / 2, 3 / 2]],
                 saved_u = NDArray [[- 8, - 8]], saved_v = NDArray [[- 9, - 9]],
                 saved_flags = [[True, False]], saved_mask = [[False, False]]\<rparr>"
  have h: "snd (multipass ?K ?A ?A ?S) = Inr ?out" by code_simp
  have hg: "snd (multipass_gpu ?K ?G ?G ?T) = Inr ?outg" by code_simp
  have s: "schedule ?S = [Correlate 0, Validate 0, Repair 0, Correlate 1, Validate 1, Repair 1,
                          Correlate 2, Validate 2, Save]"
    by code_simp
  have n1: "int 1 + 1 < num_iterations ?S" "int 1 + 1 < num_iterations ?T"
    by (simp_all add: example_settings_def)
  have n2: "\<not> (int 2 + 1 < num_iterations ?S
               \<or> ((2 :: nat) = 0 \<and> num_iterations ?S = 1 \<and> replace_vectors ?S))"
    "\<not> (int 2 + 1 < num_iterations ?T
        \<or> ((2 :: nat) = 0 \<and> num_iterations ?T = 1 \<and> replace_vectors ?T))"
    by (simp_all add: example_settings_def)
  note t1 = repair_schedule [of 1 ?K ?A ?A ?S ?out]
  note t2 = repair_schedule [of 2 ?K ?A ?A ?S ?out]
  note g1 = repair_schedule [of 1 ?K ?G ?G ?T ?outg]
  note g2 = repair_schedule [of 2 ?K ?G ?G ?T ?outg]
  from t1 h have a: "fst (multipass ?K ?A ?A ?S) = schedule ?S"
    by blast
  from t1 h n1(1) have a': "Repair 1 \<in> set (fst (multipass ?K ?A ?A ?S))"
    by blast
  from t2 n2(1) have b: "Repair 2 \<notin> set (fst (multipass ?K ?A ?A ?S))"
    by blast
  from g1 hg have ag: "fst (multipass_gpu ?K ?G ?G ?T) = schedule ?T"
    by blast
  from g1 hg n1(2) have ag': "Repair 1 \<in> set (fst (multipass_gpu ?K ?G ?G ?T))"
    by blast
  from g2 n2(2) have bg: "Repair 2 \<notin> set (fst (multipass_gpu ?K ?G ?G ?T))"
    by blast
  from h a a' s b hg ag ag' bg show ?thesis unfolding Let_def by blast
qed

text \<open>
  Claim C4 as stated fails for \<open>num_iterations = 1\<close> with \<open>replace_vectors\<close> set: the
  only pass is repaired. The GPU run saves the repaired value \<open>-7\<close> at the cell its flags
  mark; the CPU run makes the same repair call and then stops at line 285.
\<close>

theorem only_pass_is_repaired:
  "multipass_gpu (example_collab 1 2 flag_first (repair_with 7) halve) [[5]] [[5]]
       (example_settings\<lparr>windowsizes := [1], overlap := [0], num_iterations := 1,
          replace_vectors := True\<rparr>)
     = ([Correlate 0, Validate 0, Repair 0, Save],
        Inr \<lparr>saved_x = [[1 / 2]], saved_y = [[1 / 2]],
              saved_u = NDArray [[- 7]], saved_v = NDArray [[- 7]],
              saved_flags = [[True]], saved_mask = [[False]]\<rparr>)
   \<and> multipass (example_collab 1 2 flag_first (repair_with 7) halve) [[5]] [[5]]
       (example_settings\<lparr>windowsizes := [1], overlap := [0], num_iterations := 1,
          replace_vectors := True\<rparr>)
     = ([Correlate 0, Validate 0, Repair 0],
        Inl (NameError ''local variable i referenced before assignment''))"
  by code_simp

section \<open>A pass whose validation flags every cell\<close>

text \<open>
  Claim C5. When the validation of a pass \<open>i \<ge> 1\<close> (a pass of the loop, in either file)
  flags every grid cell, the run raises at once: its log ends with that validation call,
  so no repair, no further pass and no save follow. What is raised is
  \<open>ValueError("Something happened in the validation")\<close>, the same value at every pass.
\<close>

theorem validation_exhausted_aborts:
  "(prepare_images K raw_a raw_b S = Inr (fa, fb, im)
      \<and> first_stage K fa fb im S = (l0, Inr st0)
      \<and> iterations S = pre @ i # rest
      \<and> pass_loop (loop_body K fa fb) pre st0 = (l1, Inr st)
      \<and> residual_pass K fa fb i (px st) (py st) (pu st) (pv st) (psettings st)
          = (l2, Inr (x, y, u, v, s2n, gm))
      \<and> typical_validation K u v s2n (disable_sig2noise (psettings st)) = Inr flags
      \<and> np_all flags
      \<longrightarrow> multipass K raw_a raw_b S
          = (l0 @ l1 @ l2 @ [Validate i],
             Inl (ValueError ''Something happened in the validation'')))
   \<and> (prepare_images_gpu raw_a raw_b S = Inr (fa, fb)
      \<and> first_stage K fa fb None S = (l0, Inr st0)
      \<and> iterations S = pre @ i # rest
      \<and> pass_loop (loop_body_gpu K fa fb) pre st0 = (l1, Inr st)
      \<and> residual_pass_gpu K fa fb i (px st) (py st) (pu st) (pv st) (psettings st)
          = (l2, Inr (x, y, u, v, s2n, gm))
      \<and> typical_validation K u v s2n (disable_sig2noise (psettings st)) = Inr flags
      \<and> np_all flags
      \<longrightarrow> multipass_gpu K raw_a raw_b S
          = (l0 @ l1 @ l2 @ [Validate i],
             Inl (ValueError ''Something happened in the validation'')))"
proof (intro conjI impI)
  assume h: "prepare_images K raw_a raw_b S = Inr (fa, fb, im)
      \<and> first_stage K fa fb im S = (l0, Inr st0)
      \<and> iterations S = pre @ i # rest
      \<and> pass_loop (loop_body K fa fb) pre st0 = (l1, Inr st)
      \<and> residual_pass K fa fb i (px st) (py st) (pu st) (pv st) (psettings st)
          = (l2, Inr (x, y, u, v, s2n, gm))
      \<and> typical_validation K u v s2n (disable_sig2noise (psettings st)) = Inr flags
      \<and> np_all flags"
  then have "multipass_img_deform K fa fb i (px st) (py st) (pu st) (pv st) (psettings st)
             = (l2 @ [Validate i], Inl (ValueError ''Something happened in the validation''))"
    by (intro multipass_img_deform_exhausted) auto
  then have "loop_body K fa fb i st
             = (l2 @ [Validate i], Inl (ValueError ''Something happened in the validation''))"
    by (simp add: loop_body_def)
  then have "pass_loop (loop_body K fa fb) (pre @ i # rest) st0
             = (l1 @ l2 @ [Validate i], Inl (ValueError ''Something happened in the validation''))"
    using h by (simp add: pass_loop_append)
  then show "multipass K raw_a raw_b S
          = (l0 @ l1 @ l2 @ [Validate i],
             Inl (ValueError ''Something happened in the validation''))"
    using h by (simp add: multipass_def)
next
  assume h: "prepare_images_gpu raw_a raw_b S = Inr (fa, fb)
      \<and> first_stage K fa fb None S = (l0, Inr st0)
      \<and> iterations S = pre @ i # rest
      \<and> pass_loop (loop_body_gpu K fa fb) pre st0 = (l1, Inr st)
      \<and> residual_pass_gpu K fa fb i (px st) (py st) (pu st) (pv st) (psettings st)
          = (l2, Inr (x, y, u, v, s2n, gm))
      \<and> typical_validation K u v s2n (disable_sig2noise (psettings st)) = Inr flags
      \<and> np_all flags"
  then have "multipass_img_deform_gpu K fa fb i (px st) (py st) (pu st) (pv st) (psettings st)
             = (l2 @ [Validate i], Inl (ValueError ''Something happened in the validation''))"
    by (intro multipass_img_deform_gpu_exhausted) auto
  then have "loop_body_gpu K fa fb i st
             = (l2 @ [Validate i], Inl (ValueError ''Something happened in the validation''))"
    by (simp add: loop_body_gpu_def)
  then have "pass_loop (loop_body_gpu K fa fb) (pre @ i # rest) st0
             = (l1 @ l2 @ [Validate i], Inl (ValueError ''Something happened in the validation''))"
    using h by (simp add: pass_loop_append)
  then show "multipass_gpu K raw_a raw_b S
          = (l0 @ l1 @ l2 @ [Validate i],
             Inl (ValueError ''Something happened in the validation''))"
    using h by (simp add: multipass_gpu_def)
qed

theorem validation_exhausted_aborts_witness:
  "prepare_images (example_collab 1 2 (flag_all_if 2) no_repair halve)
       [[1, 2], [3, 4]] [[1, 2], [3, 4]] (example_settings\<lparr>windowsizes := [2, 1, 2]\<rparr>)
     = Inr ([[1, 2], [3, 4]], [[1, 2], [3, 4]], None)
   \<and> first_stage (example_collab 1 2 (flag_all_if 2) no_repair halve)
       [[1, 2], [3, 4]] [[1, 2], [3, 4]] None (example_settings\<lparr>windowsizes := [2, 1, 2]\<rparr>)
     = ([Correlate 0, Validate 0, Repair 0],
        Inr \<lparr>px = [[1]], py = [[1]], pu = NDArray [[1]], pv = NDArray [[2]],
              pmask = [[False]], pflags = [[False]],
              psettings = example_settings\<lparr>windowsizes := [2, 1, 2]\<rparr>\<rparr>)
   \<and> iterations (example_settings\<lparr>windowsizes := [2, 1, 2]\<rparr>) = [] @ 1 # [2]
   \<and> residual_pass (example_collab 1 2 (flag_all_if 2) no_repair halve)
       [[1, 2], [3, 4]] [[1, 2], [3, 4]] 1 [[1]] [[1]] (NDArray [[1]]) (NDArray [[2]])
       (example_settings\<lparr>windowsizes := [2, 1, 2]\<rparr>)
     = ([Correlate 1],
        Inr ([[1 / 2, 3 / 2], [1 / 2, 3 / 2]], [[1 / 2, 1 / 2], [3 / 2, 3 / 2]],
             MaskedArray [[2, 2], [2, 2]] [[False, False], [False, False]],
             MaskedArray [[4, 4], [4, 4]] [[False, False], [False, False]],
             [[1, 1], [1, 1]], [[False, False], [False, False]]))
   \<and> typical_validation (example_collab 1 2 (flag_all_if 2) no_repair halve)
       (MaskedArray [[2, 2], [2, 2]] [[False, False], [False, False]])
       (MaskedArray [[4, 4], [4, 4]] [[False, False], [False, False]])
       [[1, 1], [1, 1]] (disable_sig2noise (example_settings\<lparr>windowsizes := [2, 1, 2]\<rparr>))
     = Inr [[True, True], [True, True]]
   \<and> np_all [[True, True], [True, True]]
   \<and> multipass (example_collab 1 2 (flag_all_if 2) no_repair halve)
       [[1, 2], [3, 4]] [[1, 2], [3, 4]] (example_settings\<lparr>windowsizes := [2, 1, 2]\<rparr>)
     = ([Correlate 0, Validate 0, Repair 0, Correlate 1, Validate 1],
        Inl (ValueError ''Something happened in the validation''))
   \<and> prepare_images_gpu (replicate 3 [1, 2, 3, 4, 5, 6]) (replicate 3 [1, 2, 3, 4, 5, 6])
       (example_settings\<lparr>windowsizes := [3, 3, 3]\<rparr>)
     = Inr (replicate 3 [1, 2, 3, 4, 5, 6], replicate 3 [1, 2, 3, 4, 5, 6])
   \<and> first_stage (example_collab 1 2 (flag_all_if 2) no_repair halve)
       (replicate 3 [1, 2, 3, 4, 5, 6]) (replicate 3 [1, 2, 3, 4, 5, 6]) None
       (example_settings\<lparr>windowsizes := [3, 3, 3]\<rparr>)
     = ([Correlate 0, Validate 0, Repair 0],
        Inr \<lparr>px = [[3 / 2, 9 / 2]], py = [[3 / 2, 3 / 2]], pu = NDArray [[1, 1]],
              pv = NDArray [[2, 2]], pmask = [[False, False]], pflags = [[True, True]],
              psettings = example_settings\<lparr>windowsizes := [3, 3, 3]\<rparr>\<rparr>)
   \<and> residual_pass_gpu (example_collab 1 2 (flag_all_if 2) no_repair halve)
       (replicate 3 [1, 2, 3, 4, 5, 6]) (replicate 3 [1, 2, 3, 4, 5, 6]) 1
       [[3 / 2, 9 / 2]] [[3 / 2, 3 / 2]] (NDArray [[1, 1]]) (NDArray [[2, 2]])
       (example_settings\<lparr>windowsizes := [3, 3, 3]\<rparr>)
     = ([Correlate 1],
        Inr ([[3 / 2, 9 / 2]], [[3 / 2, 3 / 2]], NDArray [[2, 2]], NDArray [[4, 4]],
             [[1, 1]], [[False, False]]))
   \<and> multipass_gpu (example_collab 1 2 (flag_all_if 2) no_repair halve)
       (replicate 3 [1, 2, 3, 4, 5, 6]) (replicate 3 [1, 2, 3, 4, 5, 6])
       (example_settings\<lparr>windowsizes := [3, 3, 3]\<rparr>)
     = ([Correlate 0, Validate 0, Repair 0, Correlate 1, Validate 1],
        Inl (ValueError ''Something happened in the validation''))"
proof -
  let ?K = "example_collab 1 2 (flag_all_if 2) no_repair halve"
  let ?A = "[[1, 2], [3, 4 :: real]]"
  let ?S = "example_settings\<lparr>windowsizes := [2, 1, 2]\<rparr>"
  let ?st = "\<lparr>px = [[1]], py = [[1]], pu = NDArray [[1]], pv = NDArray [[2]],
              pmask = [[False]], pflags = [[False]], psettings = ?S\<rparr>"
  let ?u = "MaskedArray [[2, 2], [2, 2]] [[False, False], [False, False]]"
  let ?v = "MaskedArray [[4, 4], [4, 4]] [[False, False], [False, False]]"
  let ?x = "[[1 / 2, 3 / 2], [1 / 2, 3 / 2 :: real]]"
  let ?y = "[[1 / 2, 1 / 2], [3 / 2, 3 / 2 :: real]]"
  let ?gm = "[[False, False], [False, False]]"
  let ?G = "replicate 3 [1, 2, 3, 4, 5, 6 :: real]"
  let ?T = "example_settings\<lparr>windowsizes := [3, 3, 3]\<rparr>"
  let ?sg = "\<lparr>px = [[3 / 2, 9 / 2]], py = [[3 / 2, 3 / 2]], pu = NDArray [[1, 1]],
              pv = NDArray [[2, 2]], pmask = [[False, False]], pflags = [[True, True]],
              psettings = ?T\<rparr>"
  have p: "prepare_images ?K ?A ?A ?S = Inr (?A, ?A, None)" by code_simp
  have f: "first_stage ?K ?A ?A None ?S = ([Correlate 0, Validate 0, Repair 0], Inr ?st)"
    by code_simp
  have i: "iterations ?S = [] @ 1 # [2]" by code_simp
  have l: "pass_loop (loop_body ?K ?A ?A) [] ?st = ([], Inr ?st)" by (simp add: liftR_def)
  have r: "residual_pass ?K ?A ?A 1 [[1]] [[1]] (NDArray [[1]]) (NDArray [[2]]) ?S
           = ([Correlate 1], Inr (?x, ?y, ?u, ?v, [[1, 1], [1, 1]], ?gm))"
    by code_simp
  have t: "typical_validation ?K ?u ?v [[1, 1], [1, 1]] (disable_sig2noise ?S)
           = Inr [[True, True], [True, True]]"
    by code_simp
  have a: "np_all [[True, True], [True, True]]" by code_simp
  have pg: "prepare_images_gpu ?G ?G ?T = Inr (?G, ?G)" by code_simp
  have fg: "first_stage ?K ?G ?G None ?T = ([Correlate 0, Validate 0, Repair 0], Inr ?sg)"
    by code_simp
  have ig: "iterations ?T = [] @ 1 # [2]" by code_simp
  have lg: "pass_loop (loop_body_gpu ?K ?G ?G) [] ?sg = ([], Inr ?sg)" by (simp add: liftR_def)
  have rg: "residual_pass_gpu ?K ?G ?G 1 [[3 / 2, 9 / 2]] [[3 / 2, 3 / 2]] (NDArray [[1, 1]])
              (NDArray [[2, 2]]) ?T
            = ([Correlate 1], Inr ([[3 / 2, 9 / 2]], [[3 / 2, 3 / 2]], NDArray [[2, 2]],
                 NDArray [[4, 4]], [[1, 1]], [[False, False]]))"
    by code_simp
  have tg: "typical_validation ?K (NDArray [[2, 2]]) (NDArray [[4, 4]]) [[1, 1]]
              (disable_sig2noise ?T) = Inr [[True, True]]"
    by code_simp
  have ag: "np_all [[True, True]]" by code_simp
  from validation_exhausted_aborts [of ?K ?A ?A ?S ?A ?A None "[Correlate 0, Validate 0, Repair 0]"
         ?st "[]" 1 "[2]" "[]" ?st "[Correlate 1]" ?x ?y ?u ?v "[[1, 1], [1, 1]]" ?gm
         "[[True, True], [True, True]]"]
       p f i l r t a
  have c: "multipass ?K ?A ?A ?S
           = ([Correlate 0, Validate 0, Repair 0, Correlate 1, Validate 1],
              Inl (ValueError ''Something happened in the validation''))"
    by simp
  from validation_exhausted_aborts [of ?K ?G ?G ?T ?G ?G None "[Correlate 0, Validate 0, Repair 0]"
         ?sg "[]" 1 "[2]" "[]" ?sg "[Correlate 1]" "[[3 / 2, 9 / 2]]" "[[3 / 2, 3 / 2]]"
         "NDArray [[2, 2]]" "NDArray [[4, 4]]" "[[1, 1]]" "[[False, False]]" "[[True, True]]"]
       pg fg ig lg rg tg ag
  have cg: "multipass_gpu ?K ?G ?G ?T
           = ([Correlate 0, Validate 0, Repair 0, Correlate 1, Validate 1],
              Inl (ValueError ''Something happened in the validation''))"
    by simp
  from p f i r t a c pg fg rg cg show ?thesis by blast
qed

text \<open>
  Claim C5 as stated fails twice. The first pass has no such check: a run whose first
  validation flags the only cell goes on to pass 1 and saves. And the error carries no
  pass index: a run stopped at pass 1 and a run stopped at pass 2 raise the same value.
\<close>

theorem first_pass_exhausted_continues:
  "multipass (example_collab 1 2 (flag_all_if 1) no_repair halve) [[1, 2], [3, 4]] [[1, 2], [3, 4]]
       (example_settings\<lparr>num_iterations := 2, windowsizes := [2, 1]\<rparr>)
     = ([Correlate 0, Validate 0, Repair 0, Correlate 1, Validate 1, Save],
        Inr \<lparr>saved_x = [[1 / 2, 3 / 2], [1 / 2, 3 / 2]],
              saved_y = [[1 / 2, 1 / 2], [3 / 2, 3 / 2]],
              saved_u = MaskedArray [[- 2, - 2], [- 2, - 2]] [[False, False], [False, False]],
              saved_v = MaskedArray [[- 4, - 4], [- 4, - 4]] [[False, False], [False, False]],
              saved_flags = [[False, False], [False, False]],
              saved_mask = [[False, False], [False, False]]\<rparr>)
   \<and> typical_validation (example_collab 1 2 (flag_all_if 1) no_repair halve)
       (NDArray [[1]]) (NDArray [[2]]) [[1]]
       (example_settings\<lparr>num_iterations := 2, windowsizes := [2, 1]\<rparr>) = Inr [[True]]
   \<and> multipass (example_collab 1 2 (flag_all_if 2) no_repair halve) [[1, 2], [3, 4]] [[1, 2], [3, 4]]
       (example_settings\<lparr>windowsizes := [2, 1, 2]\<rparr>)
     = ([Correlate 0, Validate 0, Repair 0, Correlate 1, Validate 1],
        Inl (ValueError ''Something happened in the validation''))
   \<and> multipass (example_collab 1 2 (flag_all_if 2) no_repair halve) [[1, 2], [3, 4]] [[1, 2], [3, 4]]
       (example_settings\<lparr>windowsizes := [2, 2, 1]\<rparr>)
     = ([Correlate 0, Validate 0, Repair 0, Correlate 1, Validate 1, Repair 1,
         Correlate 2, Validate 2],
        Inl (ValueError ''Something happened in the validation''))"
  by code_simp

section \<open>The finalizing step\<close>

text \<open>
  Claim C6. A CPU run that returns has saved this: the internal field of the last pass
  is a masked array; its masked cells are set to 0 and all others kept (the flags are not
  consulted); the image mask sampled on the final grid is attached, or an empty mask when
  there is no image mask; then the rows are reversed and every entry negated. So the
  saved value of cell \<open>(r, c)\<close> stands in row \<open>n - 1 - r\<close> and is 0 or the negated
  internal value. The grid, the flags and the mask are saved as they are. A GPU run that
  returns has saved the reversed and negated field with no fill, and a mask of
  \<open>False\<close> everywhere.
\<close>

theorem finalizing_step:
  "(snd (multipass K raw_a raw_b S) = Inr out \<longrightarrow>
      (\<exists>fa fb im st0 st du mu dv mv u v.
         prepare_images K raw_a raw_b S = Inr (fa, fb, im)
       \<and> snd (first_stage K fa fb im S) = Inr st0
       \<and> snd (pass_loop (loop_body K fa fb) (iterations S) st0) = Inr st
       \<and> pu st = MaskedArray du mu \<and> pv st = MaskedArray dv mv
       \<and> (case im of
             Some m \<Rightarrow> masked_array (fill_zero du mu) (mask_on_grid K m (py st) (px st)) = Inr u
                      \<and> masked_array (fill_zero dv mv) (mask_on_grid K m (py st) (px st)) = Inr v
                      \<and> saved_mask out = mask_on_grid K m (py st) (px st)
           | None \<Rightarrow> u = nomask_array (fill_zero du mu) \<and> v = nomask_array (fill_zero dv mv)
                      \<and> saved_mask out = pmask st)
       \<and> saved_u out = neg_flip u \<and> saved_v out = neg_flip v
       \<and> (\<forall>r c. r < length du \<and> r < length mu \<and> c < length (du ! r) \<and> c < length (mu ! r)
              \<longrightarrow> getdata (saved_u out) ! (min (length du) (length mu) - 1 - r) ! c
                  = (if mu ! r ! c then 0 else - (du ! r ! c)))
       \<and> (\<forall>r c. r < length dv \<and> r < length mv \<and> c < length (dv ! r) \<and> c < length (mv ! r)
              \<longrightarrow> getdata (saved_v out) ! (min (length dv) (length mv) - 1 - r) ! c
                  = (if mv ! r ! c then 0 else - (dv ! r ! c)))
       \<and> saved_x out = px st \<and> saved_y out = py st \<and> saved_flags out = pflags st))
   \<and> (snd (multipass_gpu K raw_a raw_b S) = Inr out \<longrightarrow>
      (\<exists>fa fb st0 st.
         prepare_images_gpu raw_a raw_b S = Inr (fa, fb)
       \<and> snd (first_stage K fa fb None S) = Inr st0
       \<and> snd (pass_loop (loop_body_gpu K fa fb) (iterations S) st0) = Inr st
       \<and> out = \<lparr>saved_x = px st, saved_y = py st, saved_u = neg_flip (pu st),
                 saved_v = neg_flip (pv st), saved_flags = pflags st,
                 saved_mask = zeros_like (pu st)\<rparr>))"
proof (intro conjI impI)
  assume c: "snd (multipass K raw_a raw_b S) = Inr out"
  from multipass_completed [OF c] obtain fa fb im st0 st where
    p: "prepare_images K raw_a raw_b S = Inr (fa, fb, im)"
    and f: "snd (first_stage K fa fb im S) = Inr st0"
    and l: "snd (pass_loop (loop_body K fa fb) (iterations S) st0) = Inr st"
    and z: "snd (finalize K im st) = Inr out"
    by blast
  from finalize_Inr [OF z] obtain du mu dv mv u v where
    u: "pu st = MaskedArray du mu" and v: "pv st = MaskedArray dv mv"
    and m: "(case im of
            Some m \<Rightarrow> masked_array (fill_zero du mu) (mask_on_grid K m (py st) (px st)) = Inr u
                     \<and> masked_array (fill_zero dv mv) (mask_on_grid K m (py st) (px st)) = Inr v
                     \<and> saved_mask out = mask_on_grid K m (py st) (px st)
          | None \<Rightarrow> u = nomask_array (fill_zero du mu) \<and> v = nomask_array (fill_zero dv mv)
                     \<and> saved_mask out = pmask st)"
    and su: "saved_u out = neg_flip u" and sv: "saved_v out = neg_flip v"
    and r: "saved_x out = px st \<and> saved_y out = py st \<and> saved_flags out = pflags st"
    by blast
  from m have du: "getdata u = fill_zero du mu" and dv: "getdata v = fill_zero dv mv"
    by (cases im; auto dest: masked_array_data)+
  have pu: "getdata (saved_u out) ! (min (length du) (length mu) - 1 - r) ! c
            = (if mu ! r ! c then 0 else - (du ! r ! c))"
    if "r < length du \<and> r < length mu \<and> c < length (du ! r) \<and> c < length (mu ! r)" for r c
  proof -
    from that have a: "r < length (fill_zero du mu)" "c < length (fill_zero du mu ! r)"
      by (simp_all add: fill_zero_def)
    from neg_flip_nth [OF a] that show ?thesis
      by (simp add: su getdata_neg_flip du fill_zero_length fill_zero_nth)
  qed
  have pv: "getdata (saved_v out) ! (min (length dv) (length mv) - 1 - r) ! c
            = (if mv ! r ! c then 0 else - (dv ! r ! c))"
    if "r < length dv \<and> r < length mv \<and> c < length (dv ! r) \<and> c < length (mv ! r)" for r c
  proof -
    from that have a: "r < length (fill_zero dv mv)" "c < length (fill_zero dv mv ! r)"
      by (simp_all add: fill_zero_def)
    from neg_flip_nth [OF a] that show ?thesis
      by (simp add: sv getdata_neg_flip dv fill_zero_length fill_zero_nth)
  qed
  from p f l u v m su sv pu pv r
  show "\<exists>fa fb im st0 st du mu dv mv u v.
         prepare_images K raw_a raw_b S = Inr (fa, fb, im)
       \<and> snd (first_stage K fa fb im S) = Inr st0
       \<and> snd (pass_loop (loop_body K fa fb) (iterations S) st0) = Inr st
       \<and> pu st = MaskedArray du mu \<and> pv st = MaskedArray dv mv
       \<and> (case im of
             Some m \<Rightarrow> masked_array (fill_zero du mu) (mask_on_grid K m (py st) (px st)) = Inr u
                      \<and> masked_array (fill_zero dv mv) (mask_on_grid K m (py st) (px st)) = Inr v
                      \<and> saved_mask out = mask_on_grid K m (py st) (px st)
           | None \<Rightarrow> u = nomask_array (fill_zero du mu) \<and> v = nomask_array (fill_zero dv mv)
                      \<and> saved_mask out = pmask st)
       \<and> saved_u out = neg_flip u \<and> saved_v out = neg_flip v
       \<and> (\<forall>r c. r < length du \<and> r < length mu \<and> c < length (du ! r) \<and> c < length (mu ! r)
              \<longrightarrow> getdata (saved_u out) ! (min (length du) (length mu) - 1 - r) ! c
                  = (if mu ! r ! c then 0 else - (du ! r ! c)))
       \<and> (\<forall>r c. r < length dv \<and> r < length mv \<and> c < length (dv ! r) \<and> c < length (mv ! r)
              \<longrightarrow> getdata (saved_v out) ! (min (length dv) (length mv) - 1 - r) ! c
                  = (if mv ! r ! c then 0 else - (dv ! r ! c)))
       \<and> saved_x out = px st \<and> saved_y out = py st \<and> saved_flags out = pflags st"
    by blast
next
  assume c: "snd (multipass_gpu K raw_a raw_b S) = Inr out"
  then show "\<exists>fa fb st0 st.
         prepare_images_gpu raw_a raw_b S = Inr (fa, fb)
       \<and> snd (first_stage K fa fb None S) = Inr st0
       \<and> snd (pass_loop (loop_body_gpu K fa fb) (iterations S) st0) = Inr st
       \<and> out = \<lparr>saved_x = px st, saved_y = py st, saved_u = neg_flip (pu st),
                 saved_v = neg_flip (pv st), saved_flags = pflags st,
                 saved_mask = zeros_like (pu st)\<rparr>"
    by (rule multipass_gpu_completed)
qed

theorem finalizing_step_witness:
  "(let K = example_collab 1 2 flag_first (repair_with 7) halve;
        raw_a = [[1, 2, 3, 4], [5, 6, 7, 8]];
        S = example_settings\<lparr>windowsizes := [2, 2], num_iterations := 2,
              static_mask := Some [[False, False, False, False], [False, True, False, False]]\<rparr>;
        out = \<lparr>saved_x = [[1, 3]], saved_y = [[1, 1]],
                 saved_u = MaskedArray [[0, - 8]] [[True, False]],
                 saved_v = MaskedArray [[0, - 9]] [[True, False]],
                 saved_flags = [[True, False]], saved_mask = [[True, False]]\<rparr>
    in snd (multipass K raw_a raw_a S) = Inr out
     \<and> (\<exists>fa fb im st0 st du mu dv mv u v.
         prepare_images K raw_a raw_a S = Inr (fa, fb, im)
       \<and> snd (first_stage K fa fb im S) = Inr st0
       \<and> snd (pass_loop (loop_body K fa fb) (iterations S) st0) = Inr st
       \<and> pu st = MaskedArray du mu \<and> pv st = MaskedArray dv mv
       \<and> (case im of
             Some m \<Rightarrow> masked_array (fill_zero du mu) (mask_on_grid K m (py st) (px st)) = Inr u
                      \<and> masked_array (fill_zero dv mv) (mask_on_grid K m (py st) (px st)) = Inr v
                      \<and> saved_mask out = mask_on_grid K m (py st) (px st)
           | None \<Rightarrow> u = nomask_array (fill_zero du mu) \<and> v = nomask_array (fill_zero dv mv)
                      \<and> saved_mask out = pmask st)
       \<and> saved_u out = neg_flip u \<and> saved_v out = neg_flip v
       \<and> (\<forall>r c. r < length du \<and> r < length mu \<and> c < length (du ! r) \<and> c < length (mu ! r)
              \<longrightarrow> getdata (saved_u out) ! (min (length du) (length mu) - 1 - r) ! c
                  = (if mu ! r ! c then 0 else - (du ! r ! c)))
       \<and> (\<forall>r c. r < length dv \<and> r < length mv \<and> c < length (dv ! r) \<and> c < length (mv ! r)
              \<longrightarrow> getdata (saved_v out) ! (min (length dv) (length mv) - 1 - r) ! c
                  = (if mv ! r ! c then 0 else - (dv ! r ! c)))
       \<and> saved_x out = px st \<and> saved_y out = py st \<and> saved_flags out = pflags st))
   \<and> (let K = example_collab 1 2 flag_first (repair_with 7) halve;
        raw_a = replicate 3 [1, 2, 3, 4, 5, 6];
        S = example_settings\<lparr>windowsizes := [3, 3, 3]\<rparr>;
        out = \<lparr>saved_x = [[3 / 2, 9 / 2]], saved_y = [[3 / 2, 3 / 2]],
                 saved_u = NDArray [[- 8, - 8]], saved_v = NDArray [[- 9, - 9]],
                 saved_flags = [[True, False]], saved_mask = [[False, False]]\<rparr>
    in snd (multipass_gpu K raw_a raw_a S) = Inr out
     \<and> (\<exists>fa fb st0 st.
         prepare_images_gpu raw_a raw_a S = Inr (fa, fb)
       \<and> snd (first_stage K fa fb None S) = Inr st0
       \<and> snd (pass_loop (loop_body_gpu K fa fb) (iterations S) st0) = Inr st
       \<and> out = \<lparr>saved_x = px st, saved_y = py st, saved_u = neg_flip (pu st),
                 saved_v = neg_flip (pv st), saved_flags = pflags st,
                 saved_mask = zeros_like (pu st)\<rparr>))"
proof -
  let ?K = "example_collab 1 2 flag_first (repair_with 7) halve"
  let ?raw_a = "[[1, 2, 3, 4], [5, 6, 7, 8]] :: real list list"
  let ?S = "example_settings\<lparr>windowsizes := [2, 2], num_iterations := 2, static_mask := Some [[False, False, False, False], [False, True, False, False]]\<rparr>"
  let ?out = "\<lparr>saved_x = [[1, 3]], saved_y = [[1, 1]], saved_u = MaskedArray [[0, - 8]] [[True, False]], saved_v = MaskedArray [[0, - 9]] [[True, False]], saved_flags = [[True, False]], saved_mask = [[True, False]]\<rparr>"
  let ?Kg = "example_collab 1 2 flag_first (repair_with 7) halve"
  let ?raw_ag = "replicate 3 [1, 2, 3, 4, 5, 6] :: real list list"
  let ?Sg = "example_settings\<lparr>windowsizes := [3, 3, 3]\<rparr>"
  let ?outg = "\<lparr>saved_x = [[3 / 2, 9 / 2]], saved_y = [[3 / 2, 3 / 2]], saved_u = NDArray [[- 8, - 8]], saved_v = NDArray [[- 9, - 9]], saved_flags = [[True, False]], saved_mask = [[False, False]]\<rparr>"
  have h: "snd (multipass ?K ?raw_a ?raw_a ?S) = Inr ?out"
    by code_simp
  have hg: "snd (multipass_gpu ?Kg ?raw_ag ?raw_ag ?Sg) = Inr ?outg"
    by code_simp
  note t = finalizing_step [of ?K ?raw_a ?raw_a ?S ?out]
  note tg = finalizing_step [of ?Kg ?raw_ag ?raw_ag ?Sg ?outg]
  from t h have c: "(\<exists>fa fb im st0 st du mu dv mv u v.
            prepare_images ?K ?raw_a ?raw_a ?S = Inr (fa, fb, im)
          \<and> snd (first_stage ?K fa fb im ?S) = Inr st0
          \<and> snd (pass_loop (loop_body ?K fa fb) (iterations ?S) st0) = Inr st
          \<and> pu st = MaskedArray du mu \<and> pv st = MaskedArray dv mv
          \<and> (case im of
                Some m \<Rightarrow> masked_array (fill_zero du mu) (mask_on_grid ?K m (py st) (px st)) = Inr u
                         \<and> masked_array (fill_zero dv mv) (mask_on_grid ?K m (py st) (px st)) = Inr v
                         \<and> saved_mask ?out = mask_on_grid ?K m (py st) (px st)
              | None \<Rightarrow> u = nomask_array (fill_zero du mu) \<and> v = nomask_array (fill_zero dv mv)
                         \<and> saved_mask ?out = pmask st)
          \<and> saved_u ?out = neg_flip u \<and> saved_v ?out = neg_flip v
          \<and> (\<forall>r c. r < length du \<and> r < length mu \<and> c < length (du ! r) \<and> c < length (mu ! r)
                 \<longrightarrow> getdata (saved_u ?out) ! (min (length du) (length mu) - 1 - r) ! c
                     = (if mu ! r ! c then 0 else - (du ! r ! c)))
          \<and> (\<forall>r c. r < length dv \<and> r < length mv \<and> c < length (dv ! r) \<and> c < length (mv ! r)
                 \<longrightarrow> getdata (saved_v ?out) ! (min (length dv) (length mv) - 1 - r) ! c
                     = (if mv ! r ! c then 0 else - (dv ! r ! c)))
          \<and> saved_x ?out = px st \<and> saved_y ?out = py st \<and> saved_flags ?out = pflags st)"
    by blast
  from tg hg have cg: "(\<exists>fa fb st0 st.
            prepare_images_gpu ?raw_ag ?raw_ag ?Sg = Inr (fa, fb)
          \<and> snd (first_stage ?Kg fa fb None ?Sg) = Inr st0
          \<and> snd (pass_loop (loop_body_gpu ?Kg fa fb) (iterations ?Sg) st0) = Inr st
          \<and> ?outg = \<lparr>saved_x = px st, saved_y = py st, saved_u = neg_flip (pu st),
                    saved_v = neg_flip (pv st), saved_flags = pflags st,
                    saved_mask = zeros_like (pu st)\<rparr>)"
    by blast
  from h c hg cg show ?thesis unfolding Let_def by blast
qed

text \<open>
  Claim C6 as stated fails for cells that are invalid but not masked: the last
  validation flags the first cell, and the run saves \<open>-2\<close> and \<open>-4\<close> there, not 0.
\<close>

theorem flagged_cells_are_exported:
  "multipass (example_collab 1 2 flag_first no_repair halve) [[5, 6]] [[5, 6]]
       (example_settings\<lparr>windowsizes := [1, 1, 1], num_iterations := 2\<rparr>)
     = ([Correlate 0, Validate 0, Repair 0, Correlate 1, Validate 1, Save],
        Inr \<lparr>saved_x = [[1 / 2, 3 / 2]], saved_y = [[1 / 2, 1 / 2]],
              saved_u = MaskedArray [[- 2, - 2]] [[False, False]],
              saved_v = MaskedArray [[- 4, - 4]] [[False, False]],
              saved_flags = [[True, False]], saved_mask = [[False, False]]\<rparr>)"
  by code_simp

section \<open>Smoothing of a single pass\<close>

text \<open>
  Claim C7, a failing input: one pass with smoothing on. The first pass smooths whenever
  \<open>smoothn\<close> is set; unlike the loop it does not test \<open>num_iterations\<close>. The GPU run
  saves the smoothed field (\<open>-1/2\<close>, \<open>-1\<close>) where it saves \<open>-1\<close>, \<open>-2\<close> with smoothing
  off. The CPU run makes the same two smoothing calls and then stops at line 285.
\<close>

theorem smoothing_reaches_final_output:
  "multipass_gpu (example_collab 1 2 flag_first no_repair halve) [[5]] [[5]]
       (example_settings\<lparr>windowsizes := [1], overlap := [0], num_iterations := 1,
          smoothn := True\<rparr>)
     = ([Correlate 0, Smooth 0, Smooth 0, Validate 0, Save],
        Inr \<lparr>saved_x = [[1 / 2]], saved_y = [[1 / 2]],
              saved_u = NDArray [[- (1 / 2)]], saved_v = NDArray [[- 1]],
              saved_flags = [[True]], saved_mask = [[False]]\<rparr>)
   \<and> multipass_gpu (example_collab 1 2 flag_first no_repair halve) [[5]] [[5]]
       (example_settings\<lparr>windowsizes := [1], overlap := [0], num_iterations := 1,
          smoothn := False\<rparr>)
     = ([Correlate 0, Validate 0, Save],
        Inr \<lparr>saved_x = [[1 / 2]], saved_y = [[1 / 2]],
              saved_u = NDArray [[- 1]], saved_v = NDArray [[- 2]],
              saved_flags = [[True]], saved_mask = [[False]]\<rparr>)
   \<and> multipass (example_collab 1 2 flag_first no_repair halve) [[5]] [[5]]
       (example_settings\<lparr>windowsizes := [1], overlap := [0], num_iterations := 1,
          smoothn := True\<rparr>)
     = ([Correlate 0, Smooth 0, Smooth 0, Validate 0],
        Inl (NameError ''local variable i referenced before assignment''))"
  by code_simp

section \<open>The grid mask that is saved\<close>

text \<open>
  Claim C8. A CPU run that has an image mask and returns saves as grid mask the image
  mask sampled at the saved grid coordinates, cell by cell; nothing else enters. A GPU
  run that returns saves a grid mask without a single \<open>True\<close>.
\<close>

theorem grid_mask_is_sampled_image_mask:
  "(prepare_images K raw_a raw_b S = Inr (fa, fb, Some m)
      \<and> snd (multipass K raw_a raw_b S) = Inr out
      \<longrightarrow> saved_mask out = mask_on_grid K m (saved_y out) (saved_x out)
        \<and> saved_mask out = map2 (map2 (sample_mask K m)) (saved_y out) (saved_x out))
   \<and> (snd (multipass_gpu K raw_a raw_b S) = Inr out
      \<longrightarrow> (\<forall>row \<in> set (saved_mask out). \<forall>b \<in> set row. \<not> b))"
proof (intro conjI impI)
  assume h: "prepare_images K raw_a raw_b S = Inr (fa, fb, Some m)
      \<and> snd (multipass K raw_a raw_b S) = Inr out"
  from multipass_completed [of K raw_a raw_b S out] h obtain st where
    z: "snd (finalize K (Some m) st) = Inr out"
    by auto
  from finalize_Inr [OF z] show a: "saved_mask out = mask_on_grid K m (saved_y out) (saved_x out)"
    by auto
  then show "saved_mask out = map2 (map2 (sample_mask K m)) (saved_y out) (saved_x out)"
    by (simp add: mask_on_grid_def)
next
  assume c: "snd (multipass_gpu K raw_a raw_b S) = Inr out"
  then show "\<forall>row \<in> set (saved_mask out). \<forall>b \<in> set row. \<not> b"
    unfolding multipass_gpu_def
    by (auto simp: snd_bindR_Inr_iff split_beta finalize_gpu_def zeros_like_def)
qed

theorem grid_mask_is_sampled_image_mask_witness:
  "(let K = example_collab 1 2 flag_first (repair_with 7) halve;
        raw = [[1, 2, 3, 4], [5, 6, 7, 8]];
        m = [[False, False, False, False], [False, True, False, False]];
        S = example_settings\<lparr>windowsizes := [2, 2], num_iterations := 2,
              static_mask := Some m\<rparr>;
        out = \<lparr>saved_x = [[1, 3]], saved_y = [[1, 1]],
                 saved_u = MaskedArray [[0, - 8]] [[True, False]],
                 saved_v = MaskedArray [[0, - 9]] [[True, False]],
                 saved_flags = [[True, False]], saved_mask = [[True, False]]\<rparr>
    in prepare_images K raw raw S
         = Inr ([[1, 2, 3, 4], [5, 0, 7, 8]], [[1, 2, 3, 4], [5, 0, 7, 8]], Some m)
     \<and> snd (multipass K raw raw S) = Inr out
     \<and> saved_mask out = mask_on_grid K m (saved_y out) (saved_x out)
     \<and> mask_on_grid K m [[1, 1]] [[1, 3]] = [[True, False]])
   \<and> (let K = example_collab 1 2 flag_first (repair_with 7) halve;
        raw = replicate 3 [1, 2, 3, 4, 5, 6];
        S = example_settings\<lparr>windowsizes := [3, 3, 3],
              static_mask := Some (replicate 3 (replicate 6 True))\<rparr>;
        out = \<lparr>saved_x = [[3 / 2, 9 / 2]], saved_y = [[3 / 2, 3 / 2]],
                 saved_u = NDArray [[- 8, - 8]], saved_v = NDArray [[- 9, - 9]],
                 saved_flags = [[True, False]], saved_mask = [[False, False]]\<rparr>
    in snd (multipass_gpu K raw raw S) = Inr out
     \<and> True \<notin> set (concat (saved_mask out)))"
proof -
  let ?K = "example_collab 1 2 flag_first (repair_with 7) halve"
  let ?A = "[[1, 2, 3, 4], [5, 6, 7, 8 :: real]]"
  let ?B = "[[1, 2, 3, 4], [5, 0, 7, 8 :: real]]"
  let ?m = "[[False, False, False, False], [False, True, False, False]]"
  let ?S = "example_settings\<lparr>windowsizes := [2, 2], num_iterations := 2,
              static_mask := Some ?m\<rparr>"
  let ?out = "\<lparr>saved_x = [[1, 3]], saved_y = [[1, 1]],
                 saved_u = MaskedArray [[0, - 8]] [[True, False]],
                 saved_v = MaskedArray [[0, - 9]] [[True, False]],
                 saved_flags = [[True, False]], saved_mask = [[True, False]]\<rparr>"
  let ?G = "replicate 3 [1, 2, 3, 4, 5, 6 :: real]"
  let ?T = "example_settings\<lparr>windowsizes := [3, 3, 3],
              static_mask := Some (replicate 3 (replicate 6 True))\<rparr>"
  let ?outg = "\<lparr>saved_x = [[3 / 2, 9 / 2]], saved_y = [[3 / 2, 3 / 2]],
                 saved_u = NDArray [[- 8, - 8]], saved_v = NDArray [[- 9, - 9]],
                 saved_flags = [[True, False]], saved_mask = [[False, False]]\<rparr>"
  have p: "prepare_images ?K ?A ?A ?S = Inr (?B, ?B, Some ?m)" by code_simp
  have h: "snd (multipass ?K ?A ?A ?S) = Inr ?out" by code_simp
  have v: "mask_on_grid ?K ?m [[1, 1]] [[1, 3]] = [[True, False]]" by code_simp
  have hg: "snd (multipass_gpu ?K ?G ?G ?T) = Inr ?outg" by code_simp
  from grid_mask_is_sampled_image_mask [of ?K ?A ?A ?S ?B ?B ?m ?out] p h
  have a: "saved_mask ?out = mask_on_grid ?K ?m (saved_y ?out) (saved_x ?out)"
    by blast
  from grid_mask_is_sampled_image_mask [of ?K ?G ?G ?T ?B ?B ?m ?outg] hg
  have "\<forall>row \<in> set (saved_mask ?outg). \<forall>b \<in> set row. \<not> b"
    by blast
  then have g: "True \<notin> set (concat (saved_mask ?outg))"
    by auto
  from p h a v hg g show ?thesis unfolding Let_def by blast
qed

text \<open>
  Claim C8 as stated fails in the GPU file: with a static mask that covers the whole
  frame, the saved grid mask is \<open>False\<close>.
\<close>

theorem gpu_ignores_image_mask:
  "map_sum id saved_mask
     (snd (multipass_gpu (example_collab 1 2 flag_first no_repair halve) [[5]] [[5]]
        (example_settings\<lparr>windowsizes := [1, 1, 1], num_iterations := 1,
           static_mask := Some [[True]]\<rparr>)))
     = Inr [[False]]"
  by code_simp

section \<open>Flags after a repair\<close>

text \<open>
  Claim C9, a failing input: pass 1 of 3 in the GPU file, with a repair that leaves
  the field as it is. Validation flags the first cell, the field keeps its value there,
  and the flags returned are all \<open>False\<close>: line 669 replaces them by zeros after every
  repair. The CPU file returns the validation's flags on the same input.
\<close>

theorem gpu_clears_flags_after_repair:
  "map_sum id (\<lambda>st. (pu st, pflags st))
     (snd (multipass_img_deform_gpu (example_collab 1 2 flag_first no_repair halve)
        (replicate 3 [1, 2, 3, 4, 5, 6]) (replicate 3 [1, 2, 3, 4, 5, 6]) 1
        [[3 / 2, 9 / 2]] [[3 / 2, 3 / 2]] (NDArray [[1, 1]]) (NDArray [[2, 2]])
        (example_settings\<lparr>windowsizes := [3, 3, 3]\<rparr>)))
     = Inr (NDArray [[2, 2]], [[False, False]])
   \<and> map_sum id (\<lambda>st. (pu st, pflags st))
     (snd (multipass_img_deform (example_collab 1 2 flag_first no_repair halve)
        (replicate 3 [1, 2, 3, 4, 5, 6]) (replicate 3 [1, 2, 3, 4, 5, 6]) 1
        [[3 / 2, 9 / 2]] [[3 / 2, 3 / 2]] (NDArray [[1, 1]]) (NDArray [[2, 2]])
        (example_settings\<lparr>windowsizes := [3, 3, 3]\<rparr>)))
     = Inr (MaskedArray [[2, 2]] [[False, False]], [[True, False]])"
  by code_simp

end
